theory Spec2Isabelle
  imports Complex_Main
begin

section \<open>JavaScript numbers\<close>

text \<open>
  A JavaScript \<open>number\<close> is modelled as either the not-a-number sentinel or a finite
  value. Finite doubles are idealised as reals: rounding, overflow and the two
  infinities are outside the model (every division of the modelled code is guarded
  against a zero divisor, so no infinity is produced from finite operands).
\<close>

datatype number = NaN | Fin real

text \<open>\<open>Number.isFinite\<close>, also applied to possibly \<open>undefined\<close> values.\<close>

fun isFinite :: "number \<Rightarrow> bool" where
  "isFinite NaN = False"
| "isFinite (Fin _) = True"

fun isFiniteOpt :: "number option \<Rightarrow> bool" where
  "isFiniteOpt None = False"
| "isFiniteOpt (Some x) = isFinite x"

text \<open>
  Arithmetic and comparison on numbers: an operation with a \<open>NaN\<close> operand yields
  \<open>NaN\<close>, a comparison with a \<open>NaN\<close> operand is false. Where JavaScript would
  produce an infinity (division by zero) the model yields the non-finite value \<open>NaN\<close>.
\<close>

fun jsAdd :: "number \<Rightarrow> number \<Rightarrow> number" where
  "jsAdd (Fin a) (Fin b) = Fin (a + b)"
| "jsAdd _ _ = NaN"

fun jsSub :: "number \<Rightarrow> number \<Rightarrow> number" where
  "jsSub (Fin a) (Fin b) = Fin (a - b)"
| "jsSub _ _ = NaN"

fun jsMul :: "number \<Rightarrow> number \<Rightarrow> number" where
  "jsMul (Fin a) (Fin b) = Fin (a * b)"
| "jsMul _ _ = NaN"

fun jsDiv :: "number \<Rightarrow> number \<Rightarrow> number" where
  "jsDiv (Fin a) (Fin b) = (if b = 0 then NaN else Fin (a / b))"
| "jsDiv _ _ = NaN"

fun jsLt :: "number \<Rightarrow> number \<Rightarrow> bool" where
  "jsLt (Fin a) (Fin b) = (a < b)"
| "jsLt _ _ = False"

fun jsLe :: "number \<Rightarrow> number \<Rightarrow> bool" where
  "jsLe (Fin a) (Fin b) = (a \<le> b)"
| "jsLe _ _ = False"

definition jsGt :: "number \<Rightarrow> number \<Rightarrow> bool" where
  "jsGt a b = jsLt b a"

definition jsGe :: "number \<Rightarrow> number \<Rightarrow> bool" where
  "jsGe a b = jsLe b a"

section \<open>Strings\<close>

text \<open>
  Strings are byte lists holding the UTF-8 encoding of the JavaScript string; literals
  with characters outside ASCII are written out as their bytes. The helpers below model
  the string operations the code uses, on ASCII: \<open>toUpperCase\<close> maps the letters a-z,
  \<open>trim\<close> strips ASCII white space, \<open>showNat\<close> and \<open>showInt\<close> are the decimal
  rendering of an integer inside a template literal.
\<close>

definition toUpperChar :: "char \<Rightarrow> char" where
  "toUpperChar c =
     (case map_of (zip ''abcdefghijklmnopqrstuvwxyz'' ''ABCDEFGHIJKLMNOPQRSTUVWXYZ'') c of
        Some u \<Rightarrow> u
      | None \<Rightarrow> c)"

definition toUpperCase :: "string \<Rightarrow> string" where
  "toUpperCase s = map toUpperChar s"

definition isSpace :: "char \<Rightarrow> bool" where
  "isSpace c = (c \<in> set [CHR '' '', CHR 0x09, CHR 0x0A, CHR 0x0B, CHR 0x0C, CHR 0x0D])"

definition trim :: "string \<Rightarrow> string" where
  "trim s = rev (dropWhile isSpace (rev (dropWhile isSpace s)))"

definition digitChar :: "nat \<Rightarrow> char" where
  "digitChar d = ''0123456789'' ! d"

fun showNat :: "nat \<Rightarrow> string" where
  "showNat n = (if n < 10 then [digitChar n] else showNat (n div 10) @ [digitChar (n mod 10)])"

declare showNat.simps [simp del]

definition showInt :: "int \<Rightarrow> string" where
  "showInt i = (if i < 0 then CHR ''-'' # showNat (nat (- i)) else showNat (nat i))"

text \<open>\<open>Array.prototype.join\<close> on strings.\<close>

fun joinWith :: "string \<Rightarrow> string list \<Rightarrow> string" where
  "joinWith sep [] = []"
| "joinWith sep [x] = x"
| "joinWith sep (x # y # ys) = x @ sep @ joinWith sep (y # ys)"

section \<open>Data model (types.ts)\<close>

record Quarter =
  period :: string
  revenue :: number
  grossProfit :: number
  sga :: number
  rnd :: number
  ocf :: number
  capex :: number
  inventory :: number
  receivables :: number
  cash :: "number option"
  totalDebt :: "number option"
  dilutedShares :: "number option"
  ebitda :: "number option"
  netIncome :: "number option"
  fiscalYear :: "number option"
  fiscalQuarter :: "number option"

record Fundamentals =
  ticker :: string
  marketCap :: number
  quarters :: "Quarter list"

text \<open>\<open>Partial<Quarter>\<close>: every field may be \<open>undefined\<close> (\<open>None\<close>).\<close>

record QuarterPatch =
  p_period :: "string option"
  p_revenue :: "number option"
  p_grossProfit :: "number option"
  p_sga :: "number option"
  p_rnd :: "number option"
  p_ocf :: "number option"
  p_capex :: "number option"
  p_inventory :: "number option"
  p_receivables :: "number option"
  p_cash :: "number option"
  p_totalDebt :: "number option"
  p_dilutedShares :: "number option"
  p_ebitda :: "number option"
  p_netIncome :: "number option"
  p_fiscalYear :: "number option"
  p_fiscalQuarter :: "number option"

section \<open>Quarter merge layer (fetchers.ts)\<close>

text \<open>The store \<open>Map<string, Quarter>\<close> keyed by the ISO period.\<close>

type_synonym QuarterStore = "string \<rightharpoonup> Quarter"

definition emptyQuarter :: "string \<Rightarrow> Quarter" where
  "emptyQuarter isoKey =
     \<lparr> period = isoKey, revenue = NaN, grossProfit = NaN, sga = NaN, rnd = NaN, ocf = NaN,
       capex = NaN, inventory = NaN, receivables = NaN, cash = Some NaN,
       totalDebt = Some NaN, dilutedShares = None, ebitda = Some NaN,
       netIncome = Some NaN, fiscalYear = None, fiscalQuarter = None \<rparr>"

text \<open>
  \<open>ensureQuarter\<close> returns the stored record, creating the all-unknown one on first
  reference; the model returns the record together with the (possibly extended) store.
\<close>

definition ensureQuarter :: "QuarterStore \<Rightarrow> string \<Rightarrow> Quarter \<times> QuarterStore" where
  "ensureQuarter byDate isoKey =
     (case byDate isoKey of
        Some existing \<Rightarrow> (existing, byDate)
      | None \<Rightarrow> (emptyQuarter isoKey, byDate(isoKey \<mapsto> emptyQuarter isoKey)))"

text \<open>
  One guarded assignment of \<open>applyPatch\<close>:
  \<open>if (patch.x !== undefined && Number.isFinite(patch.x)) quarter.x = patch.x\<close>
  for a numeric field, and \<open>if (patch.x !== undefined) quarter.x = patch.x\<close> for the
  fiscal year and quarter.
\<close>

definition assignFinite :: "number option \<Rightarrow> (number \<Rightarrow> Quarter \<Rightarrow> Quarter) \<Rightarrow> Quarter \<Rightarrow> Quarter" where
  "assignFinite v setter q = (if v \<noteq> None \<and> isFiniteOpt v then setter (the v) q else q)"

definition assignDefined :: "number option \<Rightarrow> (number \<Rightarrow> Quarter \<Rightarrow> Quarter) \<Rightarrow> Quarter \<Rightarrow> Quarter" where
  "assignDefined v setter q = (if v \<noteq> None then setter (the v) q else q)"

text \<open>The fifteen guarded assignments, performed in source order on the stored record.\<close>

definition patchFields :: "Quarter \<Rightarrow> QuarterPatch \<Rightarrow> Quarter" where
  "patchFields quarter patch =
     fold (\<lambda>assignment q. assignment q)
       [ assignFinite (p_revenue patch) (\<lambda>v q. q\<lparr>revenue := v\<rparr>),
         assignFinite (p_grossProfit patch) (\<lambda>v q. q\<lparr>grossProfit := v\<rparr>),
         assignFinite (p_sga patch) (\<lambda>v q. q\<lparr>sga := v\<rparr>),
         assignFinite (p_rnd patch) (\<lambda>v q. q\<lparr>rnd := v\<rparr>),
         assignFinite (p_ocf patch) (\<lambda>v q. q\<lparr>ocf := v\<rparr>),
         assignFinite (p_capex patch) (\<lambda>v q. q\<lparr>capex := v\<rparr>),
         assignFinite (p_inventory patch) (\<lambda>v q. q\<lparr>inventory := v\<rparr>),
         assignFinite (p_receivables patch) (\<lambda>v q. q\<lparr>receivables := v\<rparr>),
         assignFinite (p_cash patch) (\<lambda>v q. q\<lparr>cash := Some v\<rparr>),
         assignFinite (p_totalDebt patch) (\<lambda>v q. q\<lparr>totalDebt := Some v\<rparr>),
         assignFinite (p_dilutedShares patch) (\<lambda>v q. q\<lparr>dilutedShares := Some v\<rparr>),
         assignFinite (p_ebitda patch) (\<lambda>v q. q\<lparr>ebitda := Some v\<rparr>),
         assignFinite (p_netIncome patch) (\<lambda>v q. q\<lparr>netIncome := Some v\<rparr>),
         assignDefined (p_fiscalYear patch) (\<lambda>v q. q\<lparr>fiscalYear := Some v\<rparr>),
         assignDefined (p_fiscalQuarter patch) (\<lambda>v q. q\<lparr>fiscalQuarter := Some v\<rparr>) ]
       quarter"

text \<open>
  \<open>applyPatch(byDate, iso, patch)\<close>: a \<open>null\<close> or empty \<open>iso\<close> is ignored
  (\<open>if (!iso) return\<close>); otherwise the record of \<open>iso\<close> is mutated in place, which
  the model writes as an update of the store at \<open>iso\<close>.
\<close>

definition applyPatch :: "QuarterStore \<Rightarrow> string option \<Rightarrow> QuarterPatch \<Rightarrow> QuarterStore" where
  "applyPatch byDate isoKey patch =
     (case isoKey of
        None \<Rightarrow> byDate
      | Some k \<Rightarrow>
          if k = [] then byDate
          else (case ensureQuarter byDate k of
                  (quarter, byDate') \<Rightarrow> byDate'(k \<mapsto> patchFields quarter patch)))"

section \<open>Share-count normalisation (scoring.ts)\<close>

text \<open>
  The loop of \<open>normalizeShares\<close> over the remaining series, with the loop variables
  \<open>factor\<close> and \<open>prevRaw\<close> (\<open>None\<close> is \<open>null\<close>); the result is the list of the values
  pushed to \<open>normalized\<close> from here on.
\<close>

fun normalizeSharesLoop :: "number list \<Rightarrow> number \<Rightarrow> number option \<Rightarrow> number list" where
  "normalizeSharesLoop [] factor prevRaw = []"
| "normalizeSharesLoop (raw # rest) factor prevRaw =
     (if \<not> isFinite raw \<or> jsLe raw (Fin 0) then
        NaN # normalizeSharesLoop rest factor None
      else
        let factor' =
          (case prevRaw of
             None \<Rightarrow> factor
           | Some prev \<Rightarrow>
               if isFinite prev \<and> jsGt prev (Fin 0) then
                 (let ratio = jsDiv prev raw in
                  if jsGt ratio (Fin 4.5) \<and> jsLt ratio (Fin 11.5) then jsMul factor ratio
                  else if jsLt ratio (Fin 0.22) \<and> jsGt ratio (Fin 0.08) then jsMul factor ratio
                  else factor)
               else factor)
        in jsMul raw factor' # normalizeSharesLoop rest factor' (Some raw))"

definition normalizeShares :: "number list \<Rightarrow> number list" where
  "normalizeShares series = normalizeSharesLoop series (Fin 1) None"

section \<open>Provider errors and the HTTP helpers (fetchers.ts)\<close>

text \<open>
  A thrown value. \<open>createProviderError\<close> builds an \<open>Error\<close> carrying the provider, the
  \<open>recoverable\<close> flag and the reason; an error thrown by the platform (a rejected
  \<open>fetch\<close>, a failed body read) has only a name and a message, its other fields are
  \<open>undefined\<close> (\<open>None\<close>). The optional \<open>cause\<close> is not tracked.
\<close>

record ProviderError =
  name :: string
  message :: string
  provider :: "string option"
  recoverable :: "bool option"
  reason :: "string option"

definition createProviderError :: "string \<Rightarrow> string \<Rightarrow> bool \<Rightarrow> string option \<Rightarrow> ProviderError" where
  "createProviderError prov msg recov rsn =
     \<lparr> name = prov @ ''ProviderError'',
       message = ''['' @ prov @ ''] '' @ msg,
       provider = Some prov,
       recoverable = Some recov,
       reason = rsn \<rparr>"

text \<open>
  The outcome of \<open>fetch\<close>: the promise rejects with an error, or resolves to a response
  whose body read (\<open>response.text()\<close>) in turn rejects or yields the text.
\<close>

record Response =
  status :: nat
  statusText :: string
  bodyText :: "ProviderError + string"

datatype FetchResult = Rejected ProviderError | Resolved Response

text \<open>The message texts of the HTTP helpers.\<close>

definition MSG_NETWORK :: string where
  "MSG_NETWORK = [CHR 0xE7, CHR 0xB6, CHR 0xB2, CHR 0xE8, CHR 0xB7, CHR 0xAF, CHR 0xE9, CHR 0x8C, CHR 0xAF, CHR 0xE8, CHR 0xAA, CHR 0xA4, CHR 0xEF, CHR 0xBC, CHR 0x9A]"

definition MSG_PARSE :: string where
  "MSG_PARSE = [CHR 0xE7, CHR 0x84, CHR 0xA1, CHR 0xE6, CHR 0xB3, CHR 0x95, CHR 0xE8, CHR 0xA7, CHR 0xA3, CHR 0xE6, CHR 0x9E, CHR 0x90, CHR 0xE5, CHR 0x9B, CHR 0x9E, CHR 0xE6, CHR 0x87, CHR 0x89] @ '' JSON'' @ [CHR 0xE3, CHR 0x80, CHR 0x82]"

definition MSG_QUOTA :: string where
  "MSG_QUOTA = ''API '' @ [CHR 0xE9, CHR 0x85, CHR 0x8D, CHR 0xE9, CHR 0xA1, CHR 0x8D, CHR 0xE5, CHR 0xB7, CHR 0xB2, CHR 0xE7, CHR 0x94, CHR 0xA8, CHR 0xE7, CHR 0x9B, CHR 0xA1, CHR 0xEF, CHR 0xBC, CHR 0x88] @ ''HTTP 429'' @ [CHR 0xEF, CHR 0xBC, CHR 0x89, CHR 0xE3, CHR 0x80, CHR 0x82]"

definition MSG_QUOTA_SEC :: string where
  "MSG_QUOTA_SEC = ''SEC API '' @ [CHR 0xE9, CHR 0x85, CHR 0x8D, CHR 0xE9, CHR 0xA1, CHR 0x8D, CHR 0xE9, CHR 0x99, CHR 0x90, CHR 0xE5, CHR 0x88, CHR 0xB6] @ '' (HTTP 429)'' @ [CHR 0xE3, CHR 0x80, CHR 0x82]"

definition MSG_UNAUTHORIZED_PRE :: string where
  "MSG_UNAUTHORIZED_PRE = [CHR 0xE6, CHR 0x8E, CHR 0x88, CHR 0xE6, CHR 0xAC, CHR 0x8A, CHR 0xE5, CHR 0x8F, CHR 0x97, CHR 0xE9, CHR 0x99, CHR 0x90, CHR 0xEF, CHR 0xBC, CHR 0x88] @ ''HTTP ''"

definition MSG_UNAUTHORIZED_POST :: string where
  "MSG_UNAUTHORIZED_POST = [CHR 0xEF, CHR 0xBC, CHR 0x89, CHR 0xE3, CHR 0x80, CHR 0x82]"

text \<open>
  \<open>fetchJson(url, provider)\<close>, used by the FMP and Finnhub adapters. \<open>fetch\<close> is the
  platform's request function acting on a world state, \<open>JSON_parse\<close> is \<open>JSON.parse\<close>
  (\<open>None\<close> is its \<open>SyntaxError\<close>). The result is the thrown error or the payload
  (\<open>None\<close> is the \<open>null\<close> payload of an empty body).
\<close>

definition fetchJson ::
  "(string \<Rightarrow> (string \<times> string) list \<Rightarrow> 'w \<Rightarrow> FetchResult \<times> 'w) \<Rightarrow> (string \<Rightarrow> 'j option) \<Rightarrow>
   string \<Rightarrow> string \<Rightarrow> 'w \<Rightarrow> (ProviderError + 'j option) \<times> 'w" where
  "fetchJson fetch JSON_parse url prov w =
     (case fetch url [(''accept'', ''application/json'')] w of
        (Rejected err, w') \<Rightarrow>
          (Inl (createProviderError prov (MSG_NETWORK @ message err) True (Some ''network'')), w')
      | (Resolved response, w') \<Rightarrow>
          (case bodyText response of
             Inl err \<Rightarrow> (Inl err, w')
           | Inr txt \<Rightarrow>
               if txt \<noteq> [] \<and> JSON_parse txt = None then
                 (Inl (createProviderError prov MSG_PARSE True (Some ''parse'')), w')
               else if status response = 429 then
                 (Inl (createProviderError prov MSG_QUOTA True (Some ''quota'')), w')
               else if status response = 401 \<or> status response = 403 then
                 (Inl (createProviderError prov
                   (MSG_UNAUTHORIZED_PRE @ showNat (status response) @ MSG_UNAUTHORIZED_POST)
                   True (Some ''unauthorized'')), w')
               else if status response \<ge> 400 then
                 (Inl (createProviderError prov
                   (trim (''HTTP '' @ showNat (status response) @ '' '' @ statusText response))
                   True (Some (''http-'' @ showNat (status response)))), w')
               else (Inr (if txt \<noteq> [] then JSON_parse txt else None), w')))"

text \<open>
  \<open>fetchJsonWithHeaders(url, headers)\<close>, used by the SEC adapter. It has no branch for
  the statuses 401 and 403.
\<close>

definition fetchJsonWithHeaders ::
  "(string \<Rightarrow> (string \<times> string) list \<Rightarrow> 'w \<Rightarrow> FetchResult \<times> 'w) \<Rightarrow> (string \<Rightarrow> 'j option) \<Rightarrow>
   string \<Rightarrow> (string \<times> string) list \<Rightarrow> 'w \<Rightarrow> (ProviderError + 'j option) \<times> 'w" where
  "fetchJsonWithHeaders fetch JSON_parse url headers w =
     (case fetch url headers w of
        (Rejected err, w') \<Rightarrow>
          (Inl (createProviderError ''SEC'' (MSG_NETWORK @ message err) True (Some ''network'')), w')
      | (Resolved response, w') \<Rightarrow>
          (case bodyText response of
             Inl err \<Rightarrow> (Inl err, w')
           | Inr txt \<Rightarrow>
               if txt \<noteq> [] \<and> JSON_parse txt = None then
                 (Inl (createProviderError ''SEC'' MSG_PARSE True (Some ''parse'')), w')
               else if status response = 429 then
                 (Inl (createProviderError ''SEC'' MSG_QUOTA_SEC True (Some ''quota'')), w')
               else if status response \<ge> 400 then
                 (Inl (createProviderError ''SEC''
                   (trim (''HTTP '' @ showNat (status response) @ '' '' @ statusText response))
                   True (Some (''http-'' @ showNat (status response)))), w')
               else (Inr (if txt \<noteq> [] then JSON_parse txt else None), w')))"

section \<open>Fallback orchestrator (fetchers.ts)\<close>

text \<open>
  An adapter (\<open>fetchFromSec\<close>, \<open>fetchFromFmp\<close>, \<open>fetchFromFinnhub\<close>) is an effectful
  operation from the symbol to \<open>Fundamentals\<close>: it acts on the world state and either
  throws (\<open>Inl\<close>) or returns (\<open>Inr\<close>).
\<close>

type_synonym 'w Handler = "string \<Rightarrow> 'w \<Rightarrow> (ProviderError + Fundamentals) \<times> 'w"

record 'w Provider =
  providerName :: string
  handler :: "'w Handler"

definition MSG_ALL_FAILED_PRE :: string where
  "MSG_ALL_FAILED_PRE = [CHR 0xE6, CHR 0x89, CHR 0x80, CHR 0xE6, CHR 0x9C, CHR 0x89, CHR 0xE5, CHR 0xA4, CHR 0x96, CHR 0xE9, CHR 0x83, CHR 0xA8, CHR 0xE8, CHR 0xB2, CHR 0xA1, CHR 0xE5, CHR 0xA0, CHR 0xB1, CHR 0xE4, CHR 0xBE, CHR 0x86, CHR 0xE6, CHR 0xBA, CHR 0x90, CHR 0xE7, CHR 0x9A, CHR 0x86, CHR 0xE5, CHR 0xA4, CHR 0xB1, CHR 0xE6, CHR 0x95, CHR 0x97, CHR 0xEF, CHR 0xBC, CHR 0x9A]"

definition MSG_ALL_FAILED :: string where
  "MSG_ALL_FAILED = [CHR 0xE6, CHR 0x89, CHR 0x80, CHR 0xE6, CHR 0x9C, CHR 0x89, CHR 0xE5, CHR 0xA4, CHR 0x96, CHR 0xE9, CHR 0x83, CHR 0xA8, CHR 0xE8, CHR 0xB2, CHR 0xA1, CHR 0xE5, CHR 0xA0, CHR 0xB1, CHR 0xE4, CHR 0xBE, CHR 0x86, CHR 0xE6, CHR 0xBA, CHR 0x90, CHR 0xE7, CHR 0x9A, CHR 0x86, CHR 0xE5, CHR 0xA4, CHR 0xB1, CHR 0xE6, CHR 0x95, CHR 0x97, CHR 0xE3, CHR 0x80, CHR 0x82]"

definition ERRORS_DELIMITER :: string where
  "ERRORS_DELIMITER = [CHR 0xEF, CHR 0xBD, CHR 0x9C]"

text \<open>
  The \<open>for\<close> loop over the providers with the accumulated \<open>errors\<close>, followed by the
  aggregate error thrown after the loop. The third component of the result is the list
  of lines written with \<open>console.warn\<close>.
\<close>

fun tryProviders ::
  "'w Provider list \<Rightarrow> string \<Rightarrow> string list \<Rightarrow> string list \<Rightarrow> 'w \<Rightarrow>
   (ProviderError + Fundamentals) \<times> 'w \<times> string list" where
  "tryProviders [] symbol errors console w =
     (let aggregate =
        (if errors \<noteq> [] then MSG_ALL_FAILED_PRE @ joinWith ERRORS_DELIMITER errors
         else MSG_ALL_FAILED)
      in (Inl (createProviderError ''DATA'' aggregate False (Some ''exhausted'')), w, console))"
| "tryProviders (p # ps) symbol errors console w =
     (case handler p symbol w of
        (Inr fundamentals, w') \<Rightarrow> (Inr fundamentals, w', console)
      | (Inl err, w') \<Rightarrow>
          (let msg = message err;
               console' = console @ [''[fetchFundamentals] '' @ msg];
               errors' = errors @ [msg]
           in if recoverable err \<noteq> Some True then (Inl err, w', console')
              else tryProviders ps symbol errors' console' w'))"

text \<open>
  \<open>fetchFundamentals(ticker)\<close>, given the three adapters.
\<close>

definition fetchFundamentals ::
  "'w Handler \<Rightarrow> 'w Handler \<Rightarrow> 'w Handler \<Rightarrow> string \<Rightarrow> 'w \<Rightarrow>
   (ProviderError + Fundamentals) \<times> 'w \<times> string list" where
  "fetchFundamentals fetchFromSec fetchFromFmp fetchFromFinnhub tickerArg w =
     (let symbol = toUpperCase tickerArg;
          providers =
            [ \<lparr> providerName = ''SEC'', handler = fetchFromSec \<rparr>,
              \<lparr> providerName = ''FMP'', handler = fetchFromFmp \<rparr>,
              \<lparr> providerName = ''Finnhub'', handler = fetchFromFinnhub \<rparr> ]
      in tryProviders providers symbol [] [] w)"

section \<open>Dates and conversions (dayjs, Date, Number)\<close>

text \<open>
  The scoring engine and the fact extractor read dates through the dayjs library. The
  library is not re-implemented: a dayjs value is either the invalid date or a valid
  instant, which carries its epoch milliseconds (\<open>valueOf()\<close>) and the index of the
  calendar quarter it falls in, \<open>4 * year() + quarter() - 1\<close>. What the platform computes
  from strings and the clock is a parameter of the model, collected in \<open>JsEnv\<close>:
  \<^item> \<open>dayjs\<close>: \<open>dayjs(s)\<close> for a string \<open>s\<close>;
  \<^item> \<open>nowMs\<close>, \<open>nowQuarter\<close>: the instant \<open>dayjs()\<close>, always valid;
  \<^item> \<open>cursorISO q i\<close>: \<open>toISOString()\<close> of the end of calendar quarter \<open>q\<close> moved back
    by \<open>i\<close> calls of \<open>subtract(1, "quarter")\<close>;
  \<^item> \<open>isoString\<close>: \<open>toISOString()\<close> of a valid instant, given its milliseconds;
  \<^item> \<open>diffDays\<close>: \<open>a.diff(b, "day")\<close> for valid instants \<open>a\<close>, \<open>b\<close>, given their milliseconds;
  \<^item> \<open>dateGetTime\<close>: \<open>new Date(s).getTime()\<close>, \<open>NaN\<close> when \<open>s\<close> does not parse;
  \<^item> \<open>stringToNumber\<close>: \<open>Number(s)\<close> for a string that is neither empty nor made of
    decimal digits only;
  \<^item> \<open>fractionToString\<close>: the text of a finite number that is not an integer, as a
    template literal renders it.
  The range limit of JavaScript dates is not modelled.
\<close>

datatype Dayjs = InvalidDate | Moment (valueOf: int) (quarterIndex: int)

record JsEnv =
  dayjs :: "string \<Rightarrow> Dayjs"
  nowMs :: int
  nowQuarter :: int
  cursorISO :: "int \<Rightarrow> nat \<Rightarrow> string"
  isoString :: "int \<Rightarrow> string"
  diffDays :: "int \<Rightarrow> int \<Rightarrow> int"
  dateGetTime :: "string \<Rightarrow> number"
  stringToNumber :: "string \<Rightarrow> number"
  fractionToString :: "real \<Rightarrow> string"

definition today :: "JsEnv \<Rightarrow> Dayjs" where
  "today env = Moment (nowMs env) (nowQuarter env)"

fun isValid :: "Dayjs \<Rightarrow> bool" where
  "isValid InvalidDate = False"
| "isValid (Moment _ _) = True"

text \<open>\<open>valueOf()\<close> as a number: \<open>NaN\<close> for the invalid date.\<close>

fun valueOfNum :: "Dayjs \<Rightarrow> number" where
  "valueOfNum InvalidDate = NaN"
| "valueOfNum (Moment ms _) = Fin (of_int ms)"

text \<open>\<open>a.isAfter(b)\<close> is \<open>b.valueOf() < a.valueOf()\<close>, false when either is invalid.\<close>

definition isAfter :: "Dayjs \<Rightarrow> Dayjs \<Rightarrow> bool" where
  "isAfter a b = jsLt (valueOfNum b) (valueOfNum a)"

text \<open>
  The template literal \<open>`${d.year()}Q${d.quarter()}`\<close> for a valid date in the calendar
  quarter of index \<open>q\<close>.
\<close>

definition labelOfQuarter :: "int \<Rightarrow> string" where
  "labelOfQuarter q = showInt (q div 4) @ ''Q'' @ showInt (q mod 4 + 1)"

text \<open>
  The cursor of the timeline loop: \<open>anchor.endOf("quarter")\<close> after some calls of
  \<open>subtract(1, "quarter")\<close>. \<open>endOf\<close> stays in the calendar quarter of the anchor, and each
  \<open>subtract\<close> moves to the quarter before (the day of the month is clamped to the
  length of the target month). An invalid anchor stays invalid.
\<close>

datatype Cursor = InvalidCursor | Cursor (anchorQuarter: int) (stepsBack: nat)

fun endOfQuarter :: "Dayjs \<Rightarrow> Cursor" where
  "endOfQuarter InvalidDate = InvalidCursor"
| "endOfQuarter (Moment ms q) = Cursor q 0"

fun subtractQuarter :: "Cursor \<Rightarrow> Cursor" where
  "subtractQuarter InvalidCursor = InvalidCursor"
| "subtractQuarter (Cursor q i) = Cursor q (Suc i)"

text \<open>
  \<open>toISOString()\<close> calls the native method, which throws a \<open>RangeError\<close> on the
  invalid date.
\<close>

definition rangeError :: ProviderError where
  "rangeError = \<lparr> name = ''RangeError'', message = ''Invalid time value'',
       provider = None, recoverable = None, reason = None \<rparr>"

fun toISOString :: "JsEnv \<Rightarrow> Cursor \<Rightarrow> ProviderError + string" where
  "toISOString env InvalidCursor = Inl rangeError"
| "toISOString env (Cursor q i) = Inr (cursorISO env q i)"

text \<open>\<open>year()\<close> and \<open>quarter()\<close> of the cursor; both are \<open>NaN\<close> on the invalid date.\<close>

fun year :: "Cursor \<Rightarrow> number" where
  "year InvalidCursor = NaN"
| "year (Cursor q i) = Fin (of_int ((q - int i) div 4))"

fun quarter :: "Cursor \<Rightarrow> number" where
  "quarter InvalidCursor = NaN"
| "quarter (Cursor q i) = Fin (of_int ((q - int i) mod 4 + 1))"

fun cursorLabel :: "Cursor \<Rightarrow> string" where
  "cursorLabel InvalidCursor = ''NaNQNaN''"
| "cursorLabel (Cursor q i) = labelOfQuarter (q - int i)"

section \<open>Scoring engine: the timeline (scoring.ts)\<close>

text \<open>Helpers of scoring.ts.\<close>

definition jsSum :: "number list \<Rightarrow> number" where
  "jsSum arr = foldl (\<lambda>a b. jsAdd a (if isFinite b then b else Fin 0)) (Fin 0) arr"

definition avgValid :: "number list \<Rightarrow> number" where
  "avgValid arr =
     (let valid = filter isFinite arr
      in if valid \<noteq> [] then jsDiv (jsSum valid) (Fin (of_nat (length valid))) else NaN)"

text \<open>\<open>safeDiv\<close>: the test \<open>b === 0\<close> is false for \<open>NaN\<close>.\<close>

definition safeDiv :: "number \<Rightarrow> number \<Rightarrow> number" where
  "safeDiv a b = (if b = Fin 0 then Fin 0 else jsDiv a b)"

definition toCalendarQuarterLabel :: "JsEnv \<Rightarrow> string \<Rightarrow> string" where
  "toCalendarQuarterLabel env p =
     (case dayjs env p of
        InvalidDate \<Rightarrow> p
      | Moment ms q \<Rightarrow> labelOfQuarter q)"

text \<open>
  \<open>Array.prototype.sort\<close> with a comparator, as a stable insertion sort: an element
  moves behind another only when the comparator is positive; a \<open>NaN\<close> comparison counts
  as equal. For a comparator that is a consistent order (here: all periods parse) the
  result is the one stable sorted order; otherwise ECMAScript leaves the order to the
  implementation and the model fixes this one.
\<close>

fun insertBy :: "('a \<Rightarrow> 'a \<Rightarrow> number) \<Rightarrow> 'a \<Rightarrow> 'a list \<Rightarrow> 'a list" where
  "insertBy cmp x [] = [x]"
| "insertBy cmp x (y # ys) = (if jsGt (cmp x y) (Fin 0) then y # insertBy cmp x ys else x # y # ys)"

definition sortBy :: "('a \<Rightarrow> 'a \<Rightarrow> number) \<Rightarrow> 'a list \<Rightarrow> 'a list" where
  "sortBy cmp xs = foldr (insertBy cmp) xs []"

definition sorted_quarters :: "JsEnv \<Rightarrow> Fundamentals \<Rightarrow> Quarter list" where
  "sorted_quarters env f =
     sortBy (\<lambda>a b. jsSub (valueOfNum (dayjs env (period b))) (valueOfNum (dayjs env (period a))))
       (quarters f)"

definition usable :: "JsEnv \<Rightarrow> Fundamentals \<Rightarrow> Quarter list" where
  "usable env f = filter (\<lambda>qr. \<not> isAfter (dayjs env (period qr)) (today env)) (sorted_quarters env f)"

definition base :: "JsEnv \<Rightarrow> Fundamentals \<Rightarrow> Quarter list" where
  "base env f = (if length (usable env f) \<ge> 4 then usable env f else sorted_quarters env f)"

text \<open>
  \<open>latestKnown = base[0] ?? sorted[0]\<close> and
  \<open>anchorMoment = dayjs(latestKnown?.period ?? today).endOf("quarter")\<close>.
\<close>

definition latestKnown :: "JsEnv \<Rightarrow> Fundamentals \<Rightarrow> Quarter option" where
  "latestKnown env f =
     (case base env f of
        b # _ \<Rightarrow> Some b
      | [] \<Rightarrow> (case sorted_quarters env f of s # _ \<Rightarrow> Some s | [] \<Rightarrow> None))"

definition anchorMoment :: "JsEnv \<Rightarrow> Fundamentals \<Rightarrow> Cursor" where
  "anchorMoment env f =
     endOfQuarter
       (case latestKnown env f of
          Some q \<Rightarrow> dayjs env (period q)
        | None \<Rightarrow> today env)"

text \<open>The map from calendar label to the first record of \<open>base\<close> carrying it.\<close>

definition labelMap :: "JsEnv \<Rightarrow> Fundamentals \<Rightarrow> (string \<rightharpoonup> Quarter)" where
  "labelMap env f =
     fold (\<lambda>record m.
             let calLabel = toCalendarQuarterLabel env (period record)
             in if m calLabel = None then m(calLabel \<mapsto> record) else m)
       (base env f) Map.empty"

record TimelineEntry =
  label :: string
  entryQuarter :: Quarter
  hasData :: bool

text \<open>
  The quarter a timeline entry holds. An existing record is copied with its fiscal year
  and quarter defaulted from the cursor; otherwise a placeholder is built, whose period
  is \<open>cursor.toISOString()\<close> (the one expression of the function that can throw) and
  whose fields not listed in the object literal are \<open>undefined\<close>.
\<close>

definition timelineQuarter :: "JsEnv \<Rightarrow> Cursor \<Rightarrow> Quarter option \<Rightarrow> ProviderError + Quarter" where
  "timelineQuarter env cursor existing =
     (case existing of
        Some e \<Rightarrow>
          Inr (e\<lparr> fiscalYear := (case fiscalYear e of Some y \<Rightarrow> Some y | None \<Rightarrow> Some (year cursor)),
                  fiscalQuarter :=
                    (case fiscalQuarter e of Some q \<Rightarrow> Some q | None \<Rightarrow> Some (quarter cursor)) \<rparr>)
      | None \<Rightarrow>
          (case toISOString env cursor of
             Inl err \<Rightarrow> Inl err
           | Inr isoText \<Rightarrow>
               Inr \<lparr> period = isoText, revenue = NaN, grossProfit = NaN, sga = NaN, rnd = NaN,
                     ocf = NaN, capex = NaN, inventory = NaN, receivables = NaN, cash = None,
                     totalDebt = None, dilutedShares = None, ebitda = None, netIncome = None,
                     fiscalYear = Some (year cursor), fiscalQuarter = Some (quarter cursor) \<rparr>))"

text \<open>The loop \<open>for (let i = 0; i < MAX_TIMELINE; i += 1)\<close>, with \<open>n\<close> iterations left.\<close>

fun timelineLoop ::
  "JsEnv \<Rightarrow> (string \<rightharpoonup> Quarter) \<Rightarrow> Cursor \<Rightarrow> nat \<Rightarrow> ProviderError + TimelineEntry list" where
  "timelineLoop env m cursor 0 = Inr []"
| "timelineLoop env m cursor (Suc n) =
     (let lbl = cursorLabel cursor;
          existing = m lbl
      in case timelineQuarter env cursor existing of
           Inl err \<Rightarrow> Inl err
         | Inr q \<Rightarrow>
             (case timelineLoop env m (subtractQuarter cursor) n of
                Inl err \<Rightarrow> Inl err
              | Inr rest \<Rightarrow> Inr (\<lparr> label = lbl, entryQuarter = q, hasData = (existing \<noteq> None) \<rparr> # rest)))"

definition MAX_TIMELINE :: nat where
  "MAX_TIMELINE = 16"

definition timeline :: "JsEnv \<Rightarrow> Fundamentals \<Rightarrow> ProviderError + TimelineEntry list" where
  "timeline env f = timelineLoop env (labelMap env f) (anchorMoment env f) MAX_TIMELINE"

section \<open>Scoring engine: derived metrics (scoring.ts)\<close>

text \<open>
  Each local constant of \<open>scoreCompany\<close> is a definition of the same name, a function of
  the timeline quarters \<open>tq\<close> (and of the market capitalisation \<open>mc\<close> where the code reads
  \<open>f.marketCap\<close>). \<open>slice\<close> and \<open>atIndex\<close> are \<open>Array.prototype.slice\<close> and indexing, which
  yields \<open>undefined\<close> (\<open>None\<close>) out of range.
\<close>

definition slice :: "nat \<Rightarrow> nat \<Rightarrow> 'a list \<Rightarrow> 'a list" where
  "slice a b xs = take (b - a) (drop a xs)"

definition atIndex :: "'a list \<Rightarrow> nat \<Rightarrow> 'a option" where
  "atIndex xs i = (if i < length xs then Some (xs ! i) else None)"

text \<open>\<open>Number.isFinite(x) ? Number(x) : NaN\<close> for an optional field.\<close>

definition finiteOrNaN :: "number option \<Rightarrow> number" where
  "finiteOrNaN x = (if isFiniteOpt x then the x else NaN)"

fun jsMax :: "number \<Rightarrow> number \<Rightarrow> number" where
  "jsMax (Fin a) (Fin b) = Fin (max a b)"
| "jsMax _ _ = NaN"

definition latest4 :: "Quarter list \<Rightarrow> Quarter list" where
  "latest4 tq = slice 0 4 tq"

definition earlier4 :: "Quarter list \<Rightarrow> Quarter list" where
  "earlier4 tq = slice 4 8 tq"

definition latest2 :: "Quarter list \<Rightarrow> Quarter list" where
  "latest2 tq = slice 0 2 (latest4 tq)"

definition earlier2 :: "Quarter list \<Rightarrow> Quarter list" where
  "earlier2 tq = slice 2 4 (latest4 tq)"

subsection \<open>Revenue\<close>

definition revenueLatest :: "Quarter list \<Rightarrow> number list" where
  "revenueLatest tq = map revenue (latest4 tq)"

definition revenueEarlier :: "Quarter list \<Rightarrow> number list" where
  "revenueEarlier tq = map revenue (earlier4 tq)"

definition hasRevenueLatest :: "Quarter list \<Rightarrow> bool" where
  "hasRevenueLatest tq = (length (latest4 tq) = 4 \<and> list_all isFinite (revenueLatest tq))"

definition hasRevenueEarlier :: "Quarter list \<Rightarrow> bool" where
  "hasRevenueEarlier tq = (length (earlier4 tq) = 4 \<and> list_all isFinite (revenueEarlier tq))"

definition revL4 :: "Quarter list \<Rightarrow> number" where
  "revL4 tq = (if hasRevenueLatest tq then jsSum (revenueLatest tq) else NaN)"

definition revP4 :: "Quarter list \<Rightarrow> number" where
  "revP4 tq = (if hasRevenueEarlier tq then jsSum (revenueEarlier tq) else NaN)"

definition hasCagrData :: "Quarter list \<Rightarrow> bool" where
  "hasCagrData tq = (hasRevenueLatest tq \<and> hasRevenueEarlier tq \<and> jsGt (revP4 tq) (Fin 0))"

definition cagr1y :: "Quarter list \<Rightarrow> number" where
  "cagr1y tq = (if hasCagrData tq then jsSub (safeDiv (revL4 tq) (revP4 tq)) (Fin 1) else NaN)"

subsection \<open>Gross margin\<close>

definition grossMargin :: "Quarter \<Rightarrow> number" where
  "grossMargin x =
     (if isFinite (grossProfit x) \<and> isFinite (revenue x) \<and> revenue x \<noteq> Fin 0
      then safeDiv (grossProfit x) (revenue x) else NaN)"

definition gmLatest :: "Quarter list \<Rightarrow> number list" where
  "gmLatest tq = map grossMargin (latest4 tq)"

definition gmL4 :: "Quarter list \<Rightarrow> number" where
  "gmL4 tq = avgValid (gmLatest tq)"

definition gmQ :: "Quarter list \<Rightarrow> number list" where
  "gmQ tq = map grossMargin tq"

definition gmBaseline :: "Quarter list \<Rightarrow> number" where
  "gmBaseline tq = avgValid (slice 1 4 (gmLatest tq))"

definition gmTrend :: "Quarter list \<Rightarrow> bool option" where
  "gmTrend tq =
     (if isFiniteOpt (atIndex (gmLatest tq) 0) \<and> isFinite (gmBaseline tq)
      then Some (jsGt (the (atIndex (gmLatest tq) 0)) (gmBaseline tq)) else None)"

definition gmOkForCapex :: "Quarter list \<Rightarrow> bool" where
  "gmOkForCapex tq =
     (isFinite (gmL4 tq) \<and> isFinite (gmBaseline tq) \<and> isFiniteOpt (atIndex (gmQ tq) 0) \<and>
      jsGe (gmL4 tq) (Fin 0.45) \<and> jsGe (the (atIndex (gmQ tq) 0)) (gmBaseline tq))"

subsection \<open>Operating cash flow\<close>

definition ocfValues :: "Quarter list \<Rightarrow> number list" where
  "ocfValues tq = map ocf (latest4 tq)"

definition ocfNear :: "Quarter list \<Rightarrow> number list" where
  "ocfNear tq = map ocf (latest2 tq)"

definition ocfPrev :: "Quarter list \<Rightarrow> number list" where
  "ocfPrev tq = map ocf (earlier2 tq)"

definition hasOcfTotals :: "Quarter list \<Rightarrow> bool" where
  "hasOcfTotals tq = (length (latest4 tq) = 4 \<and> list_all isFinite (ocfValues tq))"

definition hasOcfTrend :: "Quarter list \<Rightarrow> bool" where
  "hasOcfTrend tq =
     (length (latest2 tq) = 2 \<and> length (earlier2 tq) = 2 \<and>
      list_all isFinite (ocfNear tq) \<and> list_all isFinite (ocfPrev tq))"

definition ocfL4 :: "Quarter list \<Rightarrow> number" where
  "ocfL4 tq = (if hasOcfTotals tq then jsSum (ocfValues tq) else NaN)"

definition ocfN2 :: "Quarter list \<Rightarrow> number" where
  "ocfN2 tq = (if hasOcfTrend tq then jsSum (ocfNear tq) else NaN)"

definition ocfP2 :: "Quarter list \<Rightarrow> number" where
  "ocfP2 tq = (if hasOcfTrend tq then jsSum (ocfPrev tq) else NaN)"

subsection \<open>Operating expense ratio\<close>

definition opexRatio :: "Quarter \<Rightarrow> number" where
  "opexRatio x =
     (if isFinite (revenue x) \<and> revenue x \<noteq> Fin 0 \<and> isFinite (sga x) \<and> isFinite (rnd x)
      then safeDiv (jsAdd (sga x) (rnd x)) (revenue x) else NaN)"

definition opexNear :: "Quarter list \<Rightarrow> number list" where
  "opexNear tq = map opexRatio (latest2 tq)"

definition opexPrev :: "Quarter list \<Rightarrow> number list" where
  "opexPrev tq = map opexRatio (earlier2 tq)"

definition hasOpexData :: "Quarter list \<Rightarrow> bool" where
  "hasOpexData tq =
     (length (opexNear tq) = 2 \<and> length (opexPrev tq) = 2 \<and>
      list_all isFinite (opexNear tq) \<and> list_all isFinite (opexPrev tq))"

definition opexN2 :: "Quarter list \<Rightarrow> number" where
  "opexN2 tq = (if hasOpexData tq then avgValid (opexNear tq) else NaN)"

definition opexP2 :: "Quarter list \<Rightarrow> number" where
  "opexP2 tq = (if hasOpexData tq then avgValid (opexPrev tq) else NaN)"

subsection \<open>Year-over-year growth\<close>

definition yoyAt :: "Quarter list \<Rightarrow> Quarter \<Rightarrow> nat \<Rightarrow> number" where
  "yoyAt tq current idx =
     (case atIndex tq (idx + 4) of
        None \<Rightarrow> NaN
      | Some prev \<Rightarrow>
          if \<not> isFinite (revenue current) \<or> \<not> isFinite (revenue prev) \<or> revenue prev = Fin 0
          then NaN
          else jsSub (safeDiv (revenue current) (revenue prev)) (Fin 1))"

definition yoyRaw :: "Quarter list \<Rightarrow> number list" where
  "yoyRaw tq = map (\<lambda>(current, idx). yoyAt tq current idx) (zip (latest4 tq) [0..<length (latest4 tq)])"

definition yoyNear :: "Quarter list \<Rightarrow> number list" where
  "yoyNear tq = slice 0 2 (yoyRaw tq)"

definition yoyPrev :: "Quarter list \<Rightarrow> number list" where
  "yoyPrev tq = slice 2 4 (yoyRaw tq)"

definition hasYoyData :: "Quarter list \<Rightarrow> bool" where
  "hasYoyData tq =
     (length (yoyNear tq) = 2 \<and> length (yoyPrev tq) = 2 \<and>
      list_all isFinite (yoyNear tq) \<and> list_all isFinite (yoyPrev tq))"

definition yoyN2 :: "Quarter list \<Rightarrow> number" where
  "yoyN2 tq = (if hasYoyData tq then avgValid (yoyNear tq) else NaN)"

definition yoyP2 :: "Quarter list \<Rightarrow> number" where
  "yoyP2 tq = (if hasYoyData tq then avgValid (yoyPrev tq) else NaN)"

definition yoyDelta :: "Quarter list \<Rightarrow> number" where
  "yoyDelta tq = (if hasYoyData tq then jsSub (yoyN2 tq) (yoyP2 tq) else NaN)"

subsection \<open>Enterprise value, EBITDA, capex, free cash flow\<close>

definition ps :: "number \<Rightarrow> Quarter list \<Rightarrow> number" where
  "ps mc tq = (if hasRevenueLatest tq \<and> jsGt (revL4 tq) (Fin 0) then safeDiv mc (revL4 tq) else NaN)"

definition latestCash :: "Quarter list \<Rightarrow> number option" where
  "latestCash tq = (case atIndex (latest4 tq) 0 of None \<Rightarrow> None | Some x \<Rightarrow> cash x)"

definition latestDebt :: "Quarter list \<Rightarrow> number option" where
  "latestDebt tq = (case atIndex (latest4 tq) 0 of None \<Rightarrow> None | Some x \<Rightarrow> totalDebt x)"

definition enterpriseValue :: "number \<Rightarrow> Quarter list \<Rightarrow> number" where
  "enterpriseValue mc tq =
     (if isFinite mc then
        (let ev = mc;
             ev = (if isFiniteOpt (latestDebt tq) then jsAdd ev (the (latestDebt tq)) else ev);
             ev = (if isFiniteOpt (latestCash tq) then jsSub ev (the (latestCash tq)) else ev)
         in ev)
      else NaN)"

definition ebitdaValues :: "Quarter list \<Rightarrow> number list" where
  "ebitdaValues tq = map (\<lambda>x. finiteOrNaN (ebitda x)) (latest4 tq)"

definition ebitdaValid :: "Quarter list \<Rightarrow> number list" where
  "ebitdaValid tq = filter isFinite (ebitdaValues tq)"

definition ebitdaL4 :: "Quarter list \<Rightarrow> number" where
  "ebitdaL4 tq = (if ebitdaValid tq \<noteq> [] then jsSum (ebitdaValid tq) else NaN)"

definition evToEbitda :: "number \<Rightarrow> Quarter list \<Rightarrow> number" where
  "evToEbitda mc tq =
     (if isFinite (enterpriseValue mc tq) \<and> isFinite (ebitdaL4 tq) \<and> jsGt (ebitdaL4 tq) (Fin 0)
      then jsDiv (enterpriseValue mc tq) (ebitdaL4 tq) else NaN)"

definition capexValues :: "Quarter list \<Rightarrow> number list" where
  "capexValues tq = map capex (latest4 tq)"

definition capexBaseline :: "Quarter list \<Rightarrow> number" where
  "capexBaseline tq = avgValid (slice 1 4 (capexValues tq))"

definition capexTrend :: "Quarter list \<Rightarrow> bool option" where
  "capexTrend tq =
     (if isFiniteOpt (atIndex (capexValues tq) 0) \<and> isFinite (capexBaseline tq)
      then Some (jsGt (the (atIndex (capexValues tq) 0)) (capexBaseline tq)) else None)"

definition fcfValues :: "Quarter list \<Rightarrow> number list" where
  "fcfValues tq =
     map (\<lambda>idx.
            let ocfV = atIndex (ocfValues tq) idx; capexV = atIndex (capexValues tq) idx
            in if isFiniteOpt ocfV \<and> isFiniteOpt capexV then jsSub (the ocfV) (the capexV) else NaN)
       [0..<length (latest4 tq)]"

definition fcfValid :: "Quarter list \<Rightarrow> number list" where
  "fcfValid tq = filter isFinite (fcfValues tq)"

definition hasFcfData :: "Quarter list \<Rightarrow> bool" where
  "hasFcfData tq = (length (fcfValid tq) \<ge> 3)"

definition fcfL4 :: "Quarter list \<Rightarrow> number" where
  "fcfL4 tq = (if fcfValid tq \<noteq> [] then jsSum (fcfValid tq) else NaN)"

definition fcfRevenueDenom :: "Quarter list \<Rightarrow> number" where
  "fcfRevenueDenom tq =
     foldl (\<lambda>acc (q, idx).
              if isFiniteOpt (atIndex (fcfValues tq) idx) \<and> isFinite (revenue q)
              then jsAdd acc (revenue q) else acc)
       (Fin 0) (zip (latest4 tq) [0..<length (latest4 tq)])"

definition fcfCoverage :: "Quarter list \<Rightarrow> number" where
  "fcfCoverage tq =
     (if hasFcfData tq \<and> jsGt (fcfRevenueDenom tq) (Fin 0)
      then jsDiv (fcfL4 tq) (fcfRevenueDenom tq) else NaN)"

definition revenueGrowing :: "Quarter list \<Rightarrow> bool" where
  "revenueGrowing tq = (isFinite (cagr1y tq) \<and> jsGe (cagr1y tq) (Fin 0.1))"

definition fcfPass :: "Quarter list \<Rightarrow> bool option" where
  "fcfPass tq =
     (if length (fcfValid tq) \<ge> 2 then
        (if revenueGrowing tq then
           (if isFinite (fcfL4 tq) then Some (jsGt (fcfL4 tq) (Fin 0)) else None)
         else if isFinite (fcfCoverage tq) then
           Some (jsGt (fcfL4 tq) (Fin 0) \<or> jsGe (fcfCoverage tq) (Fin 0.05))
         else (if isFinite (fcfL4 tq) then Some (jsGt (fcfL4 tq) (Fin 0)) else None))
      else None)"

definition evToFcf :: "number \<Rightarrow> Quarter list \<Rightarrow> number" where
  "evToFcf mc tq =
     (if isFinite (enterpriseValue mc tq) \<and> isFinite (fcfL4 tq) \<and> jsGt (fcfL4 tq) (Fin 0)
      then jsDiv (enterpriseValue mc tq) (fcfL4 tq) else NaN)"

subsection \<open>R and D, dilution, net income\<close>

definition rdRatio :: "Quarter \<Rightarrow> number" where
  "rdRatio x =
     (if isFinite (revenue x) \<and> revenue x \<noteq> Fin 0 \<and> isFinite (rnd x)
      then safeDiv (rnd x) (revenue x) else NaN)"

definition rdRate :: "Quarter list \<Rightarrow> number" where
  "rdRate tq = avgValid (map rdRatio (latest4 tq))"

definition rawDilutedSeries :: "Quarter list \<Rightarrow> number list" where
  "rawDilutedSeries tq = map (\<lambda>x. finiteOrNaN (dilutedShares x)) tq"

definition normalizedDiluted :: "Quarter list \<Rightarrow> number list" where
  "normalizedDiluted tq = normalizeShares (rawDilutedSeries tq)"

definition dilutedLatest :: "Quarter list \<Rightarrow> number list" where
  "dilutedLatest tq = slice 0 4 (normalizedDiluted tq)"

definition dilutedPrev :: "Quarter list \<Rightarrow> number list" where
  "dilutedPrev tq = slice 4 8 (normalizedDiluted tq)"

definition dilutedL4 :: "Quarter list \<Rightarrow> number" where
  "dilutedL4 tq = avgValid (dilutedLatest tq)"

definition dilutedP4 :: "Quarter list \<Rightarrow> number" where
  "dilutedP4 tq = avgValid (dilutedPrev tq)"

definition hasDilutionData :: "Quarter list \<Rightarrow> bool" where
  "hasDilutionData tq =
     (isFinite (dilutedL4 tq) \<and> isFinite (dilutedP4 tq) \<and>
      length (filter isFinite (dilutedLatest tq)) \<ge> 2 \<and>
      length (filter isFinite (dilutedPrev tq)) \<ge> 2)"

definition dilutionYoY :: "Quarter list \<Rightarrow> number option" where
  "dilutionYoY tq =
     (if hasDilutionData tq \<and> dilutedP4 tq \<noteq> Fin 0
      then Some (jsSub (jsDiv (dilutedL4 tq) (dilutedP4 tq)) (Fin 1)) else None)"

definition netIncomeLatestValid :: "Quarter list \<Rightarrow> number list" where
  "netIncomeLatestValid tq = filter isFinite (map (\<lambda>x. finiteOrNaN (netIncome x)) (latest4 tq))"

definition netIncomePrevValid :: "Quarter list \<Rightarrow> number list" where
  "netIncomePrevValid tq = filter isFinite (map (\<lambda>x. finiteOrNaN (netIncome x)) (earlier4 tq))"

definition netIncomeL4 :: "Quarter list \<Rightarrow> number" where
  "netIncomeL4 tq = (if netIncomeLatestValid tq \<noteq> [] then jsSum (netIncomeLatestValid tq) else NaN)"

definition netIncomePrevL4 :: "Quarter list \<Rightarrow> number" where
  "netIncomePrevL4 tq = (if netIncomePrevValid tq \<noteq> [] then jsSum (netIncomePrevValid tq) else NaN)"

definition netIncomeGrowth :: "Quarter list \<Rightarrow> number" where
  "netIncomeGrowth tq =
     (if isFinite (netIncomeL4 tq) \<and> isFinite (netIncomePrevL4 tq) \<and> jsGt (netIncomePrevL4 tq) (Fin 0)
      then jsSub (safeDiv (netIncomeL4 tq) (netIncomePrevL4 tq)) (Fin 1) else NaN)"

definition pe :: "number \<Rightarrow> Quarter list \<Rightarrow> number" where
  "pe mc tq =
     (if isFinite mc \<and> isFinite (netIncomeL4 tq) \<and> jsGt (netIncomeL4 tq) (Fin 0)
      then safeDiv mc (netIncomeL4 tq) else NaN)"

definition peg :: "number \<Rightarrow> Quarter list \<Rightarrow> number" where
  "peg mc tq =
     (if isFinite (pe mc tq) \<and> isFinite (netIncomeGrowth tq) \<and> jsGt (netIncomeGrowth tq) (Fin 0)
      then jsDiv (pe mc tq) (jsMax (netIncomeGrowth tq) (Fin 0.05)) else NaN)"

section \<open>Scoring engine: rules, red flags and the result (scoring.ts)\<close>

subsection \<open>The valuation checks\<close>

record ValuationCheck =
  checkKey :: string
  checkLabel :: string
  checkValue :: number
  checkLimit :: number
  checkPass :: "bool option"
  checkPe :: "number option"
  checkGrowth :: "number option"

definition VAL_EBITDA_LIMIT :: number where
  "VAL_EBITDA_LIMIT = Fin 25"

definition VAL_FCF_LIMIT :: number where
  "VAL_FCF_LIMIT = Fin 35"

definition VAL_PEG_LIMIT :: number where
  "VAL_PEG_LIMIT = Fin 2"

definition evEbitdaPass :: "number \<Rightarrow> Quarter list \<Rightarrow> bool option" where
  "evEbitdaPass mc tq =
     (if isFinite (evToEbitda mc tq) then Some (jsLe (evToEbitda mc tq) VAL_EBITDA_LIMIT) else None)"

definition evFcfPass :: "number \<Rightarrow> Quarter list \<Rightarrow> bool option" where
  "evFcfPass mc tq =
     (if isFinite (evToFcf mc tq) then Some (jsLe (evToFcf mc tq) VAL_FCF_LIMIT) else None)"

definition pegPass :: "number \<Rightarrow> Quarter list \<Rightarrow> bool option" where
  "pegPass mc tq = (if isFinite (peg mc tq) then Some (jsLe (peg mc tq) VAL_PEG_LIMIT) else None)"

definition valuationChecks :: "number \<Rightarrow> Quarter list \<Rightarrow> ValuationCheck list" where
  "valuationChecks mc tq =
     [ \<lparr> checkKey = ''ev_ebitda'', checkLabel = ''EV/EBITDA'', checkValue = evToEbitda mc tq,
         checkLimit = VAL_EBITDA_LIMIT, checkPass = evEbitdaPass mc tq,
         checkPe = None, checkGrowth = None \<rparr>,
       \<lparr> checkKey = ''ev_fcf'', checkLabel = ''EV/FCF'', checkValue = evToFcf mc tq,
         checkLimit = VAL_FCF_LIMIT, checkPass = evFcfPass mc tq,
         checkPe = None, checkGrowth = None \<rparr>,
       \<lparr> checkKey = ''peg'', checkLabel = ''PEG'', checkValue = peg mc tq,
         checkLimit = VAL_PEG_LIMIT, checkPass = pegPass mc tq,
         checkPe = Some (pe mc tq), checkGrowth = Some (netIncomeGrowth tq) \<rparr> ]"

definition valuationAvailable :: "number \<Rightarrow> Quarter list \<Rightarrow> ValuationCheck list" where
  "valuationAvailable mc tq = filter (\<lambda>item. checkPass item \<noteq> None) (valuationChecks mc tq)"

definition valuationAvailableCount :: "number \<Rightarrow> Quarter list \<Rightarrow> nat" where
  "valuationAvailableCount mc tq = length (valuationAvailable mc tq)"

definition valuationPassCount :: "number \<Rightarrow> Quarter list \<Rightarrow> nat" where
  "valuationPassCount mc tq =
     length (filter (\<lambda>item. checkPass item = Some True) (valuationAvailable mc tq))"

definition valuationPass :: "number \<Rightarrow> Quarter list \<Rightarrow> bool option" where
  "valuationPass mc tq =
     (if valuationAvailableCount mc tq \<ge> 2 then Some (valuationPassCount mc tq \<ge> 2) else None)"

subsection \<open>The ten rules\<close>

text \<open>
  A rule object holds its verdict \<open>pass\<close> (\<open>None\<close> is \<open>null\<close>) and the data fields of that
  rule, by name. The display texts (\<open>label\<close>, \<open>summary\<close>, \<open>metrics\<close>) are formatted
  from the same values and are not modelled.
\<close>

datatype Field =
    Num number
  | OptNum "number option"
  | Tri "bool option"
  | Flag bool
  | Note "string option"
  | Checks "ValuationCheck list"

record RuleResult =
  pass :: "bool option"
  ruleData :: "(string \<times> Field) list"

definition NOTE_GROWTH :: string where
  "NOTE_GROWTH = [CHR 0xE6, CHR 0x88, CHR 0x90, CHR 0xE9, CHR 0x95, CHR 0xB7, CHR 0xE5, CHR 0x8B, CHR 0x95, CHR 0xE8, CHR 0x83, CHR 0xBD, CHR 0xE6, CHR 0xA5, CHR 0xB5, CHR 0xE4, CHR 0xBD, CHR 0xB3, CHR 0xEF, CHR 0xBC, CHR 0x88] @ ''>=50%'' @ [CHR 0xEF, CHR 0xBC, CHR 0x89, CHR 0xE3, CHR 0x80, CHR 0x82]"

definition NOTE_NO_DILUTION_DATA :: string where
  "NOTE_NO_DILUTION_DATA = [CHR 0xE8, CHR 0xB3, CHR 0x87, CHR 0xE6, CHR 0x96, CHR 0x99, CHR 0xE4, CHR 0xB8, CHR 0x8D, CHR 0xE8, CHR 0xB6, CHR 0xB3, CHR 0xEF, CHR 0xBC, CHR 0x88, CHR 0xE4, CHR 0xB8, CHR 0x8D, CHR 0xE6, CHR 0x89, CHR 0xA3, CHR 0xE5, CHR 0x88, CHR 0x86, CHR 0xEF, CHR 0xBC, CHR 0x89, CHR 0xE3, CHR 0x80, CHR 0x82]"

definition NOTE_DILUTION_HIGH :: string where
  "NOTE_DILUTION_HIGH = [CHR 0xE7, CHR 0xA8, CHR 0x80, CHR 0xE9, CHR 0x87, CHR 0x8B, CHR 0xE5, CHR 0xA3, CHR 0x93, CHR 0xE5, CHR 0x8A, CHR 0x9B, CHR 0xE5, CHR 0x81, CHR 0x8F, CHR 0xE9, CHR 0xAB, CHR 0x98, CHR 0xEF, CHR 0xBC, CHR 0x8C, CHR 0xE9, CHR 0x9C, CHR 0x80, CHR 0xE7, CHR 0x95, CHR 0x99, CHR 0xE6, CHR 0x84, CHR 0x8F, CHR 0xE5, CHR 0x8F, CHR 0xAF, CHR 0xE8, CHR 0xBD, CHR 0x89, CHR 0xE5, CHR 0x82, CHR 0xB5, CHR 0xE6, CHR 0x88, CHR 0x96, CHR 0xE5, CHR 0xA2, CHR 0x9E, CHR 0xE8, CHR 0xB3, CHR 0x87, CHR 0xE3, CHR 0x80, CHR 0x82]"

definition NOTE_FCF_NEGATIVE :: string where
  "NOTE_FCF_NEGATIVE = [CHR 0xE7, CHR 0x87, CHR 0x9F, CHR 0xE6, CHR 0x94, CHR 0xB6, CHR 0xE6, CHR 0x8C, CHR 0x81, CHR 0xE7, CHR 0xBA, CHR 0x8C, CHR 0xE6, CHR 0x88, CHR 0x90, CHR 0xE9, CHR 0x95, CHR 0xB7, CHR 0xE4, CHR 0xBD, CHR 0x86, CHR 0xE8, CHR 0x87, CHR 0xAA, CHR 0xE7, CHR 0x94, CHR 0xB1, CHR 0xE7, CHR 0x8F, CHR 0xBE, CHR 0xE9, CHR 0x87, CHR 0x91, CHR 0xE6, CHR 0xB5, CHR 0x81, CHR 0xE4, CHR 0xBB, CHR 0x8D, CHR 0xE7, CHR 0x82, CHR 0xBA, CHR 0xE8, CHR 0xB2, CHR 0xA0, CHR 0xEF, CHR 0xBC, CHR 0x8C, CHR 0xE9, CHR 0x9C, CHR 0x80, CHR 0xE7, CHR 0x95, CHR 0x99, CHR 0xE6, CHR 0x84, CHR 0x8F, CHR 0xE6, CHR 0x93, CHR 0xB4, CHR 0xE5, CHR 0xBC, CHR 0xB5, CHR 0xE7, CHR 0x8F, CHR 0xBE, CHR 0xE9, CHR 0x87, CHR 0x91, CHR 0xE6, CHR 0xB6, CHR 0x88, CHR 0xE8, CHR 0x80, CHR 0x97, CHR 0xE3, CHR 0x80, CHR 0x82]"

definition passDilution :: "Quarter list \<Rightarrow> bool option" where
  "passDilution tq =
     (case dilutionYoY tq of None \<Rightarrow> None | Some d \<Rightarrow> Some (jsLt d (Fin 0.10)))"

definition rules :: "number \<Rightarrow> Quarter list \<Rightarrow> (string \<times> RuleResult) list" where
  "rules mc tq =
     [ (''1_growth_cagr'',
        \<lparr> pass = (if hasCagrData tq then Some (jsGe (cagr1y tq) (Fin 0.30)) else None),
          ruleData = [ (''value'', Num (cagr1y tq)),
                     (''note'', Note (if hasCagrData tq \<and> jsGe (cagr1y tq) (Fin 0.5)
                                      then Some NOTE_GROWTH else None)) ] \<rparr>),
       (''2_gross_margin_level_trend'',
        \<lparr> pass = (if isFinite (gmL4 tq) \<and> gmTrend tq \<noteq> None
                  then Some (jsGe (gmL4 tq) (Fin 0.45) \<and> the (gmTrend tq)) else None),
          ruleData = [ (''avg'', Num (gmL4 tq)), (''last'', OptNum (atIndex (gmQ tq) 0)),
                     (''trend_up'', Tri (gmTrend tq)) ] \<rparr>),
       (''3_ocf_quality'',
        \<lparr> pass = (if hasOcfTotals tq \<and> hasOcfTrend tq
                  then Some (jsGt (ocfL4 tq) (Fin 0) \<and> jsGt (ocfN2 tq) (ocfP2 tq)) else None),
          ruleData = [ (''ocf_ttm'', Num (ocfL4 tq)),
                     (''trend_up'', Tri (if isFinite (ocfN2 tq) \<and> isFinite (ocfP2 tq)
                                         then Some (jsGt (ocfN2 tq) (ocfP2 tq)) else None)) ] \<rparr>),
       (''4_opex_rate'',
        \<lparr> pass = (if hasOpexData tq then Some (jsLt (opexN2 tq) (opexP2 tq)) else None),
          ruleData = [ (''near2q'', Num (opexN2 tq)), (''prev2q'', Num (opexP2 tq)) ] \<rparr>),
       (''5_yoy_acceleration'',
        \<lparr> pass = (if hasYoyData tq
                  then Some ((jsGt (yoyN2 tq) (Fin 0.5) \<and> jsGt (yoyP2 tq) (Fin 0.5)) \<or>
                             jsGt (yoyN2 tq) (jsAdd (yoyP2 tq) (Fin 0.05)))
                  else None),
          ruleData = [ (''near2q'', Num (yoyN2 tq)), (''prev2q'', Num (yoyP2 tq)),
                     (''delta'', Num (yoyDelta tq)) ] \<rparr>),
       (''6_val_vs_growth'',
        \<lparr> pass = valuationPass mc tq,
          ruleData = [ (''checks'', Checks (valuationChecks mc tq)),
                     (''ev'', Num (enterpriseValue mc tq)), (''fcf_ttm'', Num (fcfL4 tq)),
                     (''ebitda_ttm'', Num (ebitdaL4 tq)), (''peg'', Num (peg mc tq)),
                     (''pe'', Num (pe mc tq)), (''net_income_growth'', Num (netIncomeGrowth tq)),
                     (''ps'', Num (ps mc tq)) ] \<rparr>),
       (''7_capacity_without_gm_hit'',
        \<lparr> pass = (if capexTrend tq \<noteq> None \<and> gmOkForCapex tq then capexTrend tq else None),
          ruleData = [ (''capex_trend'', Tri (capexTrend tq)), (''gm_ok'', Flag (gmOkForCapex tq)) ] \<rparr>),
       (''8_rd_ratio'',
        \<lparr> pass = (if isFinite (rdRate tq) then Some (jsGe (rdRate tq) (Fin 0.15)) else None),
          ruleData = [ (''value'', Num (rdRate tq)) ] \<rparr>),
       (''9_dilution_governance'',
        \<lparr> pass = passDilution tq,
          ruleData = [ (''dilutionYoY'', OptNum (dilutionYoY tq)),
                     (''note'', Note (if passDilution tq = None then Some NOTE_NO_DILUTION_DATA
                                      else if dilutionYoY tq \<noteq> None \<and>
                                              jsGt (the (dilutionYoY tq)) (Fin 0.15)
                                      then Some NOTE_DILUTION_HIGH else None)) ] \<rparr>),
       (''10_fcf_coverage'',
        \<lparr> pass = fcfPass tq,
          ruleData = [ (''fcf_ttm'', Num (fcfL4 tq)), (''coverage'', Num (fcfCoverage tq)),
                     (''note'', Note (if hasFcfData tq \<and> revenueGrowing tq \<and> fcfPass tq = Some False
                                      then Some NOTE_FCF_NEGATIVE else None)) ] \<rparr>) ]"

text \<open>The score: one point per rule whose \<open>pass\<close> is \<open>true\<close>; the bonus is the constant 0.\<close>

definition bonus :: nat where
  "bonus = 0"

definition basePass :: "number \<Rightarrow> Quarter list \<Rightarrow> nat" where
  "basePass mc tq =
     foldl (\<lambda>acc (k, r). acc + (if pass r = Some True then 1 else 0)) 0 (rules mc tq)"

definition total :: "number \<Rightarrow> Quarter list \<Rightarrow> nat" where
  "total mc tq = basePass mc tq + bonus"

subsection \<open>Red flags\<close>

definition FLAG_OCF :: string where
  "FLAG_OCF = ''OCF TTM '' @ [CHR 0xE7, CHR 0x82, CHR 0xBA, CHR 0xE8, CHR 0xB2, CHR 0xA0, CHR 0xE4, CHR 0xB8, CHR 0x94, CHR 0xE6, CHR 0x8C, CHR 0x81, CHR 0xE7, CHR 0xBA, CHR 0x8C, CHR 0xE8, CHR 0xB5, CHR 0xB0, CHR 0xE5, CHR 0xBC, CHR 0xB1]"

definition FLAG_AR_INV :: string where
  "FLAG_AR_INV = [CHR 0xE6, CHR 0x87, CHR 0x89, CHR 0xE6, CHR 0x94, CHR 0xB6] @ ''+'' @ [CHR 0xE5, CHR 0xAD, CHR 0x98, CHR 0xE8, CHR 0xB2, CHR 0xA8, CHR 0xE5, CHR 0xA2, CHR 0x9E, CHR 0xE5, CHR 0x8A, CHR 0xA0, CHR 0xE5, CHR 0xB9, CHR 0x85, CHR 0xE5, CHR 0xBA, CHR 0xA6] @ '' > '' @ [CHR 0xE7, CHR 0x87, CHR 0x9F, CHR 0xE6, CHR 0x94, CHR 0xB6, CHR 0xE5, CHR 0xA2, CHR 0x9E, CHR 0xE5, CHR 0xB9, CHR 0x85]"

definition FLAG_GM_DROP :: string where
  "FLAG_GM_DROP = [CHR 0xE6, CHR 0xAF, CHR 0x9B, CHR 0xE5, CHR 0x88, CHR 0xA9, CHR 0xE7, CHR 0x8E, CHR 0x87, CHR 0xE5, CHR 0x90, CHR 0x8C, CHR 0xE5, CHR 0xAD, CHR 0xA3, CHR 0xE5, CHR 0xB9, CHR 0xB4, CHR 0xE6, CHR 0xB8, CHR 0x9B] @ '' '' @ [CHR 0xE2, CHR 0x89, CHR 0xA5] @ ''5pct''"

definition FLAG_DILUTION :: string where
  "FLAG_DILUTION = [CHR 0xE8, CHR 0xBF, CHR 0x91, CHR 0xE4, CHR 0xB8, CHR 0x80, CHR 0xE5, CHR 0xB9, CHR 0xB4, CHR 0xE8, CHR 0x82, CHR 0xA1, CHR 0xE6, CHR 0x9C, CHR 0xAC, CHR 0xE7, CHR 0xA8, CHR 0x80, CHR 0xE9, CHR 0x87, CHR 0x8B] @ '' >10%''"

definition arInv :: "Quarter \<Rightarrow> number" where
  "arInv x =
     (if isFinite (receivables x) \<and> isFinite (inventory x)
      then jsAdd (receivables x) (inventory x) else NaN)"

definition arInvLatest :: "Quarter list \<Rightarrow> number list" where
  "arInvLatest tq = map arInv (latest4 tq)"

definition arInvPrev :: "Quarter list \<Rightarrow> number list" where
  "arInvPrev tq = map arInv (earlier4 tq)"

definition hasArInvData :: "Quarter list \<Rightarrow> bool" where
  "hasArInvData tq =
     (length (arInvLatest tq) = 4 \<and> length (arInvPrev tq) = 4 \<and>
      list_all isFinite (arInvLatest tq) \<and> list_all isFinite (arInvPrev tq) \<and>
      hasRevenueLatest tq \<and> hasRevenueEarlier tq)"

definition gmYoYDrop :: "Quarter list \<Rightarrow> number" where
  "gmYoYDrop tq =
     (case (atIndex tq 0, atIndex tq 4) of
        (Some q0, Some q4) \<Rightarrow>
          if isFinite (grossProfit q0) \<and> isFinite (revenue q0) \<and> revenue q0 \<noteq> Fin 0 \<and>
             isFinite (grossProfit q4) \<and> isFinite (revenue q4) \<and> revenue q4 \<noteq> Fin 0
          then jsSub (safeDiv (grossProfit q0) (revenue q0)) (safeDiv (grossProfit q4) (revenue q4))
          else NaN
      | _ \<Rightarrow> NaN)"

text \<open>The four conditional \<open>red_flags.push\<close> statements, in order.\<close>

definition red_flags :: "Quarter list \<Rightarrow> string list" where
  "red_flags tq =
     (if isFinite (ocfL4 tq) \<and> isFinite (ocfN2 tq) \<and> isFinite (ocfP2 tq) \<and>
         jsLt (ocfL4 tq) (Fin 0) \<and> jsLt (ocfN2 tq) (ocfP2 tq)
      then [FLAG_OCF] else [])
     @ (if hasArInvData tq \<and> isFinite (revL4 tq) \<and> isFinite (revP4 tq) \<and>
           jsGt (jsSub (jsSum (arInvLatest tq)) (jsSum (arInvPrev tq)))
                (jsSub (revL4 tq) (revP4 tq))
        then [FLAG_AR_INV] else [])
     @ (if isFinite (gmYoYDrop tq) \<and> jsLe (gmYoYDrop tq) (Fin (- 0.05)) then [FLAG_GM_DROP] else [])
     @ (if dilutionYoY tq \<noteq> None \<and> jsGt (the (dilutionYoY tq)) (Fin 0.10)
        then [FLAG_DILUTION] else [])"

subsection \<open>Rating and result\<close>

definition RATING_EXCELLENT :: string where
  "RATING_EXCELLENT = [CHR 0xE9, CHR 0xAB, CHR 0x94, CHR 0xE8, CHR 0xB3, CHR 0xAA, CHR 0xE6, CHR 0xA5, CHR 0xB5, CHR 0xE4, CHR 0xBD, CHR 0xB3]"

definition RATING_GOOD :: string where
  "RATING_GOOD = [CHR 0xE8, CHR 0x89, CHR 0xAF, CHR 0xE5, CHR 0xA5, CHR 0xBD]"

definition RATING_AVERAGE :: string where
  "RATING_AVERAGE = [CHR 0xE6, CHR 0x99, CHR 0xAE, CHR 0xE9, CHR 0x80, CHR 0x9A]"

definition RATING_NOT_MET :: string where
  "RATING_NOT_MET = [CHR 0xE4, CHR 0xB8, CHR 0x8D, CHR 0xE7, CHR 0xAC, CHR 0xA6, CHR 0xE5, CHR 0x8D, CHR 0x81, CHR 0xE5, CHR 0x80, CHR 0x8D, CHR 0xE8, CHR 0x82, CHR 0xA1, CHR 0xE9, CHR 0xAB, CHR 0x94, CHR 0xE8, CHR 0xB3, CHR 0xAA, CHR 0xEF, CHR 0xBC, CHR 0x88, CHR 0xE7, CHR 0x8F, CHR 0xBE, CHR 0xE9, CHR 0x9A, CHR 0x8E, CHR 0xE6, CHR 0xAE, CHR 0xB5, CHR 0xEF, CHR 0xBC, CHR 0x89]"

definition rating :: "number \<Rightarrow> Quarter list \<Rightarrow> string" where
  "rating mc tq =
     (if total mc tq \<ge> 9 then RATING_EXCELLENT
      else if total mc tq \<ge> 7 then RATING_GOOD
      else if total mc tq \<ge> 5 then RATING_AVERAGE
      else RATING_NOT_MET)"

text \<open>
  The returned object, without the time stamp \<open>as_of\<close>. \<open>quarterly_revenue\<close> pairs a
  label with the revenue, \<open>None\<close> being \<open>null\<close>.
\<close>

record ScoreResult =
  res_ticker :: string
  res_rules :: "(string \<times> RuleResult) list"
  res_red_flags :: "string list"
  base_points :: nat
  bonus_points :: nat
  total_score :: nat
  res_rating :: string
  res_ps :: number
  res_cagr1y :: number
  data_quality_quarters :: nat
  data_quality_has_diluted_shares :: bool
  quarterly_revenue :: "(string \<times> number option) list"
  cagr_latest_periods :: "string list"
  cagr_previous_periods :: "string list"

definition revenueSeries :: "TimelineEntry list \<Rightarrow> (string \<times> number option) list" where
  "revenueSeries tline =
     map (\<lambda>item. (label item,
                   if isFinite (revenue (entryQuarter item)) then Some (revenue (entryQuarter item))
                   else None))
       (slice 0 8 tline)"

definition scoreResult :: "JsEnv \<Rightarrow> Fundamentals \<Rightarrow> TimelineEntry list \<Rightarrow> ScoreResult" where
  "scoreResult env f tline =
     (let tq = map entryQuarter tline; mc = marketCap f
      in \<lparr> res_ticker = ticker f,
            res_rules = rules mc tq,
            res_red_flags = red_flags tq,
            base_points = basePass mc tq,
            bonus_points = bonus,
            total_score = total mc tq,
            res_rating = rating mc tq,
            res_ps = ps mc tq,
            res_cagr1y = cagr1y tq,
            data_quality_quarters = length (base env f),
            data_quality_has_diluted_shares = (dilutionYoY tq \<noteq> None),
            quarterly_revenue = rev (revenueSeries tline),
            cagr_latest_periods = map label (slice 0 4 tline),
            cagr_previous_periods = map label (slice 4 8 tline) \<rparr>)"

text \<open>
  \<open>scoreCompany(f)\<close>: the thrown error (\<open>Inl\<close>) or the returned object (\<open>Inr\<close>). Only
  the construction of the timeline can throw.
\<close>

definition scoreCompany :: "JsEnv \<Rightarrow> Fundamentals \<Rightarrow> ProviderError + ScoreResult" where
  "scoreCompany env f =
     (case timeline env f of
        Inl err \<Rightarrow> Inl err
      | Inr tline \<Rightarrow> Inr (scoreResult env f tline))"

section \<open>XBRL fact extraction (fetchers.ts)\<close>

subsection \<open>JavaScript maps and conversions\<close>

text \<open>
  A \<open>Map<string, V>\<close> is an association list with distinct keys in insertion order:
  \<open>set\<close> on a present key replaces the value in place, on a new key appends.
\<close>

type_synonym 'v JsMap = "(string \<times> 'v) list"

definition mapGet :: "'v JsMap \<Rightarrow> string \<Rightarrow> 'v option" where
  "mapGet m k = map_of m k"

definition mapHas :: "'v JsMap \<Rightarrow> string \<Rightarrow> bool" where
  "mapHas m k = (map_of m k \<noteq> None)"

fun mapSet :: "'v JsMap \<Rightarrow> string \<Rightarrow> 'v \<Rightarrow> 'v JsMap" where
  "mapSet [] k v = [(k, v)]"
| "mapSet ((k', v') # rest) k v = (if k' = k then (k, v) # rest else (k', v') # mapSet rest k v)"

definition mapKeys :: "'v JsMap \<Rightarrow> string list" where
  "mapKeys m = map fst m"

definition isDigit :: "char \<Rightarrow> bool" where
  "isDigit c = (c \<in> set ''0123456789'')"

definition digitValue :: "char \<Rightarrow> nat" where
  "digitValue c = (case map_of (zip ''0123456789'' [0, 1, 2, 3, 4, 5, 6, 7, 8, 9]) c of Some d \<Rightarrow> d | None \<Rightarrow> 0)"

definition digitsToNat :: "string \<Rightarrow> nat" where
  "digitsToNat s = foldl (\<lambda>acc c. 10 * acc + digitValue c) 0 s"

text \<open>
  \<open>Number(s)\<close>: 0 for the empty string, the decimal value for a string of digits, and
  the platform's answer otherwise.
\<close>

definition jsNumber :: "JsEnv \<Rightarrow> string \<Rightarrow> number" where
  "jsNumber env s =
     (if s = [] then Fin 0
      else if list_all isDigit s then Fin (of_nat (digitsToNat s))
      else stringToNumber env s)"

text \<open>
  A number inside a template literal: \<open>NaN\<close>, the decimal digits of an integer, and the
  platform's text otherwise.
\<close>

definition numToString :: "JsEnv \<Rightarrow> number \<Rightarrow> string" where
  "numToString env x =
     (case x of
        NaN \<Rightarrow> ''NaN''
      | Fin r \<Rightarrow> if r = of_int \<lfloor>r\<rfloor> then showInt \<lfloor>r\<rfloor> else fractionToString env r)"

definition toLowerChar :: "char \<Rightarrow> char" where
  "toLowerChar c =
     (case map_of (zip ''ABCDEFGHIJKLMNOPQRSTUVWXYZ'' ''abcdefghijklmnopqrstuvwxyz'') c of
        Some l \<Rightarrow> l
      | None \<Rightarrow> c)"

definition toLowerCase :: "string \<Rightarrow> string" where
  "toLowerCase s = map toLowerChar s"

definition startsWith :: "string \<Rightarrow> string \<Rightarrow> bool" where
  "startsWith s p = (take (length p) s = p)"

subsection \<open>Values, dates and quarter keys\<close>

text \<open>\<open>safeNum\<close> on a JSON number that may be absent.\<close>

definition safeNum :: "number option \<Rightarrow> number option" where
  "safeNum v = (case v of None \<Rightarrow> None | Some n \<Rightarrow> if isFinite n then Some n else None)"

text \<open>\<open>toISODate\<close> on a string that may be absent; the empty string is falsy.\<close>

definition toISODate :: "JsEnv \<Rightarrow> string option \<Rightarrow> string option" where
  "toISODate env v =
     (case v of
        None \<Rightarrow> None
      | Some s \<Rightarrow>
          if s = [] then None
          else (case dayjs env s of
                  InvalidDate \<Rightarrow> None
                | Moment ms q \<Rightarrow> Some (isoString env ms)))"

definition normalizeValue :: "number \<Rightarrow> string \<Rightarrow> number" where
  "normalizeValue v unit =
     (let u = toLowerCase unit in
      if u \<in> set [''usdm'', ''usdmm'', ''usd (in millions)''] then jsMul v (Fin 1000000)
      else if u = ''usdbn'' then jsMul v (Fin 1000000000)
      else if u \<in> set [''usdth'', ''usd thousands'', ''usd (in thousands)''] then jsMul v (Fin 1000)
      else if u \<in> set [''sharesm'', ''shares (in millions)''] then jsMul v (Fin 1000000)
      else v)"

text \<open>
  \<open>parseQuarterKey\<close>: the key must match \<open>/^(\d{4})Q([1-4])$/\<close>, otherwise year and
  quarter are 0.
\<close>

definition parseQuarterKey :: "string \<Rightarrow> nat \<times> nat" where
  "parseQuarterKey k =
     (if length k = 6 \<and> list_all isDigit (take 4 k) \<and> k ! 4 = CHR ''Q'' \<and> k ! 5 \<in> set ''1234''
      then (digitsToNat (take 4 k), digitValue (k ! 5))
      else (0, 0))"

definition quarterSortAsc :: "string \<Rightarrow> string \<Rightarrow> number" where
  "quarterSortAsc a b =
     (case (parseQuarterKey a, parseQuarterKey b) of
        ((ay, aq), (by, bq)) \<Rightarrow>
          if ay = by then Fin (of_int (int aq - int bq)) else Fin (of_int (int ay - int by)))"

text \<open>
  \<open>quarterFrameRegex = /^[A-Z]{2}(\d{4})Q([1-4])I$/i\<close>: the year and quarter of a
  matching frame label.
\<close>

definition isAsciiLetter :: "char \<Rightarrow> bool" where
  "isAsciiLetter c = (c \<in> set ''ABCDEFGHIJKLMNOPQRSTUVWXYZabcdefghijklmnopqrstuvwxyz'')"

definition matchQuarterFrame :: "string \<Rightarrow> (nat \<times> nat) option" where
  "matchQuarterFrame fr =
     (if length fr = 9 \<and> list_all isAsciiLetter (take 2 fr) \<and> list_all isDigit (take 4 (drop 2 fr)) \<and>
         fr ! 6 \<in> set ''Qq'' \<and> fr ! 7 \<in> set ''1234'' \<and> fr ! 8 \<in> set ''Ii''
      then Some (digitsToNat (take 4 (drop 2 fr)), digitValue (fr ! 7))
      else None)"

definition allowedForms :: "string list" where
  "allowedForms = [''10-Q'', ''10-Q/A'', ''10-K'', ''10-K/A'']"

subsection \<open>Quarter data and the recency rule\<close>

record QuarterDatum =
  dValue :: number
  dEnd :: "string option"
  dFiled :: "string option"
  dStart :: "string option"

text \<open>
  \<open>datum.filed ? new Date(datum.filed).getTime() : 0\<close>: a missing or empty filing date
  counts as 0, an unparsable one is \<open>NaN\<close>.
\<close>

definition filedTime :: "JsEnv \<Rightarrow> QuarterDatum \<Rightarrow> number" where
  "filedTime env d =
     (case dFiled d of
        None \<Rightarrow> Fin 0
      | Some s \<Rightarrow> if s = [] then Fin 0 else dateGetTime env s)"

definition updateQuarterDatum ::
  "JsEnv \<Rightarrow> QuarterDatum JsMap \<Rightarrow> string \<Rightarrow> QuarterDatum \<Rightarrow> QuarterDatum JsMap" where
  "updateQuarterDatum env m k datum =
     (case mapGet m k of
        None \<Rightarrow> mapSet m k datum
      | Some existing \<Rightarrow>
          (let existingFiled = filedTime env existing;
               newFiled = filedTime env datum
           in if jsGe newFiled existingFiled then mapSet m k datum else m))"

subsection \<open>Scanning the facts document\<close>

text \<open>
  A reported fact, at the types of the company-facts schema; every property may be
  absent (\<open>None\<close>). A concept holds its units (possibly absent), each unit the array of
  its facts, in property order; a taxonomy holds its concepts, the document its
  taxonomies.
\<close>

record FactEntry =
  factForm :: "string option"
  factVal :: "number option"
  factEnd :: "string option"
  factStart :: "string option"
  factFy :: "number option"
  factFp :: "string option"
  factFrame :: "string option"
  factFiled :: "string option"

type_synonym ConceptData = "(string \<times> FactEntry list) list option"

type_synonym Facts = "(string \<times> (string \<times> ConceptData) list) list"

record ConceptConfig =
  cfgTaxonomy :: string
  cfgConcepts :: "string list"
  cfgUnits :: "string list option"

datatype Mode = Instant | Duration

text \<open>
  The year and quarter of a fact whose end date is the valid instant in calendar
  quarter \<open>endQ\<close>, and its key \<open>`${year}Q${quarter}`\<close>.
\<close>

definition factYearQuarter :: "JsEnv \<Rightarrow> FactEntry \<Rightarrow> string \<Rightarrow> int \<Rightarrow> number \<times> number" where
  "factYearQuarter env entry form endQ =
     (let endYear = Fin (of_int (endQ div 4));
          endQuarter = Fin (of_int (endQ mod 4 + 1));
          yr = (case factFy entry of Some y \<Rightarrow> y | None \<Rightarrow> endYear);
          qt = (case factFp entry of
                  Some fp \<Rightarrow>
                    if startsWith fp ''Q'' then jsNumber env (drop 1 fp)
                    else if fp = ''FY'' \<or> startsWith form ''10-K'' then Fin 4
                    else endQuarter
                | None \<Rightarrow> if startsWith form ''10-K'' then Fin 4 else endQuarter)
      in if jsLt qt (Fin 1) \<or> jsGt qt (Fin 4) then
           (case factFrame entry of
              None \<Rightarrow> (yr, endQuarter)
            | Some fr \<Rightarrow>
                if fr = [] then (yr, endQuarter)
                else (case matchQuarterFrame fr of
                        Some (y, q) \<Rightarrow> (Fin (of_nat y), Fin (of_nat q))
                      | None \<Rightarrow> (yr, endQuarter)))
         else (yr, qt))"

definition factKey :: "JsEnv \<Rightarrow> FactEntry \<Rightarrow> string \<Rightarrow> int \<Rightarrow> string" where
  "factKey env entry form endQ =
     (case factYearQuarter env entry form endQ of
        (yr, qt) \<Rightarrow> numToString env yr @ ''Q'' @ numToString env qt)"

text \<open>
  \<open>durationDays\<close>: \<open>null\<close> (\<open>None\<close>) without a start date, otherwise the absolute day
  difference, which is \<open>NaN\<close> when the start text does not parse again.
\<close>

definition durationDays :: "JsEnv \<Rightarrow> int \<Rightarrow> string option \<Rightarrow> number option" where
  "durationDays env endMs startIso =
     (case startIso of
        None \<Rightarrow> None
      | Some s \<Rightarrow>
          if s = [] then None
          else (case dayjs env s of
                  InvalidDate \<Rightarrow> Some NaN
                | Moment startMs q \<Rightarrow> Some (Fin (of_int \<bar>diffDays env endMs startMs\<bar>))))"

text \<open>
  The body of the innermost loop: one fact of one unit, acting on the two maps
  \<open>quarterValues\<close> and \<open>ytdValues\<close>. Each \<open>continue\<close> leaves both maps unchanged.
\<close>

definition processEntry ::
  "JsEnv \<Rightarrow> Mode \<Rightarrow> string \<Rightarrow> FactEntry \<Rightarrow> QuarterDatum JsMap \<times> QuarterDatum JsMap \<Rightarrow>
   QuarterDatum JsMap \<times> QuarterDatum JsMap" where
  "processEntry env mode unit entry st =
     (case st of (quarterValues, ytdValues) \<Rightarrow>
      case factForm entry of
        None \<Rightarrow> st
      | Some form \<Rightarrow>
          if form = [] \<or> form \<notin> set allowedForms then st
          else (case safeNum (factVal entry) of
                  None \<Rightarrow> st
                | Some valueRaw \<Rightarrow>
                   (case toISODate env (factEnd entry) of
                      None \<Rightarrow> st
                    | Some endIso \<Rightarrow>
                       if endIso = [] then st
                       else (case dayjs env endIso of
                               InvalidDate \<Rightarrow> st
                             | Moment endMs endQ \<Rightarrow>
                                (let normalizedValue = normalizeValue valueRaw unit;
                                     startIso = toISODate env (factStart entry);
                                     days = durationDays env endMs startIso;
                                     k = factKey env entry form endQ;
                                     filed = (case factFiled entry of
                                                Some s \<Rightarrow> s
                                              | None \<Rightarrow> isoString env endMs);
                                     datum = \<lparr> dValue = normalizedValue,
                                               dEnd = Some (isoString env endMs),
                                               dFiled = Some filed,
                                               dStart = startIso \<rparr>
                                 in if mode = Instant then
                                      (updateQuarterDatum env quarterValues k datum, ytdValues)
                                    else if days \<noteq> None \<and> jsLe (the days) (Fin 120) then
                                      (updateQuarterDatum env quarterValues k datum, ytdValues)
                                    else
                                      (quarterValues, updateQuarterDatum env ytdValues k datum))))))"

text \<open>The unit entries scanned for a concept: the configured units present, or all.\<close>

definition unitEntries :: "ConceptConfig \<Rightarrow> (string \<times> FactEntry list) list \<Rightarrow> (string \<times> FactEntry list) list" where
  "unitEntries cfg units =
     (case cfgUnits cfg of
        Some wanted \<Rightarrow>
          map (\<lambda>unit. (unit, the (map_of units unit)))
            (filter (\<lambda>unit. map_of units unit \<noteq> None) wanted)
      | None \<Rightarrow> units)"

definition scanConcept ::
  "JsEnv \<Rightarrow> Mode \<Rightarrow> ConceptConfig \<Rightarrow> (string \<times> ConceptData) list \<Rightarrow> string \<Rightarrow>
   QuarterDatum JsMap \<times> QuarterDatum JsMap \<Rightarrow> QuarterDatum JsMap \<times> QuarterDatum JsMap" where
  "scanConcept env mode cfg taxonomyFacts concept st =
     (case map_of taxonomyFacts concept of
        None \<Rightarrow> st
      | Some None \<Rightarrow> st
      | Some (Some units) \<Rightarrow>
          fold (\<lambda>(unit, entries) s. fold (processEntry env mode unit) entries s)
            (unitEntries cfg units) st)"

definition scanConfig ::
  "JsEnv \<Rightarrow> Mode \<Rightarrow> Facts \<Rightarrow> ConceptConfig \<Rightarrow>
   QuarterDatum JsMap \<times> QuarterDatum JsMap \<Rightarrow> QuarterDatum JsMap \<times> QuarterDatum JsMap" where
  "scanConfig env mode facts cfg st =
     (case map_of facts (cfgTaxonomy cfg) of
        None \<Rightarrow> st
      | Some taxonomyFacts \<Rightarrow> fold (scanConcept env mode cfg taxonomyFacts) (cfgConcepts cfg) st)"

subsection \<open>Year-to-date decomposition\<close>

text \<open>
  One iteration of the loop over the sorted year-to-date keys, acting on \<open>result\<close>.
  The keys come from \<open>ytdValues\<close>, so \<open>ytdValues.get(key)\<close> is always defined; the
  model leaves \<open>result\<close> unchanged in the case that cannot occur.
\<close>

definition resolveKey :: "QuarterDatum JsMap \<Rightarrow> string \<Rightarrow> QuarterDatum JsMap \<Rightarrow> QuarterDatum JsMap" where
  "resolveKey ytdValues k result =
     (if mapHas result k then result
      else (case mapGet ytdValues k of
              None \<Rightarrow> result
            | Some current \<Rightarrow>
                (case parseQuarterKey k of
                   (yr, qt) \<Rightarrow>
                     (let quarterValue =
                        (if qt > 1 then
                           (let prevKey = showNat yr @ ''Q'' @ showNat (qt - 1);
                                prevYtd = (case mapGet ytdValues prevKey of
                                             Some p \<Rightarrow> Some p
                                           | None \<Rightarrow> mapGet result prevKey)
                            in case prevYtd of
                                 Some p \<Rightarrow> jsSub (dValue current) (dValue p)
                               | None \<Rightarrow> dValue current)
                         else dValue current)
                      in mapSet result k
                           \<lparr> dValue = quarterValue, dEnd = dEnd current, dFiled = dFiled current,
                             dStart = None \<rparr>))))"

definition resolveYtd :: "QuarterDatum JsMap \<Rightarrow> QuarterDatum JsMap \<Rightarrow> QuarterDatum JsMap" where
  "resolveYtd quarterValues ytdValues =
     (let ytdKeys = sortBy quarterSortAsc (mapKeys ytdValues)
      in fold (resolveKey ytdValues) ytdKeys quarterValues)"

definition collectFactSeries ::
  "JsEnv \<Rightarrow> Facts \<Rightarrow> ConceptConfig list \<Rightarrow> Mode \<Rightarrow> QuarterDatum JsMap" where
  "collectFactSeries env facts configs mode =
     (case fold (scanConfig env mode facts) configs ([], []) of
        (quarterValues, ytdValues) \<Rightarrow>
          if mode = Instant then quarterValues else resolveYtd quarterValues ytdValues)"

section \<open>Notions used in the statements\<close>

text \<open>
  The value a guarded assignment leaves in a field, given the patch value and the old
  field value.
\<close>

definition pickNum :: "number option \<Rightarrow> number \<Rightarrow> number" where
  "pickNum p old = (if isFiniteOpt p then the p else old)"

definition pickOpt :: "number option \<Rightarrow> number option \<Rightarrow> number option" where
  "pickOpt p old = (if isFiniteOpt p then p else old)"

definition pickDef :: "number option \<Rightarrow> number option \<Rightarrow> number option" where
  "pickDef p old = (if p \<noteq> None then p else old)"

text \<open>
  A description of the result by position. The series is read newest first, so of two
  neighbours the first is the newer one. A neighbouring pair contributes its
  newer-to-older ratio when both values are finite and positive and the ratio lies in
  one of the two split bands, and contributes 1 otherwise.
\<close>

definition inSplitBand :: "real \<Rightarrow> bool" where
  "inSplitBand ratio = ((4.5 < ratio \<and> ratio < 11.5) \<or> (0.08 < ratio \<and> ratio < 0.22))"

fun splitRatio :: "number \<Rightarrow> number \<Rightarrow> real" where
  "splitRatio (Fin newer) (Fin older) =
     (if 0 < newer \<and> 0 < older \<and> inSplitBand (newer / older) then newer / older else 1)"
| "splitRatio _ _ = 1"

definition corrFactor :: "number list \<Rightarrow> nat \<Rightarrow> real" where
  "corrFactor series i = (\<Prod>j<i. splitRatio (series ! j) (series ! Suc j))"

fun normalizedAt :: "number \<Rightarrow> real \<Rightarrow> number" where
  "normalizedAt (Fin raw) factor = (if 0 < raw then Fin (raw * factor) else NaN)"
| "normalizedAt NaN factor = NaN"

fun splitRatioOpt :: "number option \<Rightarrow> number \<Rightarrow> real" where
  "splitRatioOpt None x = 1"
| "splitRatioOpt (Some p) x = splitRatio p x"

text \<open>
  Adapters for concrete runs, on a world state that logs the adapters invoked: one that
  fails with a given error and one that succeeds.
\<close>

definition demoFundamentals :: Fundamentals where
  "demoFundamentals = \<lparr> ticker = ''NVDA'', marketCap = Fin 1000, quarters = [] \<rparr>"

definition failingAdapter :: "string \<Rightarrow> string \<Rightarrow> bool \<Rightarrow> string \<Rightarrow> string list Handler" where
  "failingAdapter prov msg recov rsn symbol calls =
     (Inl (createProviderError prov msg recov (Some rsn)), calls @ [prov])"

definition succeedingAdapter :: "string \<Rightarrow> string list Handler" where
  "succeedingAdapter prov symbol calls =
     (Inr (demoFundamentals\<lparr>ticker := symbol\<rparr>), calls @ [prov])"

section \<open>A concrete date environment\<close>

text \<open>
  An environment for evaluating the code on concrete inputs: a process in the UTC time
  zone, on 2026-11-03, whose parser knows the date strings of the examples (and the ISO
  texts of some of them) and rejects every other string. \<open>demoCursorISO\<close> is the ISO
  text of the end of a quarter moved back by whole quarters, with the day of the month
  clamped as dayjs does. The conversions left to the platform are not needed by the
  examples and are given dummy answers.
\<close>

definition pad2 :: "nat \<Rightarrow> string" where
  "pad2 n = (if n < 10 then ''0'' @ showNat n else showNat n)"

definition pad4 :: "int \<Rightarrow> string" where
  "pad4 y = replicate (4 - length (showInt y)) (CHR ''0'') @ showInt y"

definition demoCursorISO :: "int \<Rightarrow> nat \<Rightarrow> string" where
  "demoCursorISO q0 i =
     (let q = q0 - int i;
          k = nat (q mod 4);
          lastDay = (if (k = 0 \<or> k = 3) \<and> (i = 0 \<or> (i = 1 \<and> k = 3)) then 31 else 30)
      in pad4 (q div 4) @ ''-'' @ pad2 (3 * k + 3) @ ''-'' @ pad2 lastDay @ ''T23:59:59.999Z'')"

definition demoDates :: "(string \<times> Dayjs) list" where
  "demoDates =
     [ (''2999-12-31'', Moment 32503593600000 11999),
       (''2026-09-30'', Moment 1790726400000 8106),
       (''2026-06-30'', Moment 1782777600000 8105),
       (''2026-03-31'', Moment 1774915200000 8104),
       (''2025-12-31'', Moment 1767139200000 8103),
       (''2025-09-30'', Moment 1759190400000 8102),
       (''2024-11-01'', Moment 1730419200000 8099),
       (''2024-09-30'', Moment 1727654400000 8098),
       (''2024-08-01'', Moment 1722470400000 8098),
       (''2024-06-30'', Moment 1719705600000 8097),
       (''2024-05-01'', Moment 1714521600000 8097),
       (''2024-03-31'', Moment 1711843200000 8096),
       (''2024-01-01'', Moment 1704067200000 8096),
       (''2024-09-30T00:00:00.000Z'', Moment 1727654400000 8098),
       (''2024-06-30T00:00:00.000Z'', Moment 1719705600000 8097),
       (''2024-03-31T00:00:00.000Z'', Moment 1711843200000 8096),
       (''2024-01-01T00:00:00.000Z'', Moment 1704067200000 8096) ]"

definition demoIso :: "(int \<times> string) list" where
  "demoIso =
     [ (1727654400000, ''2024-09-30T00:00:00.000Z''),
       (1719705600000, ''2024-06-30T00:00:00.000Z''),
       (1711843200000, ''2024-03-31T00:00:00.000Z''),
       (1704067200000, ''2024-01-01T00:00:00.000Z'') ]"

definition demoEnv :: JsEnv where
  "demoEnv =
     \<lparr> dayjs = (\<lambda>s. case map_of demoDates s of Some d \<Rightarrow> d | None \<Rightarrow> InvalidDate),
       nowMs = 1793664000000,
       nowQuarter = 8107,
       cursorISO = demoCursorISO,
       isoString = (\<lambda>ms. case map_of demoIso ms of Some s \<Rightarrow> s | None \<Rightarrow> []),
       diffDays = (\<lambda>a b. sgn (a - b) * (\<bar>a - b\<bar> div 86400000)),
       dateGetTime = (\<lambda>s. case map_of demoDates s of Some d \<Rightarrow> valueOfNum d | None \<Rightarrow> NaN),
       stringToNumber = (\<lambda>s. NaN),
       fractionToString = (\<lambda>r. ''?'') \<rparr>"

section \<open>The timeline by position\<close>

text \<open>
  The epoch milliseconds of a quarter's period, and the condition that every period
  parses.
\<close>

definition periodMs :: "JsEnv \<Rightarrow> Quarter \<Rightarrow> int" where
  "periodMs env q = valueOf (dayjs env (period q))"

definition allPeriodsValid :: "JsEnv \<Rightarrow> Quarter list \<Rightarrow> bool" where
  "allPeriodsValid env qs = list_all (\<lambda>q. isValid (dayjs env (period q))) qs"

text \<open>The candidates for anchoring and matching, described without the sort.\<close>

definition nonFuture :: "JsEnv \<Rightarrow> Quarter list \<Rightarrow> Quarter list" where
  "nonFuture env qs = filter (\<lambda>q. \<not> isAfter (dayjs env (period q)) (today env)) qs"

definition candidates :: "JsEnv \<Rightarrow> Quarter list \<Rightarrow> Quarter list" where
  "candidates env qs = (if 4 \<le> length (nonFuture env qs) then nonFuture env qs else qs)"

text \<open>
  The entries of the timeline by position: the placeholder built for a label without a
  record, a matched record with its fiscal defaults filled in, and the quarter the
  timeline is anchored at.
\<close>

definition unknownFinancials :: "Quarter \<Rightarrow> bool" where
  "unknownFinancials x =
     (revenue x = NaN \<and> grossProfit x = NaN \<and> sga x = NaN \<and> rnd x = NaN \<and> ocf x = NaN \<and>
      capex x = NaN \<and> inventory x = NaN \<and> receivables x = NaN \<and> cash x = None \<and>
      totalDebt x = None \<and> dilutedShares x = None \<and> ebitda x = None \<and> netIncome x = None)"

definition placeholderQuarter :: "JsEnv \<Rightarrow> int \<Rightarrow> nat \<Rightarrow> Quarter" where
  "placeholderQuarter env q i =
     \<lparr> period = cursorISO env q i, revenue = NaN, grossProfit = NaN, sga = NaN, rnd = NaN,
       ocf = NaN, capex = NaN, inventory = NaN, receivables = NaN, cash = None,
       totalDebt = None, dilutedShares = None, ebitda = None, netIncome = None,
       fiscalYear = Some (Fin (of_int ((q - int i) div 4))),
       fiscalQuarter = Some (Fin (of_int ((q - int i) mod 4 + 1))) \<rparr>"

definition withFiscalDefaults :: "Quarter \<Rightarrow> int \<Rightarrow> Quarter" where
  "withFiscalDefaults e q =
     e\<lparr> fiscalYear := (case fiscalYear e of Some y \<Rightarrow> Some y | None \<Rightarrow> Some (Fin (of_int (q div 4)))),
        fiscalQuarter :=
          (case fiscalQuarter e of Some k \<Rightarrow> Some k | None \<Rightarrow> Some (Fin (of_int (q mod 4 + 1)))) \<rparr>"

definition entryAt :: "JsEnv \<Rightarrow> (string \<rightharpoonup> Quarter) \<Rightarrow> int \<Rightarrow> nat \<Rightarrow> TimelineEntry" where
  "entryAt env m q i =
     \<lparr> label = labelOfQuarter (q - int i),
       entryQuarter =
         (case m (labelOfQuarter (q - int i)) of
            Some e \<Rightarrow> withFiscalDefaults e (q - int i)
          | None \<Rightarrow> placeholderQuarter env q i),
       hasData = (m (labelOfQuarter (q - int i)) \<noteq> None) \<rparr>"

definition anchorQuarterIndex :: "JsEnv \<Rightarrow> Fundamentals \<Rightarrow> int" where
  "anchorQuarterIndex env f =
     (case base env f of
        b # _ \<Rightarrow> quarterIndex (dayjs env (period b))
      | [] \<Rightarrow> nowQuarter env)"

text \<open>
  An input with one quarter in the past (2024-03-31) and one in the future
  (2999-12-31), evaluated on 2026-11-03.
\<close>

definition futureAndPast :: Fundamentals where
  "futureAndPast = \<lparr> ticker = ''X'', marketCap = Fin 1,
      quarters = [emptyQuarter ''2024-03-31'', emptyQuarter ''2999-12-31''] \<rparr>"

text \<open>
  An input of six quarters given out of order, one of them in the future and five not,
  with gaps.
\<close>

definition sixQuarters :: Fundamentals where
  "sixQuarters = \<lparr> ticker = ''X'', marketCap = Fin 1,
      quarters = [emptyQuarter ''2026-06-30'', emptyQuarter ''2999-12-31'',
                  emptyQuarter ''2026-09-30'', emptyQuarter ''2024-03-31'',
                  emptyQuarter ''2026-03-31'', emptyQuarter ''2025-12-31''] \<rparr>"

text \<open>The timeline quarters when no record matches any label: sixteen placeholders.\<close>

definition blank16 :: "JsEnv \<Rightarrow> int \<Rightarrow> Quarter list" where
  "blank16 env q = map (placeholderQuarter env q) [0..<16]"

text \<open>
  An input whose only quarter has a period that does not parse.
\<close>

definition unparsablePeriod :: Fundamentals where
  "unparsablePeriod = \<lparr> ticker = ''X'', marketCap = Fin 1, quarters = [emptyQuarter ''garbage''] \<rparr>"

text \<open>
  The degraded input of the route: no quarters and an unknown market capitalisation.
\<close>

definition degradedFundamentals :: Fundamentals where
  "degradedFundamentals = \<lparr> ticker = ''NVDA'', marketCap = NaN, quarters = [] \<rparr>"

text \<open>
  An input with one quarter (2026-09-30): EBITDA 20, operating cash flow 15, capex 5,
  net income -3, no debt or cash figures, market capitalisation 400. Then EV = 400,
  EV/EBITDA = 20, FCF = 10, EV/FCF = 40 and PEG is not computable.
\<close>

definition valuationQuarter :: Quarter where
  "valuationQuarter =
     \<lparr> period = ''2026-09-30'', revenue = NaN, grossProfit = NaN, sga = NaN, rnd = NaN,
       ocf = Fin 15, capex = Fin 5, inventory = NaN, receivables = NaN, cash = None,
       totalDebt = None, dilutedShares = None, ebitda = Some (Fin 20),
       netIncome = Some (Fin (- 3)), fiscalYear = None, fiscalQuarter = None \<rparr>"

definition valuationExample :: Fundamentals where
  "valuationExample = \<lparr> ticker = ''X'', marketCap = Fin 400, quarters = [valuationQuarter] \<rparr>"

definition valuationTimeline :: "Quarter list" where
  "valuationTimeline =
     withFiscalDefaults valuationQuarter 8106
       # map (placeholderQuarter demoEnv 8106) [1, 2, 3, 4, 5, 6, 7, 8, 9, 10, 11, 12, 13, 14, 15]"

text \<open>
  Facts for concrete runs: one filed 2024-08-01, one with the same filing date, and one
  filed 2024-05-01.
\<close>

definition storedFact :: QuarterDatum where
  "storedFact = \<lparr> dValue = Fin 1, dEnd = None, dFiled = Some ''2024-08-01'', dStart = None \<rparr>"

definition tiedFact :: QuarterDatum where
  "tiedFact = \<lparr> dValue = Fin 2, dEnd = None, dFiled = Some ''2024-08-01'', dStart = None \<rparr>"

definition olderFact :: QuarterDatum where
  "olderFact = \<lparr> dValue = Fin 3, dEnd = None, dFiled = Some ''2024-05-01'', dStart = None \<rparr>"

text \<open>
  The quarterly value of a key that is present only as a year-to-date entry, described
  from the two maps as they stand after the scan: for a key of quarter 2 to 4 the
  cumulative value minus the value stored for the prior quarter, taken from the
  year-to-date map if present there and else from the quarterly map; the cumulative
  value itself for quarter 1, for a key that is not of the form \<open>YYYYQn\<close>, and when the
  prior quarter is in neither map.
\<close>

definition priorKey :: "string \<Rightarrow> string" where
  "priorKey k = (case parseQuarterKey k of (yr, qt) \<Rightarrow> showNat yr @ ''Q'' @ showNat (qt - 1))"

definition ytdQuarterValue ::
  "QuarterDatum JsMap \<Rightarrow> QuarterDatum JsMap \<Rightarrow> string \<Rightarrow> QuarterDatum \<Rightarrow> number" where
  "ytdQuarterValue quarterValues ytdValues k current =
     (if snd (parseQuarterKey k) > 1 then
        (case mapGet ytdValues (priorKey k) of
           Some p \<Rightarrow> jsSub (dValue current) (dValue p)
         | None \<Rightarrow>
             (case mapGet quarterValues (priorKey k) of
                Some p \<Rightarrow> jsSub (dValue current) (dValue p)
              | None \<Rightarrow> dValue current))
      else dValue current)"

definition resolvedDatum ::
  "QuarterDatum JsMap \<Rightarrow> QuarterDatum JsMap \<Rightarrow> string \<Rightarrow> QuarterDatum \<Rightarrow> QuarterDatum" where
  "resolvedDatum quarterValues ytdValues k current =
     \<lparr> dValue = ytdQuarterValue quarterValues ytdValues k current, dEnd = dEnd current,
       dFiled = dFiled current, dStart = None \<rparr>"

text \<open>
  A year-to-date entry with a given cumulative value.
\<close>

definition cumulative :: "real \<Rightarrow> QuarterDatum" where
  "cumulative v = \<lparr> dValue = Fin v, dEnd = None, dFiled = None, dStart = None \<rparr>"

text \<open>
  A 10-Q fact for fiscal 2024 Q3 with value 400, end date 2024-09-30 and no start date,
  and the entry stored for it.
\<close>

definition q3Fact :: FactEntry where
  "q3Fact = \<lparr> factForm = Some ''10-Q'', factVal = Some (Fin 400), factEnd = Some ''2024-09-30'',
      factStart = None, factFy = Some (Fin 2024), factFp = Some ''Q3'', factFrame = None,
      factFiled = Some ''2024-11-01'' \<rparr>"

definition q3Datum :: QuarterDatum where
  "q3Datum = \<lparr> dValue = Fin 400, dEnd = Some ''2024-09-30T00:00:00.000Z'',
      dFiled = Some ''2024-11-01'', dStart = None \<rparr>"

section \<open>Merge idempotence\<close>

lemma pick_idem:
  "pickNum p (pickNum p x) = pickNum p x"
  "pickOpt p (pickOpt p y) = pickOpt p y"
  "pickDef p (pickDef p y) = pickDef p y"
  by (simp_all add: pickNum_def pickOpt_def pickDef_def)

lemma assign_revenue:
  "assignFinite p (\<lambda>v q. q\<lparr>revenue := v\<rparr>) r = r\<lparr>revenue := pickNum p (revenue r)\<rparr>"
  by (cases p) (simp_all add: pickNum_def assignFinite_def)

lemma assign_grossProfit:
  "assignFinite p (\<lambda>v q. q\<lparr>grossProfit := v\<rparr>) r = r\<lparr>grossProfit := pickNum p (grossProfit r)\<rparr>"
  by (cases p) (simp_all add: pickNum_def assignFinite_def)

lemma assign_sga:
  "assignFinite p (\<lambda>v q. q\<lparr>sga := v\<rparr>) r = r\<lparr>sga := pickNum p (sga r)\<rparr>"
  by (cases p) (simp_all add: pickNum_def assignFinite_def)

lemma assign_rnd:
  "assignFinite p (\<lambda>v q. q\<lparr>rnd := v\<rparr>) r = r\<lparr>rnd := pickNum p (rnd r)\<rparr>"
  by (cases p) (simp_all add: pickNum_def assignFinite_def)

lemma assign_ocf:
  "assignFinite p (\<lambda>v q. q\<lparr>ocf := v\<rparr>) r = r\<lparr>ocf := pickNum p (ocf r)\<rparr>"
  by (cases p) (simp_all add: pickNum_def assignFinite_def)

lemma assign_capex:
  "assignFinite p (\<lambda>v q. q\<lparr>capex := v\<rparr>) r = r\<lparr>capex := pickNum p (capex r)\<rparr>"
  by (cases p) (simp_all add: pickNum_def assignFinite_def)

lemma assign_inventory:
  "assignFinite p (\<lambda>v q. q\<lparr>inventory := v\<rparr>) r = r\<lparr>inventory := pickNum p (inventory r)\<rparr>"
  by (cases p) (simp_all add: pickNum_def assignFinite_def)

lemma assign_receivables:
  "assignFinite p (\<lambda>v q. q\<lparr>receivables := v\<rparr>) r = r\<lparr>receivables := pickNum p (receivables r)\<rparr>"
  by (cases p) (simp_all add: pickNum_def assignFinite_def)

lemma assign_cash:
  "assignFinite p (\<lambda>v q. q\<lparr>cash := Some v\<rparr>) r = r\<lparr>cash := pickOpt p (cash r)\<rparr>"
  by (cases p) (simp_all add: pickOpt_def assignFinite_def)

lemma assign_totalDebt:
  "assignFinite p (\<lambda>v q. q\<lparr>totalDebt := Some v\<rparr>) r = r\<lparr>totalDebt := pickOpt p (totalDebt r)\<rparr>"
  by (cases p) (simp_all add: pickOpt_def assignFinite_def)

lemma assign_dilutedShares:
  "assignFinite p (\<lambda>v q. q\<lparr>dilutedShares := Some v\<rparr>) r = r\<lparr>dilutedShares := pickOpt p (dilutedShares r)\<rparr>"
  by (cases p) (simp_all add: pickOpt_def assignFinite_def)

lemma assign_ebitda:
  "assignFinite p (\<lambda>v q. q\<lparr>ebitda := Some v\<rparr>) r = r\<lparr>ebitda := pickOpt p (ebitda r)\<rparr>"
  by (cases p) (simp_all add: pickOpt_def assignFinite_def)

lemma assign_netIncome:
  "assignFinite p (\<lambda>v q. q\<lparr>netIncome := Some v\<rparr>) r = r\<lparr>netIncome := pickOpt p (netIncome r)\<rparr>"
  by (cases p) (simp_all add: pickOpt_def assignFinite_def)

lemma assign_fiscalYear:
  "assignDefined p (\<lambda>v q. q\<lparr>fiscalYear := Some v\<rparr>) r = r\<lparr>fiscalYear := pickDef p (fiscalYear r)\<rparr>"
  by (cases p) (simp_all add: pickDef_def assignDefined_def)

lemma assign_fiscalQuarter:
  "assignDefined p (\<lambda>v q. q\<lparr>fiscalQuarter := Some v\<rparr>) r = r\<lparr>fiscalQuarter := pickDef p (fiscalQuarter r)\<rparr>"
  by (cases p) (simp_all add: pickDef_def assignDefined_def)

lemmas assign_all =
  assign_revenue assign_grossProfit assign_sga assign_rnd assign_ocf assign_capex assign_inventory assign_receivables
  assign_cash assign_totalDebt assign_dilutedShares assign_ebitda assign_netIncome assign_fiscalYear assign_fiscalQuarter

lemma patchFields_idem: "patchFields (patchFields q patch) patch = patchFields q patch"
  by (simp add: patchFields_def assign_all pick_idem)

text \<open>
  Claim C9. Applying the same patch twice to a quarter store, under the same period key,
  leaves the store (and so the stored Quarter record) exactly as one application does.
\<close>

theorem applyPatch_idempotent:
  "applyPatch (applyPatch byDate isoKey patch) isoKey patch = applyPatch byDate isoKey patch"
  unfolding applyPatch_def ensureQuarter_def
  by (simp add: patchFields_idem split: option.splits)

section \<open>Share-count normalisation: what the loop computes\<close>

lemma normalizeSharesLoop_length: "length (normalizeSharesLoop xs factor prev) = length xs"
  by (induction xs arbitrary: factor prev) (simp_all add: Let_def)

lemma splitRatio_invalid_older: "\<not> isFinite x \<or> jsLe x (Fin 0) \<Longrightarrow> splitRatio p x = 1"
  by (cases p; cases x) auto

lemma splitRatio_invalid_newer: "\<not> isFinite x \<or> jsLe x (Fin 0) \<Longrightarrow> splitRatio x y = 1"
  by (cases x; cases y) auto

lemma splitRatioOpt_invalid: "\<not> isFinite x \<or> jsLe x (Fin 0) \<Longrightarrow> splitRatioOpt prev x = 1"
  by (cases prev) (simp_all add: splitRatio_invalid_older)

lemma corrFactor_Cons_Suc:
  "corrFactor (x # xs) (Suc k) = splitRatio x (xs ! 0) * corrFactor xs k"
  by (simp add: corrFactor_def prod.lessThan_Suc_shift del: prod.lessThan_Suc)

lemma normalizeSharesLoop_nth:
  "i < length xs \<Longrightarrow>
   normalizeSharesLoop xs (Fin F) prev ! i =
     normalizedAt (xs ! i) (F * (splitRatioOpt prev (xs ! 0) * corrFactor xs i))"
proof (induction xs arbitrary: F prev i)
  case Nil
  then show ?case by simp
next
  case (Cons x xs)
  show ?case
  proof (cases "\<not> isFinite x \<or> jsLe x (Fin 0)")
    case True
    note invalid = this
    show ?thesis
    proof (cases i)
      case 0
      with invalid show ?thesis by (cases x) auto
    next
      case (Suc k)
      with Cons.prems have k: "k < length xs" by simp
      have "normalizeSharesLoop (x # xs) (Fin F) prev ! i = normalizeSharesLoop xs (Fin F) None ! k"
        using invalid Suc by auto
      also have "\<dots> = normalizedAt (xs ! k) (F * (1 * corrFactor xs k))"
        using Cons.IH [OF k, of F None] by simp
      finally show ?thesis
        using Suc splitRatio_invalid_newer [OF invalid] splitRatioOpt_invalid [OF invalid]
        by (simp add: corrFactor_Cons_Suc del: normalizeSharesLoop.simps)
    qed
  next
    case False
    then obtain r where x: "x = Fin r" and r: "0 < r"
      by (cases x) auto
    define s where "s = splitRatioOpt prev x"
    have step: "normalizeSharesLoop (x # xs) (Fin F) prev =
        Fin (r * (F * s)) # normalizeSharesLoop xs (Fin (F * s)) (Some x)"
    proof (cases prev)
      case None
      then show ?thesis using x r by (simp add: s_def)
    next
      case (Some p)
      show ?thesis
      proof (cases p)
        case NaN
        then show ?thesis using Some x r by (simp add: s_def)
      next
        case (Fin pv)
        then show ?thesis using Some x r
          by (auto simp add: s_def Let_def jsGt_def inSplitBand_def)
      qed
    qed
    show ?thesis
    proof (cases i)
      case 0
      then show ?thesis using step x r by (simp add: s_def corrFactor_def)
    next
      case (Suc k)
      with Cons.prems have k: "k < length xs" by simp
      have "normalizeSharesLoop (x # xs) (Fin F) prev ! i =
          normalizeSharesLoop xs (Fin (F * s)) (Some x) ! k"
        using step Suc by simp
      also have "\<dots> = normalizedAt (xs ! k) (F * s * (splitRatio x (xs ! 0) * corrFactor xs k))"
        using Cons.IH [OF k, of "F * s" "Some x"] by simp
      finally show ?thesis
        using Suc by (simp add: corrFactor_Cons_Suc s_def mult.assoc del: normalizeSharesLoop.simps)
    qed
  qed
qed

text \<open>
  Claim C5, the example as stated: the series [1000, 1000, 9500, 9600] is not normalised
  to about [1000, 1000, 950, 960]. The ratio at the third value is 1000 / 9500, which lies
  in the lower band, and 9500 times that factor is 1000; the fourth value becomes
  9600 * (1000 / 9500) = 19200 / 19, about 1010.5. The ratio tested and accumulated is
  the newer value divided by the older one: in [1000, 12000] the older-to-newer ratio 12
  lies in neither band, the newer-to-older ratio 1 / 12 lies in the lower one, and the
  older value is corrected to 1000.
\<close>

theorem normalizeShares_example_counterexample:
  "normalizeShares [Fin 1000, Fin 1000, Fin 9500, Fin 9600]
     = [Fin 1000, Fin 1000, Fin 1000, Fin (19200 / 19)]
   \<and> normalizeShares [Fin 1000, Fin 1000, Fin 9500, Fin 9600]
     \<noteq> [Fin 1000, Fin 1000, Fin 950, Fin 960]
   \<and> normalizeShares [Fin 1000, Fin 12000] = [Fin 1000, Fin 1000]
   \<and> \<not> inSplitBand (12000 / 1000)"
  by (simp add: normalizeShares_def jsGt_def inSplitBand_def)

text \<open>
  Claim C5, amended. The result has the length of the input. Walking newest to oldest,
  the value at position \<open>i\<close> is unknown when the raw value is not finite or not positive,
  and otherwise is the raw value times the product of the qualifying newer-to-older
  ratios (previous raw value divided by current raw value, both finite and positive,
  lying in (4.5, 11.5) or in (0.08, 0.22)) of all neighbouring pairs up to position
  \<open>i\<close>: the accumulated factor applies to that value and to all older ones. Applied to
  [1000, 1000, 9500, 9600] the result is [1000, 1000, 1000, 19200 / 19].
\<close>

theorem normalizeShares_by_position:
  "length (normalizeShares series) = length series \<and>
   (\<forall>i<length series.
      normalizeShares series ! i = normalizedAt (series ! i) (corrFactor series i)) \<and>
   normalizeShares [Fin 1000, Fin 1000, Fin 9500, Fin 9600]
     = [Fin 1000, Fin 1000, Fin 1000, Fin (19200 / 19)]"
proof (intro conjI allI impI)
  show "length (normalizeShares series) = length series"
    by (simp add: normalizeShares_def normalizeSharesLoop_length)
next
  fix i assume "i < length series"
  then show "normalizeShares series ! i = normalizedAt (series ! i) (corrFactor series i)"
    using normalizeSharesLoop_nth [of i series 1 None] by (simp add: normalizeShares_def)
next
  show "normalizeShares [Fin 1000, Fin 1000, Fin 9500, Fin 9600]
     = [Fin 1000, Fin 1000, Fin 1000, Fin (19200 / 19)]"
    by (simp add: normalizeShares_def jsGt_def)
qed

theorem normalizeShares_by_position_witness:
  "(3::nat) < length [Fin 1000, Fin 1000, Fin 9500, Fin 9600] \<and>
   normalizeShares [Fin 1000, Fin 1000, Fin 9500, Fin 9600] ! 3 = Fin (9600 * (1000 / 9500)) \<and>
   corrFactor [Fin 1000, Fin 1000, Fin 9500, Fin 9600] 3 = 1000 / 9500"
proof -
  have c: "corrFactor [Fin 1000, Fin 1000, Fin 9500, Fin 9600] 3 = 1000 / 9500"
    by (simp add: corrFactor_def inSplitBand_def eval_nat_numeral)
  have "\<forall>i<length [Fin 1000, Fin 1000, Fin 9500, Fin 9600].
      normalizeShares [Fin 1000, Fin 1000, Fin 9500, Fin 9600] ! i
        = normalizedAt ([Fin 1000, Fin 1000, Fin 9500, Fin 9600] ! i)
            (corrFactor [Fin 1000, Fin 1000, Fin 9500, Fin 9600] i)"
    using normalizeShares_by_position [of "[Fin 1000, Fin 1000, Fin 9500, Fin 9600]"] by blast
  then have "normalizeShares [Fin 1000, Fin 1000, Fin 9500, Fin 9600] ! 3
        = normalizedAt ([Fin 1000, Fin 1000, Fin 9500, Fin 9600] ! 3)
            (corrFactor [Fin 1000, Fin 1000, Fin 9500, Fin 9600] 3)"
    by simp
  then show ?thesis
    using c by simp
qed

section \<open>The HTTP response-handling contract\<close>

lemma fetchJson_network:
  "fetch url [(''accept'', ''application/json'')] w = (Rejected err, w') \<Longrightarrow>
   fetchJson fetch JSON_parse url prov w =
     (Inl (createProviderError prov (MSG_NETWORK @ message err) True (Some ''network'')), w')"
  by (simp add: fetchJson_def)

lemma fetchJson_parse:
  "fetch url [(''accept'', ''application/json'')] w = (Resolved response, w') \<Longrightarrow>
   bodyText response = Inr txt \<Longrightarrow> txt \<noteq> [] \<Longrightarrow> JSON_parse txt = None \<Longrightarrow>
   fetchJson fetch JSON_parse url prov w =
     (Inl (createProviderError prov MSG_PARSE True (Some ''parse'')), w')"
  by (simp add: fetchJson_def)

lemma fetchJson_status:
  "fetch url [(''accept'', ''application/json'')] w = (Resolved response, w') \<Longrightarrow>
   bodyText response = Inr txt \<Longrightarrow> txt = [] \<or> JSON_parse txt \<noteq> None \<Longrightarrow>
   map_sum (\<lambda>e. (recoverable e, reason e)) id (fst (fetchJson fetch JSON_parse url prov w)) =
     (if status response = 429 then Inl (Some True, Some ''quota'')
      else if status response = 401 \<or> status response = 403 then Inl (Some True, Some ''unauthorized'')
      else if status response \<ge> 400 then Inl (Some True, Some (''http-'' @ showNat (status response)))
      else Inr (if txt \<noteq> [] then JSON_parse txt else None))"
  by (auto simp add: fetchJson_def createProviderError_def)

lemma fetchJsonWithHeaders_network:
  "fetch url headers w = (Rejected err, w') \<Longrightarrow>
   fetchJsonWithHeaders fetch JSON_parse url headers w =
     (Inl (createProviderError ''SEC'' (MSG_NETWORK @ message err) True (Some ''network'')), w')"
  by (simp add: fetchJsonWithHeaders_def)

lemma fetchJsonWithHeaders_parse:
  "fetch url headers w = (Resolved response, w') \<Longrightarrow>
   bodyText response = Inr txt \<Longrightarrow> txt \<noteq> [] \<Longrightarrow> JSON_parse txt = None \<Longrightarrow>
   fetchJsonWithHeaders fetch JSON_parse url headers w =
     (Inl (createProviderError ''SEC'' MSG_PARSE True (Some ''parse'')), w')"
  by (simp add: fetchJsonWithHeaders_def)

lemma fetchJsonWithHeaders_status:
  "fetch url headers w = (Resolved response, w') \<Longrightarrow>
   bodyText response = Inr txt \<Longrightarrow> txt = [] \<or> JSON_parse txt \<noteq> None \<Longrightarrow>
   map_sum (\<lambda>e. (recoverable e, reason e)) id
       (fst (fetchJsonWithHeaders fetch JSON_parse url headers w)) =
     (if status response = 429 then Inl (Some True, Some ''quota'')
      else if status response \<ge> 400 then Inl (Some True, Some (''http-'' @ showNat (status response)))
      else Inr (if txt \<noteq> [] then JSON_parse txt else None))"
  by (auto simp add: fetchJsonWithHeaders_def createProviderError_def)

text \<open>
  Claim C8. The SEC helper \<open>fetchJsonWithHeaders\<close> does not follow the contract of its
  sibling \<open>fetchJson\<close>: on a response with status 403 (here with an empty body)
  \<open>fetchJson\<close> throws a recoverable error with reason "unauthorized", while
  \<open>fetchJsonWithHeaders\<close> throws a recoverable error with reason "http-403"; likewise
  "http-401" for status 401.
\<close>

theorem fetchJsonWithHeaders_unauthorized_divergence:
  "map_sum (\<lambda>e. (recoverable e, reason e)) id
     (fst (fetchJson
        (\<lambda>url headers w. (Resolved \<lparr> status = 403, statusText = ''Forbidden'', bodyText = Inr [] \<rparr>, w))
        (\<lambda>txt. None :: unit option) ''https://finnhub.io/api/v1/stock/profile2'' ''Finnhub'' ()))
     = Inl (Some True, Some ''unauthorized'')
   \<and> map_sum (\<lambda>e. (recoverable e, reason e)) id
     (fst (fetchJsonWithHeaders
        (\<lambda>url headers w. (Resolved \<lparr> status = 403, statusText = ''Forbidden'', bodyText = Inr [] \<rparr>, w))
        (\<lambda>txt. None :: unit option) ''https://www.sec.gov/files/company_tickers.json'' [] ()))
     = Inl (Some True, Some ''http-403'')
   \<and> map_sum (\<lambda>e. (recoverable e, reason e)) id
     (fst (fetchJsonWithHeaders
        (\<lambda>url headers w. (Resolved \<lparr> status = 401, statusText = ''Unauthorized'', bodyText = Inr [] \<rparr>, w))
        (\<lambda>txt. None :: unit option) ''https://www.sec.gov/files/company_tickers.json'' [] ()))
     = Inl (Some True, Some ''http-401'')"
  by (simp add: fetchJson_def fetchJsonWithHeaders_def createProviderError_def
      showNat.simps digitChar_def)

section \<open>The fallback chain\<close>

text \<open>
  Claim C2. With \<open>symbol\<close> the upper-cased ticker, the adapters are run in the order
  SEC, FMP, Finnhub, each on the world state left by the one before. The first success
  is returned together with the world state left by that adapter, so no later adapter
  has run. A thrown error that is not recoverable is re-thrown at once, from the world
  state left by the adapter that threw it. A recoverable error has its message recorded
  and the next adapter is run. When all three fail recoverably, the error thrown is the
  one built by \<open>createProviderError\<close> for provider DATA: not recoverable, reason
  "exhausted", and a message holding the three recorded messages in order, joined by the
  delimiter.
\<close>

theorem fetchFundamentals_fallback:
  fixes fetchFromSec fetchFromFmp fetchFromFinnhub :: "'w Handler"
  shows
  "(fetchFromSec (toUpperCase tk) w = (Inr f, w1) \<longrightarrow>
      fetchFundamentals fetchFromSec fetchFromFmp fetchFromFinnhub tk w = (Inr f, w1, []))
   \<and> (fetchFromSec (toUpperCase tk) w = (Inl e1, w1) \<and> recoverable e1 \<noteq> Some True \<longrightarrow>
      fetchFundamentals fetchFromSec fetchFromFmp fetchFromFinnhub tk w
        = (Inl e1, w1, [''[fetchFundamentals] '' @ message e1]))
   \<and> (fetchFromSec (toUpperCase tk) w = (Inl e1, w1) \<and> recoverable e1 = Some True \<and>
      fetchFromFmp (toUpperCase tk) w1 = (Inr f, w2) \<longrightarrow>
      fetchFundamentals fetchFromSec fetchFromFmp fetchFromFinnhub tk w
        = (Inr f, w2, [''[fetchFundamentals] '' @ message e1]))
   \<and> (fetchFromSec (toUpperCase tk) w = (Inl e1, w1) \<and> recoverable e1 = Some True \<and>
      fetchFromFmp (toUpperCase tk) w1 = (Inl e2, w2) \<and> recoverable e2 \<noteq> Some True \<longrightarrow>
      fetchFundamentals fetchFromSec fetchFromFmp fetchFromFinnhub tk w
        = (Inl e2, w2, [''[fetchFundamentals] '' @ message e1, ''[fetchFundamentals] '' @ message e2]))
   \<and> (fetchFromSec (toUpperCase tk) w = (Inl e1, w1) \<and> recoverable e1 = Some True \<and>
      fetchFromFmp (toUpperCase tk) w1 = (Inl e2, w2) \<and> recoverable e2 = Some True \<and>
      fetchFromFinnhub (toUpperCase tk) w2 = (Inr f, w3) \<longrightarrow>
      fetchFundamentals fetchFromSec fetchFromFmp fetchFromFinnhub tk w
        = (Inr f, w3, [''[fetchFundamentals] '' @ message e1, ''[fetchFundamentals] '' @ message e2]))
   \<and> (fetchFromSec (toUpperCase tk) w = (Inl e1, w1) \<and> recoverable e1 = Some True \<and>
      fetchFromFmp (toUpperCase tk) w1 = (Inl e2, w2) \<and> recoverable e2 = Some True \<and>
      fetchFromFinnhub (toUpperCase tk) w2 = (Inl e3, w3) \<and> recoverable e3 \<noteq> Some True \<longrightarrow>
      fetchFundamentals fetchFromSec fetchFromFmp fetchFromFinnhub tk w
        = (Inl e3, w3, [''[fetchFundamentals] '' @ message e1, ''[fetchFundamentals] '' @ message e2,
             ''[fetchFundamentals] '' @ message e3]))
   \<and> (fetchFromSec (toUpperCase tk) w = (Inl e1, w1) \<and> recoverable e1 = Some True \<and>
      fetchFromFmp (toUpperCase tk) w1 = (Inl e2, w2) \<and> recoverable e2 = Some True \<and>
      fetchFromFinnhub (toUpperCase tk) w2 = (Inl e3, w3) \<and> recoverable e3 = Some True \<longrightarrow>
      fetchFundamentals fetchFromSec fetchFromFmp fetchFromFinnhub tk w
        = (Inl \<lparr> name = ''DATAProviderError'',
                 message = ''[DATA] '' @ MSG_ALL_FAILED_PRE @ message e1 @ ERRORS_DELIMITER
                             @ message e2 @ ERRORS_DELIMITER @ message e3,
                 provider = Some ''DATA'',
                 recoverable = Some False,
                 reason = Some ''exhausted'' \<rparr>,
           w3,
           [''[fetchFundamentals] '' @ message e1, ''[fetchFundamentals] '' @ message e2,
            ''[fetchFundamentals] '' @ message e3]))"
  by (simp add: fetchFundamentals_def createProviderError_def Let_def)

text \<open>
  Concrete runs, on a world state that logs the adapters invoked. First: SEC fails with
  a recoverable quota error, FMP with a recoverable missing-key error, Finnhub succeeds.
  Second: SEC succeeds and is the only adapter invoked. Third: SEC fails recoverably and
  FMP throws an error that is not recoverable, so Finnhub is never invoked. Fourth: all
  three fail recoverably.
\<close>

theorem fetchFundamentals_fallback_witness:
  "fetchFundamentals (failingAdapter ''SEC'' ''429'' True ''quota'')
       (failingAdapter ''FMP'' ''no key'' True ''missing-key'') (succeedingAdapter ''Finnhub'')
       ''nvda'' []
     = (Inr (demoFundamentals\<lparr>ticker := ''NVDA''\<rparr>), [''SEC'', ''FMP'', ''Finnhub''],
        [''[fetchFundamentals] [SEC] 429'', ''[fetchFundamentals] [FMP] no key''])
   \<and> fetchFundamentals (succeedingAdapter ''SEC'')
       (succeedingAdapter ''FMP'') (succeedingAdapter ''Finnhub'') ''nvda'' []
     = (Inr (demoFundamentals\<lparr>ticker := ''NVDA''\<rparr>), [''SEC''], [])
   \<and> fetchFundamentals (failingAdapter ''SEC'' ''429'' True ''quota'')
       (failingAdapter ''FMP'' ''boom'' False ''fatal'') (succeedingAdapter ''Finnhub'')
       ''nvda'' []
     = (Inl (createProviderError ''FMP'' ''boom'' False (Some ''fatal'')), [''SEC'', ''FMP''],
        [''[fetchFundamentals] [SEC] 429'', ''[fetchFundamentals] [FMP] boom''])
   \<and> fetchFundamentals (failingAdapter ''SEC'' ''429'' True ''quota'')
       (failingAdapter ''FMP'' ''no key'' True ''missing-key'')
       (failingAdapter ''Finnhub'' ''no data'' True ''insufficient-data'') ''nvda'' []
     = (Inl \<lparr> name = ''DATAProviderError'',
              message = ''[DATA] '' @ MSG_ALL_FAILED_PRE @ ''[SEC] 429'' @ ERRORS_DELIMITER
                          @ ''[FMP] no key'' @ ERRORS_DELIMITER @ ''[Finnhub] no data'',
              provider = Some ''DATA'', recoverable = Some False, reason = Some ''exhausted'' \<rparr>,
        [''SEC'', ''FMP'', ''Finnhub''],
        [''[fetchFundamentals] [SEC] 429'', ''[fetchFundamentals] [FMP] no key'',
         ''[fetchFundamentals] [Finnhub] no data''])"
proof -
  have up: "toUpperCase ''nvda'' = ''NVDA''"
    by (simp add: toUpperCase_def toUpperChar_def)
  note run = fetchFundamentals_fallback [where tk = "''nvda''" and w = "[]"]
  have a: "fetchFundamentals (failingAdapter ''SEC'' ''429'' True ''quota'')
       (failingAdapter ''FMP'' ''no key'' True ''missing-key'') (succeedingAdapter ''Finnhub'')
       ''nvda'' []
     = (Inr (demoFundamentals\<lparr>ticker := ''NVDA''\<rparr>), [''SEC'', ''FMP'', ''Finnhub''],
        [''[fetchFundamentals] [SEC] 429'', ''[fetchFundamentals] [FMP] no key''])"
    using run [where fetchFromSec = "failingAdapter ''SEC'' ''429'' True ''quota''"
        and fetchFromFmp = "failingAdapter ''FMP'' ''no key'' True ''missing-key''"
        and fetchFromFinnhub = "succeedingAdapter ''Finnhub''"
        and ?e1.0 = "createProviderError ''SEC'' ''429'' True (Some ''quota'')"
        and ?w1.0 = "[''SEC'']"
        and ?e2.0 = "createProviderError ''FMP'' ''no key'' True (Some ''missing-key'')"
        and ?w2.0 = "[''SEC'', ''FMP'']"
        and f = "demoFundamentals\<lparr>ticker := ''NVDA''\<rparr>"
        and ?w3.0 = "[''SEC'', ''FMP'', ''Finnhub'']"]
    by (simp add: up failingAdapter_def succeedingAdapter_def createProviderError_def)
  have b: "fetchFundamentals (succeedingAdapter ''SEC'')
       (succeedingAdapter ''FMP'') (succeedingAdapter ''Finnhub'') ''nvda'' []
     = (Inr (demoFundamentals\<lparr>ticker := ''NVDA''\<rparr>), [''SEC''], [])"
    using run [where fetchFromSec = "succeedingAdapter ''SEC''"
        and fetchFromFmp = "succeedingAdapter ''FMP''"
        and fetchFromFinnhub = "succeedingAdapter ''Finnhub''"
        and f = "demoFundamentals\<lparr>ticker := ''NVDA''\<rparr>"
        and ?w1.0 = "[''SEC'']"]
    by (simp add: up succeedingAdapter_def)
  have c: "fetchFundamentals (failingAdapter ''SEC'' ''429'' True ''quota'')
       (failingAdapter ''FMP'' ''boom'' False ''fatal'') (succeedingAdapter ''Finnhub'')
       ''nvda'' []
     = (Inl (createProviderError ''FMP'' ''boom'' False (Some ''fatal'')), [''SEC'', ''FMP''],
        [''[fetchFundamentals] [SEC] 429'', ''[fetchFundamentals] [FMP] boom''])"
    using run [where fetchFromSec = "failingAdapter ''SEC'' ''429'' True ''quota''"
        and fetchFromFmp = "failingAdapter ''FMP'' ''boom'' False ''fatal''"
        and fetchFromFinnhub = "succeedingAdapter ''Finnhub''"
        and ?e1.0 = "createProviderError ''SEC'' ''429'' True (Some ''quota'')"
        and ?w1.0 = "[''SEC'']"
        and ?e2.0 = "createProviderError ''FMP'' ''boom'' False (Some ''fatal'')"
        and ?w2.0 = "[''SEC'', ''FMP'']"]
    by (simp add: up failingAdapter_def createProviderError_def)
  have d: "fetchFundamentals (failingAdapter ''SEC'' ''429'' True ''quota'')
       (failingAdapter ''FMP'' ''no key'' True ''missing-key'')
       (failingAdapter ''Finnhub'' ''no data'' True ''insufficient-data'') ''nvda'' []
     = (Inl \<lparr> name = ''DATAProviderError'',
              message = ''[DATA] '' @ MSG_ALL_FAILED_PRE @ ''[SEC] 429'' @ ERRORS_DELIMITER
                          @ ''[FMP] no key'' @ ERRORS_DELIMITER @ ''[Finnhub] no data'',
              provider = Some ''DATA'', recoverable = Some False, reason = Some ''exhausted'' \<rparr>,
        [''SEC'', ''FMP'', ''Finnhub''],
        [''[fetchFundamentals] [SEC] 429'', ''[fetchFundamentals] [FMP] no key'',
         ''[fetchFundamentals] [Finnhub] no data''])"
    using run [where fetchFromSec = "failingAdapter ''SEC'' ''429'' True ''quota''"
        and fetchFromFmp = "failingAdapter ''FMP'' ''no key'' True ''missing-key''"
        and fetchFromFinnhub = "failingAdapter ''Finnhub'' ''no data'' True ''insufficient-data''"
        and ?e1.0 = "createProviderError ''SEC'' ''429'' True (Some ''quota'')"
        and ?w1.0 = "[''SEC'']"
        and ?e2.0 = "createProviderError ''FMP'' ''no key'' True (Some ''missing-key'')"
        and ?w2.0 = "[''SEC'', ''FMP'']"
        and ?e3.0 = "createProviderError ''Finnhub'' ''no data'' True (Some ''insufficient-data'')"
        and ?w3.0 = "[''SEC'', ''FMP'', ''Finnhub'']"]
    by (simp add: up failingAdapter_def createProviderError_def)
  from a b c d show ?thesis by blast
qed

section \<open>The timeline: sorting and anchoring\<close>

lemma set_insertBy: "set (insertBy cmp x ys) = insert x (set ys)"
  by (induction ys) auto

lemma set_sortBy: "set (sortBy cmp xs) = set xs"
  by (induction xs) (simp_all add: sortBy_def set_insertBy)

lemma length_insertBy: "length (insertBy cmp x ys) = Suc (length ys)"
  by (induction ys) auto

lemma length_sortBy: "length (sortBy cmp xs) = length xs"
  by (induction xs) (simp_all add: sortBy_def length_insertBy)

lemma set_sorted_quarters: "set (sorted_quarters env f) = set (quarters f)"
  by (simp add: sorted_quarters_def set_sortBy)

lemma set_base_subset: "set (base env f) \<subseteq> set (quarters f)"
  by (auto simp add: base_def usable_def set_sorted_quarters)

text \<open>
  When every period parses, the comparator orders by the epoch milliseconds, newest
  first, and the sorted list is in that order.
\<close>

lemma comparator_valid:
  assumes "isValid (dayjs env (period a))" "isValid (dayjs env (period b))"
  shows "jsGt (jsSub (valueOfNum (dayjs env (period b))) (valueOfNum (dayjs env (period a)))) (Fin 0)
         = (periodMs env a < periodMs env b)"
  using assms by (cases "dayjs env (period a)"; cases "dayjs env (period b)")
    (simp_all add: jsGt_def periodMs_def)

lemma sorted_insertBy:
  assumes "isValid (dayjs env (period x))" "allPeriodsValid env ys"
    and "sorted_wrt (\<lambda>a b. periodMs env b \<le> periodMs env a) ys"
  shows "sorted_wrt (\<lambda>a b. periodMs env b \<le> periodMs env a)
           (insertBy (\<lambda>a b. jsSub (valueOfNum (dayjs env (period b))) (valueOfNum (dayjs env (period a)))) x ys)"
  using assms
proof (induction ys)
  case Nil
  then show ?case by simp
next
  case (Cons y ys)
  have vy: "isValid (dayjs env (period y))" and vys: "allPeriodsValid env ys"
    using Cons.prems(2) by (simp_all add: allPeriodsValid_def)
  show ?case
  proof (cases "periodMs env x < periodMs env y")
    case True
    have "sorted_wrt (\<lambda>a b. periodMs env b \<le> periodMs env a)
           (insertBy (\<lambda>a b. jsSub (valueOfNum (dayjs env (period b))) (valueOfNum (dayjs env (period a)))) x ys)"
      using Cons.IH [OF Cons.prems(1) vys] Cons.prems(3) by simp
    then show ?thesis
      using True Cons.prems(3) comparator_valid [OF Cons.prems(1) vy]
      by (auto simp add: set_insertBy)
  next
    case False
    then show ?thesis
      using Cons.prems(3) comparator_valid [OF Cons.prems(1) vy] by auto
  qed
qed

lemma allPeriodsValid_insertBy:
  "allPeriodsValid env (insertBy cmp x ys) = (isValid (dayjs env (period x)) \<and> allPeriodsValid env ys)"
  by (auto simp add: allPeriodsValid_def list_all_iff set_insertBy)

lemma allPeriodsValid_sorted:
  "allPeriodsValid env (sorted_quarters env f) = allPeriodsValid env (quarters f)"
  by (simp add: allPeriodsValid_def list_all_iff set_sorted_quarters)

lemma sorted_sorted_quarters:
  assumes "allPeriodsValid env (quarters f)"
  shows "sorted_wrt (\<lambda>a b. periodMs env b \<le> periodMs env a) (sorted_quarters env f)"
proof -
  have "allPeriodsValid env xs \<Longrightarrow>
        sorted_wrt (\<lambda>a b. periodMs env b \<le> periodMs env a)
          (sortBy (\<lambda>a b. jsSub (valueOfNum (dayjs env (period b))) (valueOfNum (dayjs env (period a)))) xs)
        \<and> allPeriodsValid env
          (sortBy (\<lambda>a b. jsSub (valueOfNum (dayjs env (period b))) (valueOfNum (dayjs env (period a)))) xs)"
    for xs
  proof (induction xs)
    case Nil
    then show ?case by (simp add: sortBy_def allPeriodsValid_def)
  next
    case (Cons x xs)
    then have vx: "isValid (dayjs env (period x))" and vxs: "allPeriodsValid env xs"
      by (simp_all add: allPeriodsValid_def)
    from Cons.IH [OF vxs] show ?case
      using sorted_insertBy [OF vx] vx
      by (simp add: sortBy_def allPeriodsValid_insertBy)
  qed
  with assms show ?thesis by (simp add: sorted_quarters_def)
qed

lemma sorted_base:
  assumes "allPeriodsValid env (quarters f)"
  shows "sorted_wrt (\<lambda>a b. periodMs env b \<le> periodMs env a) (base env f)"
  using sorted_sorted_quarters [OF assms]
  by (simp add: base_def usable_def sorted_wrt_filter)

lemma base_head_most_recent:
  assumes "allPeriodsValid env (quarters f)" and "base env f = b # bs"
  shows "\<forall>r\<in>set (base env f). periodMs env r \<le> periodMs env b"
  using sorted_base [OF assms(1)] assms(2) by auto

lemma length_filter_insertBy:
  "length (filter P (insertBy cmp x ys)) = length (filter P (x # ys))"
  by (induction ys) auto

lemma length_filter_sortBy: "length (filter P (sortBy cmp xs)) = length (filter P xs)"
  by (induction xs) (simp_all add: sortBy_def length_filter_insertBy)

lemma set_base_candidates: "set (base env f) = set (candidates env (quarters f))"
  by (auto simp add: base_def usable_def candidates_def nonFuture_def sorted_quarters_def
      set_sortBy length_filter_sortBy)

lemma base_Nil_iff: "base env f = [] \<longleftrightarrow> candidates env (quarters f) = []"
  using set_base_candidates [of env f] by (metis set_empty)

text \<open>The label map returns the first record of \<open>base\<close> with the label.\<close>

lemma fold_labelMap_step:
  "fold (\<lambda>record m.
           let calLabel = toCalendarQuarterLabel env (period record)
           in if m calLabel = None then m(calLabel \<mapsto> record) else m) xs m0 l
   = (case m0 l of
        Some r \<Rightarrow> Some r
      | None \<Rightarrow> find (\<lambda>r. toCalendarQuarterLabel env (period r) = l) xs)"
  by (induction xs arbitrary: m0) (auto simp add: Let_def split: option.splits)

lemma labelMap_find:
  "labelMap env f l = find (\<lambda>r. toCalendarQuarterLabel env (period r) = l) (base env f)"
  by (simp add: labelMap_def fold_labelMap_step)

text \<open>
  The loop from a valid cursor never throws, and its entries are given by position.
\<close>

lemma unknownFinancials_placeholder: "unknownFinancials (placeholderQuarter env q i)"
  by (simp add: unknownFinancials_def placeholderQuarter_def)

lemma timelineLoop_valid:
  "timelineLoop env m (Cursor q i) n = Inr (map (entryAt env m q) [i..<i + n])"
proof (induction n arbitrary: i)
  case 0
  then show ?case by simp
next
  case (Suc n)
  have "[i..<i + Suc n] = i # [Suc i..<Suc i + n]"
    by (simp add: upt_conv_Cons)
  then show ?case
    using Suc.IH [of "Suc i"]
    by (simp add: Let_def timelineQuarter_def entryAt_def withFiscalDefaults_def
        placeholderQuarter_def split: option.splits)
qed

lemma anchorMoment_valid:
  assumes "allPeriodsValid env (quarters f)"
  shows "anchorMoment env f =
     Cursor (case base env f of
               b # _ \<Rightarrow> quarterIndex (dayjs env (period b))
             | [] \<Rightarrow> nowQuarter env) 0"
proof (cases "base env f")
  case Nil
  then have "usable env f = [] \<or> sorted_quarters env f = []"
    by (auto simp add: base_def split: if_splits)
  then have "sorted_quarters env f = []"
    using Nil by (auto simp add: base_def split: if_splits)
  then show ?thesis
    using Nil by (simp add: anchorMoment_def latestKnown_def today_def)
next
  case (Cons b bs)
  then have "b \<in> set (quarters f)"
    using set_base_subset [of env f] by auto
  then have "isValid (dayjs env (period b))"
    using assms by (simp add: allPeriodsValid_def list_all_iff)
  then show ?thesis
    using Cons by (cases "dayjs env (period b)") (simp_all add: anchorMoment_def latestKnown_def)
qed

lemma timeline_valid:
  assumes "allPeriodsValid env (quarters f)"
  shows "timeline env f =
     Inr (map (entryAt env (labelMap env f) (anchorQuarterIndex env f)) [0..<16])"
  using anchorMoment_valid [OF assms] timelineLoop_valid [of env _ _ 0 16]
  by (simp add: timeline_def MAX_TIMELINE_def anchorQuarterIndex_def)

section \<open>The timeline: structure\<close>

lemma demo_dayjs:
  "dayjs demoEnv ''2999-12-31'' = Moment 32503593600000 11999"
  "dayjs demoEnv ''2026-09-30'' = Moment 1790726400000 8106"
  "dayjs demoEnv ''2026-06-30'' = Moment 1782777600000 8105"
  "dayjs demoEnv ''2026-03-31'' = Moment 1774915200000 8104"
  "dayjs demoEnv ''2025-12-31'' = Moment 1767139200000 8103"
  "dayjs demoEnv ''2024-03-31'' = Moment 1711843200000 8096"
  "dayjs demoEnv ''garbage'' = InvalidDate"
  by (simp_all add: demoEnv_def demoDates_def)

lemma demo_today: "today demoEnv = Moment 1793664000000 8107"
  by (simp add: today_def demoEnv_def)

lemma upt16: "[0..<16] = [0, 1, 2, 3, 4, 5, 6, 7, 8, 9, 10, 11, 12, 13, 14, 15::nat]"
  by code_simp

lemma futureAndPast_sorted:
  "sorted_quarters demoEnv futureAndPast = [emptyQuarter ''2999-12-31'', emptyQuarter ''2024-03-31'']"
  by (simp add: sorted_quarters_def futureAndPast_def sortBy_def demo_dayjs emptyQuarter_def jsGt_def)

lemma futureAndPast_usable: "usable demoEnv futureAndPast = [emptyQuarter ''2024-03-31'']"
  by (simp add: usable_def futureAndPast_sorted demo_dayjs demo_today isAfter_def emptyQuarter_def)

lemma futureAndPast_base:
  "base demoEnv futureAndPast = [emptyQuarter ''2999-12-31'', emptyQuarter ''2024-03-31'']"
  by (simp add: base_def futureAndPast_sorted futureAndPast_usable)

lemma futureAndPast_valid: "allPeriodsValid demoEnv (quarters futureAndPast)"
  by (simp add: allPeriodsValid_def futureAndPast_def demo_dayjs emptyQuarter_def)

lemma futureAndPast_anchor: "anchorQuarterIndex demoEnv futureAndPast = 11999"
  by (simp add: anchorQuarterIndex_def futureAndPast_base demo_dayjs emptyQuarter_def)

lemma futureAndPast_labels:
  "map_sum id (map label) (timeline demoEnv futureAndPast)
     = Inr (map (\<lambda>i. labelOfQuarter (11999 - int i)) [0..<16])"
  by (simp add: timeline_valid [OF futureAndPast_valid] futureAndPast_anchor entryAt_def comp_def)

lemma unparsablePeriod_timeline: "timeline demoEnv unparsablePeriod = Inl rangeError"
proof -
  have sorted: "sorted_quarters demoEnv unparsablePeriod = [emptyQuarter ''garbage'']"
    by (simp add: sorted_quarters_def unparsablePeriod_def sortBy_def)
  have usable: "usable demoEnv unparsablePeriod = [emptyQuarter ''garbage'']"
    by (simp add: usable_def sorted demo_dayjs isAfter_def emptyQuarter_def)
  have base: "base demoEnv unparsablePeriod = [emptyQuarter ''garbage'']"
    by (simp add: base_def sorted usable)
  have anchor: "anchorMoment demoEnv unparsablePeriod = InvalidCursor"
    by (simp add: anchorMoment_def latestKnown_def base demo_dayjs emptyQuarter_def)
  have lookup: "labelMap demoEnv unparsablePeriod ''NaNQNaN'' = None"
    by (simp add: labelMap_find base toCalendarQuarterLabel_def demo_dayjs emptyQuarter_def)
  show ?thesis
    by (simp add: timeline_def anchor MAX_TIMELINE_def eval_nat_numeral lookup
        timelineQuarter_def)
qed

text \<open>
  Claim C3, as stated: a non-future quarter exists (2024-03-31 is usable), yet the
  timeline is anchored at 2999Q4, the quarter of the future record, because fewer than
  four quarters are non-future. And not every input has a timeline: when the period of
  the quarter the timeline is anchored at does not parse, building the first placeholder
  throws.
\<close>

theorem timeline_anchor_counterexample:
  "usable demoEnv futureAndPast = [emptyQuarter ''2024-03-31'']
   \<and> toCalendarQuarterLabel demoEnv ''2024-03-31'' = ''2024Q1''
   \<and> map_sum id (map label) (timeline demoEnv futureAndPast)
     = Inr [''2999Q4'', ''2999Q3'', ''2999Q2'', ''2999Q1'', ''2998Q4'', ''2998Q3'', ''2998Q2'',
            ''2998Q1'', ''2997Q4'', ''2997Q3'', ''2997Q2'', ''2997Q1'', ''2996Q4'', ''2996Q3'',
            ''2996Q2'', ''2996Q1'']
   \<and> timeline demoEnv unparsablePeriod = Inl rangeError"
proof (intro conjI)
  show "usable demoEnv futureAndPast = [emptyQuarter ''2024-03-31'']"
    by (rule futureAndPast_usable)
  show "toCalendarQuarterLabel demoEnv ''2024-03-31'' = ''2024Q1''"
    by (simp add: toCalendarQuarterLabel_def demo_dayjs labelOfQuarter_def showInt_def
        showNat.simps digitChar_def)
  show "map_sum id (map label) (timeline demoEnv futureAndPast)
     = Inr [''2999Q4'', ''2999Q3'', ''2999Q2'', ''2999Q1'', ''2998Q4'', ''2998Q3'', ''2998Q2'',
            ''2998Q1'', ''2997Q4'', ''2997Q3'', ''2997Q2'', ''2997Q1'', ''2996Q4'', ''2996Q3'',
            ''2996Q2'', ''2996Q1'']"
    unfolding futureAndPast_labels upt16
    by (simp add: labelOfQuarter_def showInt_def showNat.simps digitChar_def)
  show "timeline demoEnv unparsablePeriod = Inl rangeError"
    by (rule unparsablePeriod_timeline)
qed

text \<open>
  Claim C3, amended. For every input whose periods all parse, the timeline is built
  without an error and has exactly 16 entries. The candidates for anchoring and matching
  are the non-future quarters when at least four quarters are non-future, and all
  quarters regardless of date otherwise; \<open>base\<close> holds the candidates, most recent first.
  The anchor is the calendar quarter of the first of them, a most recent candidate, and
  the current quarter when there is none. The 16 labels are the consecutive calendar
  quarters counted back from the anchor. Each entry holds the first record of \<open>base\<close>
  whose calendar label is the entry's label, with its fiscal year and quarter defaulted
  from the label, and \<open>hasData = true\<close>; when no record matches, it holds a placeholder
  whose financial fields are all unknown, and \<open>hasData = false\<close>.
\<close>

theorem timeline_structure:
  assumes "allPeriodsValid env (quarters f)"
  shows "\<exists>tl. timeline env f = Inr tl \<and> length tl = 16 \<and>
     set (base env f) = set (candidates env (quarters f)) \<and>
     sorted_wrt (\<lambda>a b. periodMs env b \<le> periodMs env a) (base env f) \<and>
     (candidates env (quarters f) = [] \<longrightarrow> anchorQuarterIndex env f = nowQuarter env) \<and>
     (\<forall>b bs. base env f = b # bs \<longrightarrow>
        anchorQuarterIndex env f = quarterIndex (dayjs env (period b)) \<and>
        (\<forall>r\<in>set (candidates env (quarters f)). periodMs env r \<le> periodMs env b)) \<and>
     (\<forall>i<16.
        label (tl ! i) = labelOfQuarter (anchorQuarterIndex env f - int i) \<and>
        (case find (\<lambda>r. toCalendarQuarterLabel env (period r) = label (tl ! i)) (base env f) of
           Some e \<Rightarrow>
             hasData (tl ! i) \<and>
             entryQuarter (tl ! i) = withFiscalDefaults e (anchorQuarterIndex env f - int i)
         | None \<Rightarrow> \<not> hasData (tl ! i) \<and> unknownFinancials (entryQuarter (tl ! i))))"
proof -
  define tl where "tl = map (entryAt env (labelMap env f) (anchorQuarterIndex env f)) [0..<16]"
  have tl: "timeline env f = Inr tl"
    using timeline_valid [OF assms] by (simp add: tl_def)
  have len: "length tl = 16"
    by (simp add: tl_def)
  have empty: "candidates env (quarters f) = [] \<longrightarrow> anchorQuarterIndex env f = nowQuarter env"
    using base_Nil_iff [of env f] by (auto simp add: anchorQuarterIndex_def)
  have first: "\<forall>b bs. base env f = b # bs \<longrightarrow>
        anchorQuarterIndex env f = quarterIndex (dayjs env (period b)) \<and>
        (\<forall>r\<in>set (candidates env (quarters f)). periodMs env r \<le> periodMs env b)"
  proof (intro allI impI)
    fix b bs
    assume b: "base env f = b # bs"
    have "\<forall>r\<in>set (base env f). periodMs env r \<le> periodMs env b"
      using base_head_most_recent [OF assms b] .
    then have "\<forall>r\<in>set (candidates env (quarters f)). periodMs env r \<le> periodMs env b"
      by (simp add: set_base_candidates)
    then show "anchorQuarterIndex env f = quarterIndex (dayjs env (period b)) \<and>
        (\<forall>r\<in>set (candidates env (quarters f)). periodMs env r \<le> periodMs env b)"
      using b by (simp add: anchorQuarterIndex_def)
  qed
  have entries: "\<forall>i<16.
        label (tl ! i) = labelOfQuarter (anchorQuarterIndex env f - int i) \<and>
        (case find (\<lambda>r. toCalendarQuarterLabel env (period r) = label (tl ! i)) (base env f) of
           Some e \<Rightarrow>
             hasData (tl ! i) \<and>
             entryQuarter (tl ! i) = withFiscalDefaults e (anchorQuarterIndex env f - int i)
         | None \<Rightarrow> \<not> hasData (tl ! i) \<and> unknownFinancials (entryQuarter (tl ! i)))"
  proof (intro allI impI)
    fix i :: nat
    assume i: "i < 16"
    then have nth: "tl ! i = entryAt env (labelMap env f) (anchorQuarterIndex env f) i"
      by (simp add: tl_def)
    show "label (tl ! i) = labelOfQuarter (anchorQuarterIndex env f - int i) \<and>
        (case find (\<lambda>r. toCalendarQuarterLabel env (period r) = label (tl ! i)) (base env f) of
           Some e \<Rightarrow>
             hasData (tl ! i) \<and>
             entryQuarter (tl ! i) = withFiscalDefaults e (anchorQuarterIndex env f - int i)
         | None \<Rightarrow> \<not> hasData (tl ! i) \<and> unknownFinancials (entryQuarter (tl ! i)))"
      unfolding nth
      by (simp add: entryAt_def labelMap_find unknownFinancials_placeholder split: option.splits)
  qed
  show ?thesis
    using tl len empty first entries set_base_candidates [of env f] sorted_base [OF assms]
    by blast
qed

lemma sixQuarters_sorted:
  "sorted_quarters demoEnv sixQuarters =
     [emptyQuarter ''2999-12-31'', emptyQuarter ''2026-09-30'', emptyQuarter ''2026-06-30'',
      emptyQuarter ''2026-03-31'', emptyQuarter ''2025-12-31'', emptyQuarter ''2024-03-31'']"
  by (simp add: sorted_quarters_def sixQuarters_def sortBy_def demo_dayjs emptyQuarter_def jsGt_def)

lemma sixQuarters_usable:
  "usable demoEnv sixQuarters =
     [emptyQuarter ''2026-09-30'', emptyQuarter ''2026-06-30'',
      emptyQuarter ''2026-03-31'', emptyQuarter ''2025-12-31'', emptyQuarter ''2024-03-31'']"
  by (simp add: usable_def sixQuarters_sorted demo_dayjs demo_today isAfter_def emptyQuarter_def)

lemma sixQuarters_base:
  "base demoEnv sixQuarters =
     [emptyQuarter ''2026-09-30'', emptyQuarter ''2026-06-30'',
      emptyQuarter ''2026-03-31'', emptyQuarter ''2025-12-31'', emptyQuarter ''2024-03-31'']"
  by (simp add: base_def sixQuarters_usable)

lemma sixQuarters_valid: "allPeriodsValid demoEnv (quarters sixQuarters)"
  by (simp add: allPeriodsValid_def sixQuarters_def demo_dayjs emptyQuarter_def)

lemma sixQuarters_anchor: "anchorQuarterIndex demoEnv sixQuarters = 8106"
  by (simp add: anchorQuarterIndex_def sixQuarters_base demo_dayjs emptyQuarter_def)

lemma demo_labels:
  "toCalendarQuarterLabel demoEnv ''2026-09-30'' = ''2026Q3''"
  "toCalendarQuarterLabel demoEnv ''2026-06-30'' = ''2026Q2''"
  "toCalendarQuarterLabel demoEnv ''2026-03-31'' = ''2026Q1''"
  "toCalendarQuarterLabel demoEnv ''2025-12-31'' = ''2025Q4''"
  "toCalendarQuarterLabel demoEnv ''2024-03-31'' = ''2024Q1''"
  by (simp_all add: toCalendarQuarterLabel_def demo_dayjs labelOfQuarter_def showInt_def
      showNat.simps digitChar_def)

lemma labels_from_8106:
  "map (\<lambda>i. labelOfQuarter (8106 - int i)) [0, 1, 2, 3, 4, 5, 6, 7, 8, 9, 10, 11, 12, 13, 14, 15]
     = [''2026Q3'', ''2026Q2'', ''2026Q1'', ''2025Q4'', ''2025Q3'', ''2025Q2'', ''2025Q1'',
        ''2024Q4'', ''2024Q3'', ''2024Q2'', ''2024Q1'', ''2023Q4'', ''2023Q3'', ''2023Q2'',
        ''2023Q1'', ''2022Q4'']"
  by (simp add: labelOfQuarter_def showInt_def showNat.simps digitChar_def)

lemma sixQuarters_hasData:
  "map_sum id (map hasData) (timeline demoEnv sixQuarters)
     = Inr [True, True, True, True, False, False, False, False, False, False, True,
            False, False, False, False, False]"
proof -
  have "map_sum id (map hasData) (timeline demoEnv sixQuarters)
      = Inr (map (\<lambda>l. find (\<lambda>r. toCalendarQuarterLabel demoEnv (period r) = l)
                         (base demoEnv sixQuarters) \<noteq> None)
               (map (\<lambda>i. labelOfQuarter (8106 - int i)) [0..<16]))"
    by (simp add: timeline_valid [OF sixQuarters_valid] sixQuarters_anchor entryAt_def comp_def
        labelMap_find)
  then show ?thesis
    unfolding upt16 labels_from_8106 sixQuarters_base
    by (simp add: emptyQuarter_def demo_labels)
qed

text \<open>
  A concrete run on the six-quarter input: the five non-future quarters are the
  candidates, the anchor is 2026Q3, and the entries for 2026Q3, 2026Q2, 2026Q1, 2025Q4
  and 2024Q1 have data.
\<close>

theorem timeline_structure_witness:
  "allPeriodsValid demoEnv (quarters sixQuarters)
   \<and> map_sum id length (timeline demoEnv sixQuarters) = Inr 16
   \<and> candidates demoEnv (quarters sixQuarters) =
       [emptyQuarter ''2026-06-30'', emptyQuarter ''2026-09-30'', emptyQuarter ''2024-03-31'',
        emptyQuarter ''2026-03-31'', emptyQuarter ''2025-12-31'']
   \<and> base demoEnv sixQuarters =
       [emptyQuarter ''2026-09-30'', emptyQuarter ''2026-06-30'',
        emptyQuarter ''2026-03-31'', emptyQuarter ''2025-12-31'', emptyQuarter ''2024-03-31'']
   \<and> anchorQuarterIndex demoEnv sixQuarters = 8106
   \<and> map_sum id (map hasData) (timeline demoEnv sixQuarters)
       = Inr [True, True, True, True, False, False, False, False, False, False, True,
              False, False, False, False, False]"
proof -
  obtain tl where "timeline demoEnv sixQuarters = Inr tl" and "length tl = 16"
    using timeline_structure [OF sixQuarters_valid] by blast
  then have len: "map_sum id length (timeline demoEnv sixQuarters) = Inr 16"
    by simp
  have cands: "candidates demoEnv (quarters sixQuarters) =
       [emptyQuarter ''2026-06-30'', emptyQuarter ''2026-09-30'', emptyQuarter ''2024-03-31'',
        emptyQuarter ''2026-03-31'', emptyQuarter ''2025-12-31'']"
    by (simp add: candidates_def nonFuture_def sixQuarters_def demo_dayjs demo_today isAfter_def
        emptyQuarter_def)
  show ?thesis
    using len cands sixQuarters_valid sixQuarters_base sixQuarters_anchor sixQuarters_hasData
    by blast
qed

section \<open>Scoring a timeline without data\<close>

lemma blank_latest4:
  "latest4 (blank16 env q) = map (placeholderQuarter env q) [0, 1, 2, 3]"
  unfolding blank16_def upt16 by (simp add: latest4_def slice_def)

lemma blank_earlier4:
  "earlier4 (blank16 env q) = map (placeholderQuarter env q) [4, 5, 6, 7]"
  unfolding blank16_def upt16 by (simp add: earlier4_def slice_def)

lemma blank_latest2:
  "latest2 (blank16 env q) = map (placeholderQuarter env q) [0, 1]"
  by (simp add: latest2_def blank_latest4 slice_def)

lemma blank_earlier2:
  "earlier2 (blank16 env q) = map (placeholderQuarter env q) [2, 3]"
  by (simp add: earlier2_def blank_latest4 slice_def)

lemma blank_hasRevenue:
  "hasRevenueLatest (blank16 env q) = False" "hasRevenueEarlier (blank16 env q) = False"
  by (simp_all add: hasRevenueLatest_def hasRevenueEarlier_def revenueLatest_def
      revenueEarlier_def blank_latest4 blank_earlier4 placeholderQuarter_def)

lemma blank_cagr:
  "hasCagrData (blank16 env q) = False" "cagr1y (blank16 env q) = NaN"
  "revL4 (blank16 env q) = NaN" "revP4 (blank16 env q) = NaN"
  by (simp_all add: hasCagrData_def cagr1y_def revL4_def revP4_def blank_hasRevenue)

lemma blank_gm:
  "gmLatest (blank16 env q) = [NaN, NaN, NaN, NaN]"
  "gmL4 (blank16 env q) = NaN" "gmBaseline (blank16 env q) = NaN"
  "gmTrend (blank16 env q) = None" "gmOkForCapex (blank16 env q) = False"
  by (simp_all add: gmLatest_def gmL4_def gmBaseline_def gmTrend_def gmOkForCapex_def
      grossMargin_def avgValid_def slice_def blank_latest4 placeholderQuarter_def)

lemma blank_ocf:
  "hasOcfTotals (blank16 env q) = False" "hasOcfTrend (blank16 env q) = False"
  "ocfL4 (blank16 env q) = NaN" "ocfN2 (blank16 env q) = NaN" "ocfP2 (blank16 env q) = NaN"
  "ocfValues (blank16 env q) = [NaN, NaN, NaN, NaN]"
  by (simp_all add: hasOcfTotals_def hasOcfTrend_def ocfL4_def ocfN2_def ocfP2_def
      ocfValues_def ocfNear_def ocfPrev_def blank_latest4 blank_latest2 blank_earlier2
      placeholderQuarter_def)

lemma blank_opex: "hasOpexData (blank16 env q) = False"
  by (simp add: hasOpexData_def opexNear_def opexPrev_def opexRatio_def blank_latest2
      blank_earlier2 placeholderQuarter_def)

lemma blank_yoy: "hasYoyData (blank16 env q) = False"
  by (simp add: hasYoyData_def yoyNear_def yoyPrev_def yoyRaw_def yoyAt_def slice_def
      blank_latest4 placeholderQuarter_def upt_rec_numeral split: option.splits)

lemma blank_capex:
  "capexValues (blank16 env q) = [NaN, NaN, NaN, NaN]" "capexTrend (blank16 env q) = None"
  by (simp_all add: capexValues_def capexTrend_def capexBaseline_def atIndex_def
      blank_latest4 placeholderQuarter_def)

lemma blank_fcf:
  "fcfValues (blank16 env q) = [NaN, NaN, NaN, NaN]" "fcfValid (blank16 env q) = []"
  "fcfL4 (blank16 env q) = NaN" "fcfPass (blank16 env q) = None"
  "hasFcfData (blank16 env q) = False"
proof -
  show v: "fcfValues (blank16 env q) = [NaN, NaN, NaN, NaN]"
    by (simp add: fcfValues_def blank_ocf blank_capex blank_latest4 atIndex_def
        upt_rec_numeral)
  then show e: "fcfValid (blank16 env q) = []"
    by (simp add: fcfValid_def)
  then show "fcfL4 (blank16 env q) = NaN" "fcfPass (blank16 env q) = None"
    "hasFcfData (blank16 env q) = False"
    by (simp_all add: fcfL4_def fcfPass_def hasFcfData_def)
qed

lemma blank_ebitda: "ebitdaL4 (blank16 env q) = NaN"
  by (simp add: ebitdaL4_def ebitdaValid_def ebitdaValues_def finiteOrNaN_def blank_latest4
      placeholderQuarter_def)

lemma blank_netIncome: "netIncomeL4 (blank16 env q) = NaN"
  by (simp add: netIncomeL4_def netIncomeLatestValid_def finiteOrNaN_def blank_latest4
      placeholderQuarter_def)

lemma blank_valuation:
  "evToEbitda mc (blank16 env q) = NaN" "evToFcf mc (blank16 env q) = NaN"
  "pe mc (blank16 env q) = NaN" "peg mc (blank16 env q) = NaN"
  "valuationPass mc (blank16 env q) = None"
proof -
  show a: "evToEbitda mc (blank16 env q) = NaN"
    by (simp add: evToEbitda_def blank_ebitda)
  show b: "evToFcf mc (blank16 env q) = NaN"
    by (simp add: evToFcf_def blank_fcf)
  show c: "pe mc (blank16 env q) = NaN"
    by (simp add: pe_def blank_netIncome)
  then show d: "peg mc (blank16 env q) = NaN"
    by (simp add: peg_def)
  show "valuationPass mc (blank16 env q) = None"
    by (simp add: valuationPass_def valuationAvailableCount_def valuationAvailable_def
        valuationChecks_def evEbitdaPass_def evFcfPass_def pegPass_def a b d)
qed

lemma blank_rd: "rdRate (blank16 env q) = NaN"
  by (simp add: rdRate_def rdRatio_def avgValid_def blank_latest4 placeholderQuarter_def)

lemma normalizeSharesLoop_NaN:
  "list_all (\<lambda>x. x = NaN) xs \<Longrightarrow> normalizeSharesLoop xs factor prev = xs"
  by (induction xs arbitrary: prev) simp_all

lemma blank_dilution: "dilutionYoY (blank16 env q) = None" "passDilution (blank16 env q) = None"
proof -
  have raw: "rawDilutedSeries (blank16 env q) = replicate 16 NaN"
    unfolding blank16_def upt16
    by (simp add: rawDilutedSeries_def finiteOrNaN_def placeholderQuarter_def eval_nat_numeral)
  have "normalizedDiluted (blank16 env q) = replicate 16 NaN"
    unfolding normalizedDiluted_def normalizeShares_def raw
    by (rule normalizeSharesLoop_NaN) (simp add: list_all_iff)
  then have "dilutedL4 (blank16 env q) = NaN"
    by (simp add: dilutedL4_def dilutedLatest_def slice_def avgValid_def)
  then show "dilutionYoY (blank16 env q) = None"
    by (simp add: dilutionYoY_def hasDilutionData_def)
  then show "passDilution (blank16 env q) = None"
    by (simp add: passDilution_def)
qed

lemma blank_rules:
  "map (\<lambda>(k, r). pass r) (rules mc (blank16 env q))
     = [None, None, None, None, None, None, None, None, None, None]"
  by (simp add: rules_def blank_cagr blank_gm blank_ocf blank_opex blank_yoy blank_valuation
      blank_capex blank_rd blank_dilution blank_fcf)

lemma blank_total: "total mc (blank16 env q) = 0"
  by (simp add: total_def basePass_def bonus_def rules_def blank_cagr blank_gm blank_ocf
      blank_opex blank_yoy blank_valuation blank_capex blank_rd blank_dilution blank_fcf)

lemma rules_keys:
  "map fst (rules mc tq) =
     [''1_growth_cagr'', ''2_gross_margin_level_trend'', ''3_ocf_quality'', ''4_opex_rate'',
      ''5_yoy_acceleration'', ''6_val_vs_growth'', ''7_capacity_without_gm_hit'',
      ''8_rd_ratio'', ''9_dilution_governance'', ''10_fcf_coverage'']"
  by (simp add: rules_def)

section \<open>scoreCompany: when it returns\<close>

lemma scoreCompany_valid:
  assumes "allPeriodsValid env (quarters f)"
  shows "scoreCompany env f =
     Inr (scoreResult env f (map (entryAt env (labelMap env f) (anchorQuarterIndex env f)) [0..<16]))"
  by (simp add: scoreCompany_def timeline_valid [OF assms])

lemma zero_quarters_base: "quarters f = [] \<Longrightarrow> base env f = []"
  by (simp add: base_def usable_def sorted_quarters_def sortBy_def)

lemma zero_quarters_timelineQuarters:
  assumes "quarters f = []"
  shows "map entryQuarter (map (entryAt env (labelMap env f) (anchorQuarterIndex env f)) [0..<16])
         = blank16 env (nowQuarter env)"
  using zero_quarters_base [OF assms, of env]
  by (simp add: blank16_def entryAt_def labelMap_find anchorQuarterIndex_def comp_def)

text \<open>
  Claim C1, as stated: \<open>scoreCompany\<close> throws a \<open>RangeError\<close> on a well-typed
  \<open>Fundamentals\<close> value, one whose single quarter has the period "garbage".
\<close>

theorem scoreCompany_throws_counterexample:
  "dayjs demoEnv ''garbage'' = InvalidDate
   \<and> scoreCompany demoEnv unparsablePeriod = Inl rangeError"
  by (simp add: scoreCompany_def demo_dayjs unparsablePeriod_timeline)

text \<open>
  Claim C1, amended. For every \<open>Fundamentals\<close> input whose quarter periods all parse as
  valid dates (the invariant of the data model, which the adapters enforce before they
  return), \<open>scoreCompany\<close> does not throw: it returns a result holding the ten rules.
  This includes the input with no quarters, whatever its market capitalisation; there
  the total score is 0, every one of the ten rules has \<open>pass = null\<close>, and no red flag
  is raised.
\<close>

theorem scoreCompany_returns:
  "(allPeriodsValid env (quarters f) \<longrightarrow>
      (\<exists>r. scoreCompany env f = Inr r \<and> res_ticker r = ticker f \<and>
           map fst (res_rules r) =
             [''1_growth_cagr'', ''2_gross_margin_level_trend'', ''3_ocf_quality'',
              ''4_opex_rate'', ''5_yoy_acceleration'', ''6_val_vs_growth'',
              ''7_capacity_without_gm_hit'', ''8_rd_ratio'', ''9_dilution_governance'',
              ''10_fcf_coverage'']))
   \<and> (quarters f = [] \<longrightarrow>
      (\<exists>r. scoreCompany env f = Inr r \<and> total_score r = 0 \<and> base_points r = 0 \<and>
           map (\<lambda>(k, rule). pass rule) (res_rules r)
             = [None, None, None, None, None, None, None, None, None, None] \<and>
           res_rating r = RATING_NOT_MET \<and> data_quality_quarters r = 0))"
proof (intro conjI impI)
  assume valid: "allPeriodsValid env (quarters f)"
  show "\<exists>r. scoreCompany env f = Inr r \<and> res_ticker r = ticker f \<and>
           map fst (res_rules r) =
             [''1_growth_cagr'', ''2_gross_margin_level_trend'', ''3_ocf_quality'',
              ''4_opex_rate'', ''5_yoy_acceleration'', ''6_val_vs_growth'',
              ''7_capacity_without_gm_hit'', ''8_rd_ratio'', ''9_dilution_governance'',
              ''10_fcf_coverage'']"
    unfolding scoreCompany_valid [OF valid]
    by (simp add: scoreResult_def Let_def rules_keys del: map_map)
next
  assume none: "quarters f = []"
  then have valid: "allPeriodsValid env (quarters f)"
    by (simp add: allPeriodsValid_def)
  show "\<exists>r. scoreCompany env f = Inr r \<and> total_score r = 0 \<and> base_points r = 0 \<and>
           map (\<lambda>(k, rule). pass rule) (res_rules r)
             = [None, None, None, None, None, None, None, None, None, None] \<and>
           res_rating r = RATING_NOT_MET \<and> data_quality_quarters r = 0"
    unfolding scoreCompany_valid [OF valid]
    using blank_total [of "marketCap f" env "nowQuarter env"]
    by (simp add: scoreResult_def Let_def zero_quarters_timelineQuarters [OF none]
        zero_quarters_base [OF none] blank_rules rating_def total_def bonus_def del: map_map)
qed

text \<open>
  Concrete runs: the six-quarter input returns, and the degraded input of the route (no
  quarters, unknown market capitalisation) returns with score 0 and ten unknown rules.
\<close>

theorem scoreCompany_returns_witness:
  "allPeriodsValid demoEnv (quarters sixQuarters)
   \<and> map_sum id res_ticker (scoreCompany demoEnv sixQuarters) = Inr ''X''
   \<and> quarters degradedFundamentals = []
   \<and> map_sum id total_score (scoreCompany demoEnv degradedFundamentals) = Inr 0
   \<and> map_sum id (\<lambda>r. map (\<lambda>(k, rule). pass rule) (res_rules r))
        (scoreCompany demoEnv degradedFundamentals)
       = Inr [None, None, None, None, None, None, None, None, None, None]"
proof -
  note valid = scoreCompany_returns [of demoEnv sixQuarters, THEN conjunct1, rule_format,
      OF sixQuarters_valid]
  have a: "map_sum id res_ticker (scoreCompany demoEnv sixQuarters) = Inr ''X''"
  proof -
    from valid obtain r where "scoreCompany demoEnv sixQuarters = Inr r"
      and "res_ticker r = ticker sixQuarters"
      by (elim exE conjE)
    then show ?thesis by (simp add: sixQuarters_def)
  qed
  have none: "quarters degradedFundamentals = []"
    by (simp add: degradedFundamentals_def)
  note zero = scoreCompany_returns [of demoEnv degradedFundamentals, THEN conjunct2,
      rule_format, OF none]
  have b: "map_sum id total_score (scoreCompany demoEnv degradedFundamentals) = Inr 0
     \<and> map_sum id (\<lambda>r. map (\<lambda>(k, rule). pass rule) (res_rules r))
        (scoreCompany demoEnv degradedFundamentals)
       = Inr [None, None, None, None, None, None, None, None, None, None]"
  proof -
    from zero obtain d where "scoreCompany demoEnv degradedFundamentals = Inr d"
      and "total_score d = 0"
      and "map (\<lambda>(k, rule). pass rule) (res_rules d)
         = [None, None, None, None, None, None, None, None, None, None]"
      by (elim exE conjE)
    then show ?thesis by simp
  qed
  from sixQuarters_valid a none b show ?thesis
    by (intro conjI) (erule conjunct1 conjunct2 | assumption)+
qed

section \<open>The valuation rule\<close>

lemma valuationExample_valid: "allPeriodsValid demoEnv (quarters valuationExample)"
  by (simp add: allPeriodsValid_def valuationExample_def valuationQuarter_def demo_dayjs)

lemma valuationExample_base: "base demoEnv valuationExample = [valuationQuarter]"
  by (simp add: base_def usable_def sorted_quarters_def sortBy_def valuationExample_def)

lemma valuationExample_anchor: "anchorQuarterIndex demoEnv valuationExample = 8106"
  by (simp add: anchorQuarterIndex_def valuationExample_base valuationQuarter_def demo_dayjs)

lemma valuationExample_timeline:
  "map entryQuarter
     (map (entryAt demoEnv (labelMap demoEnv valuationExample)
             (anchorQuarterIndex demoEnv valuationExample)) [0..<16])
   = valuationTimeline"
proof -
  have "map entryQuarter
     (map (entryAt demoEnv (labelMap demoEnv valuationExample)
             (anchorQuarterIndex demoEnv valuationExample)) [0..<16])
     = map (\<lambda>i. case find (\<lambda>r. toCalendarQuarterLabel demoEnv (period r) = labelOfQuarter (8106 - int i))
                      [valuationQuarter] of
                   Some e \<Rightarrow> withFiscalDefaults e (8106 - int i)
                 | None \<Rightarrow> placeholderQuarter demoEnv 8106 i) [0..<16]"
    by (simp add: entryAt_def labelMap_find valuationExample_base valuationExample_anchor comp_def)
  also have "\<dots> = valuationTimeline"
    unfolding upt16 valuationTimeline_def
    by (simp add: valuationQuarter_def demo_labels labelOfQuarter_def showInt_def showNat.simps
        digitChar_def)
  finally show ?thesis .
qed

lemma valuationTimeline_latest4:
  "latest4 valuationTimeline =
     [withFiscalDefaults valuationQuarter 8106, placeholderQuarter demoEnv 8106 1,
      placeholderQuarter demoEnv 8106 2, placeholderQuarter demoEnv 8106 3]"
  by (simp add: latest4_def slice_def valuationTimeline_def)

lemma valuationTimeline_earlier4:
  "earlier4 valuationTimeline = map (placeholderQuarter demoEnv 8106) [4, 5, 6, 7]"
  by (simp add: earlier4_def slice_def valuationTimeline_def)

lemma valuationTimeline_metrics:
  "enterpriseValue (Fin 400) valuationTimeline = Fin 400"
  "ebitdaL4 valuationTimeline = Fin 20"
  "fcfL4 valuationTimeline = Fin 10"
  "netIncomeL4 valuationTimeline = Fin (- 3)"
proof -
  show "enterpriseValue (Fin 400) valuationTimeline = Fin 400"
    by (simp add: enterpriseValue_def latestDebt_def latestCash_def atIndex_def
        valuationTimeline_latest4 withFiscalDefaults_def valuationQuarter_def)
  show "ebitdaL4 valuationTimeline = Fin 20"
    by (simp add: ebitdaL4_def ebitdaValid_def ebitdaValues_def finiteOrNaN_def jsSum_def
        valuationTimeline_latest4 withFiscalDefaults_def valuationQuarter_def
        placeholderQuarter_def)
  have "fcfValues valuationTimeline = [Fin 10, NaN, NaN, NaN]"
    by (simp add: fcfValues_def ocfValues_def capexValues_def atIndex_def upt_rec_numeral
        valuationTimeline_latest4 withFiscalDefaults_def valuationQuarter_def
        placeholderQuarter_def)
  then show "fcfL4 valuationTimeline = Fin 10"
    by (simp add: fcfL4_def fcfValid_def jsSum_def)
  show "netIncomeL4 valuationTimeline = Fin (- 3)"
    by (simp add: netIncomeL4_def netIncomeLatestValid_def finiteOrNaN_def jsSum_def
        valuationTimeline_latest4 withFiscalDefaults_def valuationQuarter_def
        placeholderQuarter_def)
qed

lemma valuationTimeline_checks:
  "evToEbitda (Fin 400) valuationTimeline = Fin 20"
  "evToFcf (Fin 400) valuationTimeline = Fin 40"
  "peg (Fin 400) valuationTimeline = NaN"
  by (simp_all add: evToEbitda_def evToFcf_def peg_def pe_def valuationTimeline_metrics jsGt_def)

lemma valuationTimeline_pass:
  "map checkPass (valuationChecks (Fin 400) valuationTimeline) = [Some True, Some False, None]"
  "valuationPass (Fin 400) valuationTimeline = Some False"
proof -
  have passes: "evEbitdaPass (Fin 400) valuationTimeline = Some True"
    "evFcfPass (Fin 400) valuationTimeline = Some False"
    "pegPass (Fin 400) valuationTimeline = None"
    by (simp_all add: evEbitdaPass_def evFcfPass_def pegPass_def valuationTimeline_checks
        VAL_EBITDA_LIMIT_def VAL_FCF_LIMIT_def VAL_PEG_LIMIT_def)
  show "map checkPass (valuationChecks (Fin 400) valuationTimeline) = [Some True, Some False, None]"
    by (simp add: valuationChecks_def passes)
  show "valuationPass (Fin 400) valuationTimeline = Some False"
    by (auto simp add: valuationPass_def valuationAvailableCount_def valuationPassCount_def
        valuationAvailable_def valuationChecks_def passes)
qed

lemma valuationExample_rules:
  "map_sum id res_rules (scoreCompany demoEnv valuationExample)
     = Inr (rules (Fin 400) valuationTimeline)"
  unfolding scoreCompany_valid [OF valuationExample_valid]
  by (simp add: scoreResult_def Let_def valuationExample_timeline del: map_map)
    (simp add: valuationExample_def)

text \<open>
  Claim C7. Rule 6 of the result is built from the three checks EV/EBITDA (limit 25),
  EV/FCF (limit 35) and PEG (limit 2). A check is computable when its value is finite,
  and then passes exactly when the value is at most its limit. The rule's \<open>pass\<close> is
  \<open>null\<close> when fewer than two checks are computable, and otherwise is true exactly when
  at least two computable checks pass. For the example input (EV/EBITDA = 20,
  EV/FCF = 40, PEG not computable) the rule's \<open>pass\<close> is false.
\<close>

theorem valuation_rule:
  "map_sum id res_rules (scoreCompany env f)
     = map_sum id (\<lambda>tl. rules (marketCap f) (map entryQuarter tl)) (timeline env f)
   \<and> (\<exists>rule6. map_of (rules mc tq) ''6_val_vs_growth'' = Some rule6 \<and>
         pass rule6 = valuationPass mc tq \<and>
         map_of (ruleData rule6) ''checks'' = Some (Checks (valuationChecks mc tq)))
   \<and> map checkKey (valuationChecks mc tq) = [''ev_ebitda'', ''ev_fcf'', ''peg'']
   \<and> map checkValue (valuationChecks mc tq) = [evToEbitda mc tq, evToFcf mc tq, peg mc tq]
   \<and> map checkLimit (valuationChecks mc tq) = [Fin 25, Fin 35, Fin 2]
   \<and> list_all (\<lambda>c. checkPass c =
          (if isFinite (checkValue c) then Some (jsLe (checkValue c) (checkLimit c)) else None))
        (valuationChecks mc tq)
   \<and> valuationPass mc tq =
       (if length (filter (\<lambda>c. isFinite (checkValue c)) (valuationChecks mc tq)) < 2 then None
        else Some (2 \<le> length (filter (\<lambda>c. isFinite (checkValue c) \<and>
                                           jsLe (checkValue c) (checkLimit c))
                                    (valuationChecks mc tq))))
   \<and> map_sum id (\<lambda>r. map_option pass (map_of (res_rules r) ''6_val_vs_growth''))
        (scoreCompany demoEnv valuationExample) = Inr (Some (Some False))
   \<and> map checkValue (valuationChecks (marketCap valuationExample) valuationTimeline)
       = [Fin 20, Fin 40, NaN]"
proof (intro conjI)
  show "map_sum id res_rules (scoreCompany env f)
     = map_sum id (\<lambda>tl. rules (marketCap f) (map entryQuarter tl)) (timeline env f)"
    by (cases "timeline env f") (simp_all add: scoreCompany_def scoreResult_def Let_def)
  show "\<exists>rule6. map_of (rules mc tq) ''6_val_vs_growth'' = Some rule6 \<and>
         pass rule6 = valuationPass mc tq \<and>
         map_of (ruleData rule6) ''checks'' = Some (Checks (valuationChecks mc tq))"
    by (simp add: rules_def)
  show "map checkKey (valuationChecks mc tq) = [''ev_ebitda'', ''ev_fcf'', ''peg'']"
    by (simp add: valuationChecks_def)
  show "map checkValue (valuationChecks mc tq) = [evToEbitda mc tq, evToFcf mc tq, peg mc tq]"
    by (simp add: valuationChecks_def)
  show "map checkLimit (valuationChecks mc tq) = [Fin 25, Fin 35, Fin 2]"
    by (simp add: valuationChecks_def VAL_EBITDA_LIMIT_def VAL_FCF_LIMIT_def VAL_PEG_LIMIT_def)
  show "list_all (\<lambda>c. checkPass c =
          (if isFinite (checkValue c) then Some (jsLe (checkValue c) (checkLimit c)) else None))
        (valuationChecks mc tq)"
    by (simp add: valuationChecks_def evEbitdaPass_def evFcfPass_def pegPass_def)
  show "valuationPass mc tq =
       (if length (filter (\<lambda>c. isFinite (checkValue c)) (valuationChecks mc tq)) < 2 then None
        else Some (2 \<le> length (filter (\<lambda>c. isFinite (checkValue c) \<and>
                                           jsLe (checkValue c) (checkLimit c))
                                    (valuationChecks mc tq))))"
    by (cases "isFinite (evToEbitda mc tq)"; cases "isFinite (evToFcf mc tq)";
        cases "isFinite (peg mc tq)")
      (auto simp add: valuationPass_def valuationAvailableCount_def valuationPassCount_def
        valuationAvailable_def valuationChecks_def evEbitdaPass_def evFcfPass_def pegPass_def)
  show "map_sum id (\<lambda>r. map_option pass (map_of (res_rules r) ''6_val_vs_growth''))
        (scoreCompany demoEnv valuationExample) = Inr (Some (Some False))"
  proof -
    have "scoreCompany demoEnv valuationExample
        = Inr (scoreResult demoEnv valuationExample
            (map (entryAt demoEnv (labelMap demoEnv valuationExample)
                   (anchorQuarterIndex demoEnv valuationExample)) [0..<16]))"
      by (rule scoreCompany_valid [OF valuationExample_valid])
    moreover have "res_rules (scoreResult demoEnv valuationExample
            (map (entryAt demoEnv (labelMap demoEnv valuationExample)
                   (anchorQuarterIndex demoEnv valuationExample)) [0..<16]))
        = rules (Fin 400) valuationTimeline"
      using valuationExample_rules
      by (simp add: scoreCompany_valid [OF valuationExample_valid])
    ultimately show ?thesis
      by (simp add: rules_def valuationTimeline_pass)
  qed
  show "map checkValue (valuationChecks (marketCap valuationExample) valuationTimeline)
       = [Fin 20, Fin 40, NaN]"
    by (simp add: valuationChecks_def valuationExample_def valuationTimeline_checks)
qed

text \<open>
  The general statement at the example: two checks are computable, one of them passes,
  so the verdict of the rule is false.
\<close>

theorem valuation_rule_witness:
  "valuationPass (Fin 400) valuationTimeline = Some False
   \<and> map checkValue (valuationChecks (Fin 400) valuationTimeline) = [Fin 20, Fin 40, NaN]
   \<and> map checkLimit (valuationChecks (Fin 400) valuationTimeline) = [Fin 25, Fin 35, Fin 2]"
proof -
  note general = valuation_rule [of demoEnv valuationExample "Fin 400" valuationTimeline]
  have vals: "map checkValue (valuationChecks (Fin 400) valuationTimeline) = [Fin 20, Fin 40, NaN]"
    using general by (simp add: valuationTimeline_checks)
  have lims: "map checkLimit (valuationChecks (Fin 400) valuationTimeline) = [Fin 25, Fin 35, Fin 2]"
    using general by (elim conjE)
  have "valuationPass (Fin 400) valuationTimeline =
       (if length (filter (\<lambda>c. isFinite (checkValue c)) (valuationChecks (Fin 400) valuationTimeline)) < 2
        then None
        else Some (2 \<le> length (filter (\<lambda>c. isFinite (checkValue c) \<and>
                                           jsLe (checkValue c) (checkLimit c))
                                    (valuationChecks (Fin 400) valuationTimeline))))"
    using general by (elim conjE)
  also have "\<dots> = Some False"
    by (simp add: valuationChecks_def valuationTimeline_checks VAL_EBITDA_LIMIT_def
        VAL_FCF_LIMIT_def VAL_PEG_LIMIT_def)
  finally show ?thesis
    using vals lims by simp
qed

section \<open>Maps\<close>

lemma map_of_mapSet: "map_of (mapSet m k v) = (map_of m)(k \<mapsto> v)"
  by (induction m) (auto simp add: fun_eq_iff)

lemma mapGet_mapSet: "mapGet (mapSet m k v) k' = (if k' = k then Some v else mapGet m k')"
  by (simp add: mapGet_def map_of_mapSet)

lemma mapGet_None_iff: "mapGet m k = None \<longleftrightarrow> k \<notin> set (mapKeys m)"
  by (simp add: mapGet_def mapKeys_def map_of_eq_None_iff)

section \<open>The recency rule\<close>

lemma mapGet_updateQuarterDatum:
  "mapGet (updateQuarterDatum env m k d) k' =
     (if k' \<noteq> k then mapGet m k'
      else case mapGet m k of
             None \<Rightarrow> Some d
           | Some e \<Rightarrow> if jsGe (filedTime env d) (filedTime env e) then Some d else Some e)"
  by (simp add: updateQuarterDatum_def Let_def mapGet_mapSet split: option.splits)

text \<open>
  Claim C6. When a fact arrives for a quarter key that already holds an entry, the
  stored entry is replaced exactly when the filing time of the new fact is greater
  than or equal to that of the stored entry (the comparison of JavaScript on the
  \<open>getTime()\<close> values, a missing filing date counting as 0); in particular on an exact
  tie the fact processed later is kept. A key without an entry takes the new fact, and
  other keys are untouched. The extraction is a function of the facts document, the
  configs and the mode alone: it does not read the clock.
\<close>

theorem updateQuarterDatum_recency:
  "(mapGet m k = None \<longrightarrow> mapGet (updateQuarterDatum env m k d) k = Some d)
   \<and> (mapGet m k = Some e \<longrightarrow>
        mapGet (updateQuarterDatum env m k d) k
          = (if jsGe (filedTime env d) (filedTime env e) then Some d else Some e))
   \<and> (mapGet m k = Some e \<and> filedTime env d = filedTime env e \<and> isFinite (filedTime env e) \<longrightarrow>
        mapGet (updateQuarterDatum env m k d) k = Some d)
   \<and> (k' \<noteq> k \<longrightarrow> mapGet (updateQuarterDatum env m k d) k' = mapGet m k')
   \<and> collectFactSeries (env\<lparr>nowMs := t, nowQuarter := q\<rparr>) facts configs mode
        = collectFactSeries env facts configs mode"
proof (intro conjI impI)
  show "mapGet (updateQuarterDatum env m k d) k = Some d" if "mapGet m k = None"
    using that by (simp add: mapGet_updateQuarterDatum)
  show "mapGet (updateQuarterDatum env m k d) k
          = (if jsGe (filedTime env d) (filedTime env e) then Some d else Some e)"
    if "mapGet m k = Some e"
    using that by (simp add: mapGet_updateQuarterDatum)
  show "mapGet (updateQuarterDatum env m k d) k = Some d"
    if "mapGet m k = Some e \<and> filedTime env d = filedTime env e \<and> isFinite (filedTime env e)"
    using that by (cases "filedTime env e") (simp_all add: mapGet_updateQuarterDatum jsGe_def)
  show "mapGet (updateQuarterDatum env m k d) k' = mapGet m k'" if "k' \<noteq> k"
    using that by (simp add: mapGet_updateQuarterDatum)
  let ?env' = "env\<lparr>nowMs := t, nowQuarter := q\<rparr>"
  have filed: "filedTime ?env' = filedTime env"
    by (auto simp add: fun_eq_iff filedTime_def split: option.splits)
  have "updateQuarterDatum ?env' m k d = updateQuarterDatum env m k d" for m k d
    unfolding updateQuarterDatum_def filed by (rule refl)
  then have upd: "updateQuarterDatum ?env' = updateQuarterDatum env"
    by (simp add: fun_eq_iff)
  have iso: "toISODate ?env' = toISODate env"
    by (auto simp add: fun_eq_iff toISODate_def split: option.splits Dayjs.splits)
  have days: "durationDays ?env' = durationDays env"
    by (auto simp add: fun_eq_iff durationDays_def split: option.splits Dayjs.splits)
  have num: "jsNumber ?env' = jsNumber env" "numToString ?env' = numToString env"
    by (auto simp add: fun_eq_iff jsNumber_def numToString_def split: number.splits)
  have "factKey ?env' e f n = factKey env e f n" for e f n
    unfolding factKey_def factYearQuarter_def num by (rule refl)
  then have fkey: "factKey ?env' = factKey env"
    by (simp add: fun_eq_iff)
  have entry: "processEntry ?env' mode unit entry st = processEntry env mode unit entry st"
    for mode unit entry st
    unfolding processEntry_def upd iso days fkey
    by (auto split: option.splits Dayjs.splits prod.splits)
  then have pe: "processEntry ?env' = processEntry env"
    by (simp add: fun_eq_iff)
  have "scanConcept ?env' md cfg tf c st = scanConcept env md cfg tf c st" for md cfg tf c st
    unfolding scanConcept_def pe by (rule refl)
  then have sc: "scanConcept ?env' = scanConcept env"
    by (simp add: fun_eq_iff)
  have "scanConfig ?env' md fs cfg st = scanConfig env md fs cfg st" for md fs cfg st
    unfolding scanConfig_def sc by (rule refl)
  then have "scanConfig ?env' = scanConfig env"
    by (simp add: fun_eq_iff)
  then show "collectFactSeries (env\<lparr>nowMs := t, nowQuarter := q\<rparr>) facts configs mode
        = collectFactSeries env facts configs mode"
    by (simp add: collectFactSeries_def)
qed

lemma demo_filedTime:
  "filedTime demoEnv storedFact = Fin 1722470400000"
  "filedTime demoEnv tiedFact = Fin 1722470400000"
  "filedTime demoEnv olderFact = Fin 1714521600000"
  by (simp_all add: filedTime_def storedFact_def tiedFact_def olderFact_def demoEnv_def
      demoDates_def)

text \<open>
  Concrete runs on the key 2024Q2: a stored fact filed 2024-08-01 is replaced by a fact
  with the same filing date, and is kept against a fact filed 2024-05-01.
\<close>

theorem updateQuarterDatum_recency_witness:
  "mapGet [(''2024Q2'', storedFact)] ''2024Q2'' = Some storedFact
   \<and> filedTime demoEnv tiedFact = filedTime demoEnv storedFact
   \<and> isFinite (filedTime demoEnv storedFact)
   \<and> mapGet (updateQuarterDatum demoEnv [(''2024Q2'', storedFact)] ''2024Q2'' tiedFact) ''2024Q2''
       = Some tiedFact
   \<and> mapGet (updateQuarterDatum demoEnv [(''2024Q2'', storedFact)] ''2024Q2'' olderFact) ''2024Q2''
       = Some storedFact
   \<and> mapGet (updateQuarterDatum demoEnv [] ''2024Q2'' olderFact) ''2024Q2'' = Some olderFact
   \<and> mapGet (updateQuarterDatum demoEnv [(''2024Q2'', storedFact)] ''2024Q3'' tiedFact) ''2024Q2''
       = Some storedFact"
proof -
  have stored: "mapGet [(''2024Q2'', storedFact)] ''2024Q2'' = Some storedFact"
    by (simp add: mapGet_def)
  have same: "filedTime demoEnv tiedFact = filedTime demoEnv storedFact"
    and fin: "isFinite (filedTime demoEnv storedFact)"
    by (simp_all add: demo_filedTime)
  note rule_tie = updateQuarterDatum_recency [of "[(''2024Q2'', storedFact)]" "''2024Q2''" demoEnv
      tiedFact storedFact, THEN conjunct2, THEN conjunct2, THEN conjunct1, rule_format]
  have tie: "mapGet (updateQuarterDatum demoEnv [(''2024Q2'', storedFact)] ''2024Q2'' tiedFact) ''2024Q2''
       = Some tiedFact"
    using stored same fin by (intro rule_tie conjI)
  note rule_ge = updateQuarterDatum_recency [of "[(''2024Q2'', storedFact)]" "''2024Q2''" demoEnv
      olderFact storedFact, THEN conjunct2, THEN conjunct1, rule_format, OF stored]
  have older: "mapGet (updateQuarterDatum demoEnv [(''2024Q2'', storedFact)] ''2024Q2'' olderFact) ''2024Q2''
       = Some storedFact"
    using rule_ge by (simp add: demo_filedTime jsGe_def)
  note rule_new = updateQuarterDatum_recency [of "[]" "''2024Q2''" demoEnv olderFact,
      THEN conjunct1, rule_format]
  have fresh: "mapGet (updateQuarterDatum demoEnv [] ''2024Q2'' olderFact) ''2024Q2'' = Some olderFact"
    by (rule rule_new) (simp add: mapGet_def)
  note rule_other = updateQuarterDatum_recency [of "[(''2024Q2'', storedFact)]" "''2024Q3''" demoEnv
      tiedFact _ "''2024Q2''", THEN conjunct2, THEN conjunct2, THEN conjunct2, THEN conjunct1,
      rule_format]
  have other: "mapGet (updateQuarterDatum demoEnv [(''2024Q2'', storedFact)] ''2024Q3'' tiedFact) ''2024Q2''
       = Some storedFact"
    using rule_other stored by simp
  from stored same fin tie older fresh other show ?thesis
    by (intro conjI)
qed

section \<open>Year-to-date decomposition\<close>

lemma resolveKey_present: "mapHas result k \<Longrightarrow> resolveKey ytdValues k result = result"
  by (simp add: resolveKey_def)

lemma resolveKey_absent:
  assumes "\<not> mapHas result k" and "mapGet ytdValues k = Some current"
  shows "resolveKey ytdValues k result = mapSet result k (resolvedDatum result ytdValues k current)"
  using assms
  by (auto simp add: resolveKey_def resolvedDatum_def ytdQuarterValue_def priorKey_def Let_def
      split: prod.splits option.splits)

lemma ytdQuarterValue_mapSet:
  assumes "mapGet ytdValues a \<noteq> None"
  shows "ytdQuarterValue (mapSet result a v) ytdValues k current
         = ytdQuarterValue result ytdValues k current"
  using assms
  by (auto simp add: ytdQuarterValue_def mapGet_mapSet split: option.splits)

lemma resolve_fold:
  assumes "set ks \<subseteq> set (mapKeys ytdValues)"
  shows "mapGet (fold (resolveKey ytdValues) ks result) k =
     (case mapGet result k of
        Some d \<Rightarrow> Some d
      | None \<Rightarrow>
          if k \<in> set ks
          then Some (resolvedDatum result ytdValues k (the (mapGet ytdValues k)))
          else None)"
  using assms
proof (induction ks arbitrary: result)
  case Nil
  then show ?case by (simp split: option.splits)
next
  case (Cons a ks)
  have sub: "set ks \<subseteq> set (mapKeys ytdValues)" and a: "a \<in> set (mapKeys ytdValues)"
    using Cons.prems by simp_all
  from a obtain current where current: "mapGet ytdValues a = Some current"
    using mapGet_None_iff [of ytdValues a] by (cases "mapGet ytdValues a") auto
  show ?case
  proof (cases "mapHas result a")
    case True
    then have "mapGet result a \<noteq> None"
      by (simp add: mapHas_def mapGet_def)
    then show ?thesis
      using Cons.IH [OF sub, of result] True
      by (auto simp add: resolveKey_present split: option.splits)
  next
    case False
    then have none: "mapGet result a = None"
      by (simp add: mapHas_def mapGet_def)
    let ?result' = "mapSet result a (resolvedDatum result ytdValues a current)"
    have same: "resolvedDatum ?result' ytdValues k c = resolvedDatum result ytdValues k c" for c
      using current by (simp add: resolvedDatum_def ytdQuarterValue_mapSet)
    have "mapGet (fold (resolveKey ytdValues) (a # ks) result) k
        = mapGet (fold (resolveKey ytdValues) ks ?result') k"
      by (simp add: resolveKey_absent [OF False current])
    also have "\<dots> = (case mapGet ?result' k of
        Some d \<Rightarrow> Some d
      | None \<Rightarrow>
          if k \<in> set ks
          then Some (resolvedDatum ?result' ytdValues k (the (mapGet ytdValues k)))
          else None)"
      by (rule Cons.IH [OF sub])
    finally show ?thesis
      using none current by (auto simp add: mapGet_mapSet same split: option.splits)
  qed
qed

lemma resolveYtd_lookup:
  "mapGet (resolveYtd quarterValues ytdValues) k =
     (case mapGet quarterValues k of
        Some d \<Rightarrow> Some d
      | None \<Rightarrow>
          (case mapGet ytdValues k of
             Some current \<Rightarrow> Some (resolvedDatum quarterValues ytdValues k current)
           | None \<Rightarrow> None))"
proof -
  have "mapGet (resolveYtd quarterValues ytdValues) k =
     (case mapGet quarterValues k of
        Some d \<Rightarrow> Some d
      | None \<Rightarrow>
          if k \<in> set (sortBy quarterSortAsc (mapKeys ytdValues))
          then Some (resolvedDatum quarterValues ytdValues k (the (mapGet ytdValues k)))
          else None)"
    unfolding resolveYtd_def Let_def
    by (rule resolve_fold) (simp add: set_sortBy)
  then show ?thesis
    using mapGet_None_iff [of ytdValues k]
    by (auto simp add: set_sortBy split: option.splits)
qed

section \<open>Year-to-date decomposition: the claim\<close>

lemma parse_keys:
  "parseQuarterKey ''2024Q1'' = (2024, 1)"
  "parseQuarterKey ''2024Q2'' = (2024, 2)"
  "parseQuarterKey ''2024Q3'' = (2024, 3)"
  by (simp_all add: parseQuarterKey_def isDigit_def digitsToNat_def digitValue_def)

lemma prior_keys:
  "priorKey ''2024Q2'' = ''2024Q1''"
  "priorKey ''2024Q3'' = ''2024Q2''"
  by (simp_all add: priorKey_def parse_keys showNat.simps digitChar_def)

lemma sort_keys:
  "sortBy quarterSortAsc [''2024Q3'', ''2024Q2''] = [''2024Q2'', ''2024Q3'']"
  "sortBy quarterSortAsc [''2024Q3'', ''2024Q1'', ''2024Q2''] = [''2024Q1'', ''2024Q2'', ''2024Q3'']"
  by (simp_all add: sortBy_def quarterSortAsc_def parse_keys jsGt_def)

text \<open>
  Claim C4. In duration mode the result of the extraction is the year-to-date
  decomposition of the two maps left by the scan. A key present only in the
  year-to-date map receives the entry whose value is \<open>ytdQuarterValue\<close>: its cumulative
  value minus the value of the prior quarter, which is the prior quarter's year-to-date
  entry if there is one and else the prior quarter's quarterly entry; a key of quarter 1
  keeps its value. Cumulative inputs 100 (Q1), 250 (Q2 year-to-date) and 400 (Q3
  year-to-date) give the quarterly values 100, 150, 150, whether Q1 was scanned as a
  quarterly figure or as a year-to-date one.
\<close>

theorem ytd_decomposition:
  "(fold (scanConfig env Duration facts) configs ([], []) = (quarterValues, ytdValues) \<longrightarrow>
      collectFactSeries env facts configs Duration = resolveYtd quarterValues ytdValues)
   \<and> (mapGet quarterValues k = None \<and> mapGet ytdValues k = Some current \<longrightarrow>
        mapGet (resolveYtd quarterValues ytdValues) k =
          Some \<lparr> dValue = ytdQuarterValue quarterValues ytdValues k current,
                 dEnd = dEnd current, dFiled = dFiled current, dStart = None \<rparr>)
   \<and> (snd (parseQuarterKey k) = 1 \<longrightarrow>
        ytdQuarterValue quarterValues ytdValues k current = dValue current)
   \<and> (1 < snd (parseQuarterKey k) \<and> mapGet ytdValues (priorKey k) = Some p \<longrightarrow>
        ytdQuarterValue quarterValues ytdValues k current = jsSub (dValue current) (dValue p))
   \<and> (1 < snd (parseQuarterKey k) \<and> mapGet ytdValues (priorKey k) = None \<and>
      mapGet quarterValues (priorKey k) = Some p \<longrightarrow>
        ytdQuarterValue quarterValues ytdValues k current = jsSub (dValue current) (dValue p))
   \<and> map (\<lambda>(key, d). (key, dValue d))
        (resolveYtd [(''2024Q1'', cumulative 100)]
           [(''2024Q3'', cumulative 400), (''2024Q2'', cumulative 250)])
       = [(''2024Q1'', Fin 100), (''2024Q2'', Fin 150), (''2024Q3'', Fin 150)]
   \<and> map (\<lambda>(key, d). (key, dValue d))
        (resolveYtd []
           [(''2024Q3'', cumulative 400), (''2024Q1'', cumulative 100), (''2024Q2'', cumulative 250)])
       = [(''2024Q1'', Fin 100), (''2024Q2'', Fin 150), (''2024Q3'', Fin 150)]"
proof (intro conjI impI)
  show "collectFactSeries env facts configs Duration = resolveYtd quarterValues ytdValues"
    if "fold (scanConfig env Duration facts) configs ([], []) = (quarterValues, ytdValues)"
    using that by (simp add: collectFactSeries_def)
  show "mapGet (resolveYtd quarterValues ytdValues) k =
          Some \<lparr> dValue = ytdQuarterValue quarterValues ytdValues k current,
                 dEnd = dEnd current, dFiled = dFiled current, dStart = None \<rparr>"
    if "mapGet quarterValues k = None \<and> mapGet ytdValues k = Some current"
    using that by (simp add: resolveYtd_lookup resolvedDatum_def)
  show "ytdQuarterValue quarterValues ytdValues k current = dValue current"
    if "snd (parseQuarterKey k) = 1"
    using that by (simp add: ytdQuarterValue_def)
  show "ytdQuarterValue quarterValues ytdValues k current = jsSub (dValue current) (dValue p)"
    if "1 < snd (parseQuarterKey k) \<and> mapGet ytdValues (priorKey k) = Some p"
    using that by (simp add: ytdQuarterValue_def)
  show "ytdQuarterValue quarterValues ytdValues k current = jsSub (dValue current) (dValue p)"
    if "1 < snd (parseQuarterKey k) \<and> mapGet ytdValues (priorKey k) = None \<and>
        mapGet quarterValues (priorKey k) = Some p"
    using that by (simp add: ytdQuarterValue_def)
  show "map (\<lambda>(key, d). (key, dValue d))
        (resolveYtd [(''2024Q1'', cumulative 100)]
           [(''2024Q3'', cumulative 400), (''2024Q2'', cumulative 250)])
       = [(''2024Q1'', Fin 100), (''2024Q2'', Fin 150), (''2024Q3'', Fin 150)]"
    by (simp add: resolveYtd_def mapKeys_def sort_keys resolveKey_def mapHas_def mapGet_def
        parse_keys showNat.simps digitChar_def cumulative_def)
  show "map (\<lambda>(key, d). (key, dValue d))
        (resolveYtd []
           [(''2024Q3'', cumulative 400), (''2024Q1'', cumulative 100), (''2024Q2'', cumulative 250)])
       = [(''2024Q1'', Fin 100), (''2024Q2'', Fin 150), (''2024Q3'', Fin 150)]"
    by (simp add: resolveYtd_def mapKeys_def sort_keys resolveKey_def mapHas_def mapGet_def
        parse_keys showNat.simps digitChar_def cumulative_def)
qed

text \<open>
  The general statement at the example: the key 2024Q3, present only as a year-to-date
  entry of 400, with the prior quarter's year-to-date entry of 250.
\<close>

theorem ytd_decomposition_witness:
  "mapGet [(''2024Q1'', cumulative 100)] ''2024Q3'' = None
   \<and> mapGet [(''2024Q3'', cumulative 400), (''2024Q2'', cumulative 250)] ''2024Q3''
       = Some (cumulative 400)
   \<and> 1 < snd (parseQuarterKey ''2024Q3'')
   \<and> mapGet [(''2024Q3'', cumulative 400), (''2024Q2'', cumulative 250)] (priorKey ''2024Q3'')
       = Some (cumulative 250)
   \<and> mapGet (resolveYtd [(''2024Q1'', cumulative 100)]
               [(''2024Q3'', cumulative 400), (''2024Q2'', cumulative 250)]) ''2024Q3''
       = Some (cumulative 150)"
proof -
  let ?qv = "[(''2024Q1'', cumulative 100)]"
  let ?yv = "[(''2024Q3'', cumulative 400), (''2024Q2'', cumulative 250)]"
  have a: "mapGet ?qv ''2024Q3'' = None"
    and b: "mapGet ?yv ''2024Q3'' = Some (cumulative 400)"
    and c: "1 < snd (parseQuarterKey ''2024Q3'')"
    and d: "mapGet ?yv (priorKey ''2024Q3'') = Some (cumulative 250)"
    by (simp_all add: mapGet_def parse_keys prior_keys)
  note lookup = ytd_decomposition [where quarterValues = ?qv and ytdValues = ?yv
      and k = "''2024Q3''" and current = "cumulative 400" and p = "cumulative 250",
      THEN conjunct2, THEN conjunct1, rule_format]
  note minus = ytd_decomposition [where quarterValues = ?qv and ytdValues = ?yv
      and k = "''2024Q3''" and current = "cumulative 400" and p = "cumulative 250",
      THEN conjunct2, THEN conjunct2, THEN conjunct2, THEN conjunct1, rule_format]
  have "mapGet (resolveYtd ?qv ?yv) ''2024Q3'' =
          Some \<lparr> dValue = ytdQuarterValue ?qv ?yv ''2024Q3'' (cumulative 400),
                 dEnd = dEnd (cumulative 400), dFiled = dFiled (cumulative 400), dStart = None \<rparr>"
    using a b by (intro lookup conjI)
  moreover have "ytdQuarterValue ?qv ?yv ''2024Q3'' (cumulative 400)
      = jsSub (dValue (cumulative 400)) (dValue (cumulative 250))"
    using c d by (intro minus conjI)
  ultimately have e: "mapGet (resolveYtd ?qv ?yv) ''2024Q3'' = Some (cumulative 150)"
    by (simp add: cumulative_def)
  from a b c d e show ?thesis
    by (intro conjI)
qed

section \<open>Facts without a start date\<close>

text \<open>
  Claim C10. In duration mode, a fact that passes the filters (an accepted form, a
  finite value) and has a resolvable end date but no resolvable start date leaves the
  quarterly map untouched and goes, under the recency rule, into the year-to-date map.
  In the result a key that has a quarterly entry keeps that entry, so the fact
  contributes only for a key without a quarterly entry, and there through the
  subtraction of the prior quarter's cumulative value.
\<close>

theorem start_missing_is_ytd:
  "(factForm entry = Some form \<and> form \<in> set allowedForms \<and> safeNum (factVal entry) = Some v \<and>
    toISODate env (factEnd entry) = Some endIso \<and> endIso \<noteq> [] \<and>
    dayjs env endIso = Moment endMs endQ \<and> toISODate env (factStart entry) = None \<longrightarrow>
      processEntry env Duration unit entry (quarterValues, ytdValues) =
        (quarterValues,
         updateQuarterDatum env ytdValues (factKey env entry form endQ)
           \<lparr> dValue = normalizeValue v unit,
             dEnd = Some (isoString env endMs),
             dFiled = Some (case factFiled entry of Some s \<Rightarrow> s | None \<Rightarrow> isoString env endMs),
             dStart = None \<rparr>))
   \<and> (mapGet quarterValues k = Some d \<longrightarrow> mapGet (resolveYtd quarterValues ytdValues) k = Some d)
   \<and> (mapGet quarterValues k = None \<and> mapGet ytdValues k = Some current \<longrightarrow>
        mapGet (resolveYtd quarterValues ytdValues) k =
          Some \<lparr> dValue = ytdQuarterValue quarterValues ytdValues k current,
                 dEnd = dEnd current, dFiled = dFiled current, dStart = None \<rparr>)"
proof (intro conjI impI)
  assume a: "factForm entry = Some form \<and> form \<in> set allowedForms \<and> safeNum (factVal entry) = Some v \<and>
    toISODate env (factEnd entry) = Some endIso \<and> endIso \<noteq> [] \<and>
    dayjs env endIso = Moment endMs endQ \<and> toISODate env (factStart entry) = None"
  then have "form \<noteq> []"
    by (auto simp add: allowedForms_def)
  with a show "processEntry env Duration unit entry (quarterValues, ytdValues) =
        (quarterValues,
         updateQuarterDatum env ytdValues (factKey env entry form endQ)
           \<lparr> dValue = normalizeValue v unit,
             dEnd = Some (isoString env endMs),
             dFiled = Some (case factFiled entry of Some s \<Rightarrow> s | None \<Rightarrow> isoString env endMs),
             dStart = None \<rparr>)"
    by (simp add: processEntry_def durationDays_def Let_def)
next
  show "mapGet (resolveYtd quarterValues ytdValues) k = Some d" if "mapGet quarterValues k = Some d"
    using that by (simp add: resolveYtd_lookup)
next
  show "mapGet (resolveYtd quarterValues ytdValues) k =
          Some \<lparr> dValue = ytdQuarterValue quarterValues ytdValues k current,
                 dEnd = dEnd current, dFiled = dFiled current, dStart = None \<rparr>"
    if "mapGet quarterValues k = None \<and> mapGet ytdValues k = Some current"
    using that by (simp add: resolveYtd_lookup resolvedDatum_def)
qed

lemma demo_fact_dates:
  "dayjs demoEnv ''2024-09-30'' = Moment 1727654400000 8098"
  "dayjs demoEnv ''2024-09-30T00:00:00.000Z'' = Moment 1727654400000 8098"
  "isoString demoEnv 1727654400000 = ''2024-09-30T00:00:00.000Z''"
  by (simp_all add: demoEnv_def demoDates_def demoIso_def)

lemma q3Fact_key: "factKey demoEnv q3Fact ''10-Q'' 8098 = ''2024Q3''"
  by (simp add: factKey_def factYearQuarter_def q3Fact_def startsWith_def jsNumber_def isDigit_def
      digitsToNat_def digitValue_def jsGt_def numToString_def showInt_def showNat.simps digitChar_def)

text \<open>
  A concrete run: the fact is stored under 2024Q3 in the year-to-date map. Against a
  quarterly entry for 2024Q3 it does not show in the result; without one, and with a
  quarterly entry of 250 for 2024Q2, it contributes 400 - 250.
\<close>

theorem start_missing_is_ytd_witness:
  "factForm q3Fact = Some ''10-Q'' \<and> ''10-Q'' \<in> set allowedForms
   \<and> safeNum (factVal q3Fact) = Some (Fin 400)
   \<and> toISODate demoEnv (factEnd q3Fact) = Some ''2024-09-30T00:00:00.000Z''
   \<and> dayjs demoEnv ''2024-09-30T00:00:00.000Z'' = Moment 1727654400000 8098
   \<and> toISODate demoEnv (factStart q3Fact) = None
   \<and> processEntry demoEnv Duration ''USD'' q3Fact ([], []) = ([], [(''2024Q3'', q3Datum)])
   \<and> mapGet (resolveYtd [(''2024Q3'', cumulative 120)] [(''2024Q3'', q3Datum)]) ''2024Q3''
       = Some (cumulative 120)
   \<and> mapGet (resolveYtd [(''2024Q2'', cumulative 250)] [(''2024Q3'', q3Datum)]) ''2024Q3''
       = Some (q3Datum\<lparr>dValue := Fin 150\<rparr>)"
proof -
  have form: "factForm q3Fact = Some ''10-Q''" and allowed: "''10-Q'' \<in> set allowedForms"
    and val: "safeNum (factVal q3Fact) = Some (Fin 400)"
    by (simp_all add: q3Fact_def allowedForms_def safeNum_def)
  have endI: "toISODate demoEnv (factEnd q3Fact) = Some ''2024-09-30T00:00:00.000Z''"
    and startI: "toISODate demoEnv (factStart q3Fact) = None"
    by (simp_all add: q3Fact_def toISODate_def demo_fact_dates)
  note reparse = demo_fact_dates(2)
  note rule_entry = start_missing_is_ytd [where entry = q3Fact and form = "''10-Q''"
      and v = "Fin 400" and env = demoEnv and endIso = "''2024-09-30T00:00:00.000Z''"
      and endMs = 1727654400000 and endQ = 8098 and unit = "''USD''"
      and quarterValues = "[]" and ytdValues = "[]",
      THEN conjunct1, rule_format]
  have "processEntry demoEnv Duration ''USD'' q3Fact ([], []) =
        ([], updateQuarterDatum demoEnv [] (factKey demoEnv q3Fact ''10-Q'' 8098)
           \<lparr> dValue = normalizeValue (Fin 400) ''USD'',
             dEnd = Some (isoString demoEnv 1727654400000),
             dFiled = Some (case factFiled q3Fact of Some s \<Rightarrow> s
                            | None \<Rightarrow> isoString demoEnv 1727654400000),
             dStart = None \<rparr>)"
    using form allowed val endI startI reparse by (intro rule_entry conjI) simp_all
  then have entry: "processEntry demoEnv Duration ''USD'' q3Fact ([], []) = ([], [(''2024Q3'', q3Datum)])"
    by (simp add: q3Fact_key demo_fact_dates normalizeValue_def toLowerCase_def toLowerChar_def
        updateQuarterDatum_def mapGet_def q3Datum_def)
      (simp add: q3Fact_def)
  note rule_kept = start_missing_is_ytd [where quarterValues = "[(''2024Q3'', cumulative 120)]"
      and k = "''2024Q3''" and d = "cumulative 120" and ytdValues = "[(''2024Q3'', q3Datum)]",
      THEN conjunct2, THEN conjunct1, rule_format]
  have kept: "mapGet (resolveYtd [(''2024Q3'', cumulative 120)] [(''2024Q3'', q3Datum)]) ''2024Q3''
       = Some (cumulative 120)"
    by (rule rule_kept) (simp add: mapGet_def)
  note rule_sub = start_missing_is_ytd [where quarterValues = "[(''2024Q2'', cumulative 250)]"
      and k = "''2024Q3''" and ytdValues = "[(''2024Q3'', q3Datum)]" and current = q3Datum,
      THEN conjunct2, THEN conjunct2, rule_format]
  have "mapGet (resolveYtd [(''2024Q2'', cumulative 250)] [(''2024Q3'', q3Datum)]) ''2024Q3''
       = Some \<lparr> dValue = ytdQuarterValue [(''2024Q2'', cumulative 250)] [(''2024Q3'', q3Datum)]
                          ''2024Q3'' q3Datum,
                dEnd = dEnd q3Datum, dFiled = dFiled q3Datum, dStart = None \<rparr>"
    by (rule rule_sub) (simp add: mapGet_def)
  then have sub: "mapGet (resolveYtd [(''2024Q2'', cumulative 250)] [(''2024Q3'', q3Datum)]) ''2024Q3''
       = Some (q3Datum\<lparr>dValue := Fin 150\<rparr>)"
    by (simp add: ytdQuarterValue_def parse_keys prior_keys mapGet_def q3Datum_def cumulative_def)
  from form allowed val endI reparse startI entry kept sub show ?thesis
    by (intro conjI)
qed

end
